theory Spec2Isabelle
  imports Complex_Main "HOL-Library.AList" "HOL-Library.Sublist"
begin

section \<open>Structured LLM output (services/llm/types.py)\<close>

text \<open>
  The pydantic models of the repository are embedded as records.  Python's unbounded
  integers are \<open>int\<close>, an \<open>Optional\<close> field is an \<open>option\<close>, a timestamp is a
  clock reading in \<open>nat\<close>.  Field names carry a prefix where two models share a
  name.  The constant fields \<open>partition_key\<close> and \<open>type\<close> of the stored models are
  left out: every container holds documents of one type only.
\<close>

record Date =
  month :: int
  year :: int

record Location =
  city :: "string option"
  country :: "string option"

datatype EmploymentType = CONTRACT | FULL_TIME | INTERNSHIP | PART_TIME | VOLUNTEER

datatype Level = ENTRY_LEVEL | JUNIOR | MID_LEVEL | SENIOR | EXECUTIVE

datatype RoleMode = HYBRID | ON_SITE | REMOTE

record Certification =
  cert_field :: "string option"
  cert_level :: "string option"
  cert_name :: "string option"

record ContactDetails =
  email :: "string option"
  phone_number :: "string option"

record Award =
  award_date :: "Date option"
  award_description :: "string option"
  award_name :: "string option"

record Education =
  certification :: Certification
  edu_end_date :: Date
  institution :: "string option"
  edu_location :: Location
  edu_start_date :: Date

record Employment =
  emp_organization_name :: "string option"
  end_date :: Date
  emp_location :: Location
  emp_role :: "string option"
  start_date :: Date
  emp_summary :: "string option"
  emp_type :: "EmploymentType option"

record CVProfile =
  awards :: "Award list"
  contact_details :: ContactDetails
  education_history :: "Education list"
  employment_history :: "Employment list"
  highlights :: "string list"
  hobbies :: "string list"
  industries :: "string list"
  job_title :: "string option"
  level :: "Level option"
  location :: Location
  name :: "string option"
  nationality :: "string option"
  skills :: "string list"
  spoken_languages :: "string list"
  summary :: "string option"
  urls :: "string list"

text \<open>
  \<open>RoleProfile\<close> is also the type of the \<open>role_profile\<close> argument of
  \<open>update_role_profile\<close>, which the Listing worker calls with a \<open>RoleProfileRun\<close> as
  well (duck typing).  Its \<open>description\<close> and \<open>title\<close> are therefore optional here, and
  \<open>location\<close> is optional because the model declares \<open>location: "Location" = None\<close>.
\<close>

record RoleProfile =
  jd_benefits :: "string list"
  jd_description :: "string option"
  jd_employment_type :: "EmploymentType option"
  jd_industry :: "string option"
  jd_job_id :: "string option"
  jd_level :: "Level option"
  jd_location :: "Location option"
  jd_organization_name :: "string option"
  jd_preferred_qualifications :: "string list"
  jd_requirements :: "string list"
  jd_role_mode :: "RoleMode option"
  jd_salary :: "string option"
  jd_title :: "string option"
  jd_url :: "string option"

text \<open>
  Modelled from the spec: the class \<open>CVDescription\<close> of services/vision/types.py is not
  among the source files.  The spec calls it the Creativity Assessment and names its three
  sub-scores (creativity, formatting, grammar), which are the only fields the workers read.
\<close>

record CVDescription =
  creativity_score :: int
  formatting_score :: int
  grammar_score :: int

section \<open>Stored models (services/users/schemas.py, services/roles/schemas.py)\<close>

text \<open>
  \<open>CVProfileRunStatus\<close> and \<open>RoleListingRunStatus\<close> are two string enumerations with
  the same three members; one datatype stands for both.
\<close>

datatype RunStatus = COMPLETED | FAILED | PENDING

datatype UserRole = RECRUITER | JOB_SEEKER

record User =
  user_id :: string
  user_created_at :: nat
  user_updated_at :: nat
  user_average_tenure :: "rat option"
  user_awards :: "Award list"
  user_contact_details :: ContactDetails
  user_creativity_score :: "int option"
  user_education_history :: "Education list"
  user_embeddings :: "rat list"
  user_employment_history :: "Employment list"
  user_formatting_score :: "int option"
  user_grammar_score :: "int option"
  user_highlights :: "string list"
  user_hobbies :: "string list"
  user_industries :: "string list"
  user_is_onboarded :: bool
  user_job_title :: "string option"
  user_level :: "Level option"
  user_location :: Location
  user_location_preferences :: "Location list"
  user_name :: "string option"
  user_nationality :: "string option"
  user_profile_picture_url :: "string option"
  user_role :: "UserRole option"
  user_skills :: "string list"
  user_spoken_languages :: "string list"
  user_summary :: "string option"
  user_urls :: "string list"
  user_years_experience :: "rat option"

record CVProfileRun =
  cv_id :: string
  cv_created_at :: nat
  cv_updated_at :: nat
  cv_average_tenure :: "rat option"
  cv_awards :: "Award list"
  cv_contact_details :: ContactDetails
  cv_creativity_score :: "int option"
  cv_education_history :: "Education list"
  cv_employment_history :: "Employment list"
  cv_file_path :: string
  cv_formatting_score :: "int option"
  cv_grammar_score :: "int option"
  cv_highlights :: "string list"
  cv_hobbies :: "string list"
  cv_industries :: "string list"
  cv_job_title :: "string option"
  cv_level :: "Level option"
  cv_location :: Location
  cv_name :: "string option"
  cv_nationality :: "string option"
  cv_skills :: "string list"
  cv_spoken_languages :: "string list"
  cv_status :: RunStatus
  cv_status_comment :: "string option"
  cv_summary :: "string option"
  cv_urls :: "string list"
  cv_years_experience :: "rat option"

record RoleProfileRun =
  run_id :: string
  run_created_at :: nat
  run_updated_at :: nat
  run_benefits :: "string list"
  run_creator_id :: string
  run_description :: "string option"
  run_employment_type :: "EmploymentType option"
  run_file_path :: string
  run_industry :: "string option"
  run_job_id :: "string option"
  run_level :: "Level option"
  run_location :: Location
  run_organization_name :: "string option"
  run_preferred_qualifications :: "string list"
  run_requirements :: "string list"
  run_role_mode :: "RoleMode option"
  run_salary :: "string option"
  run_status :: RunStatus
  run_status_comment :: "string option"
  run_title :: "string option"
  run_url :: "string option"

record RoleListing =
  listing_id :: string
  listing_created_at :: nat
  listing_updated_at :: nat
  listing_benefits :: "string list"
  listing_creator_id :: string
  listing_description :: "string option"
  listing_embeddings :: "rat list"
  listing_employment_type :: "EmploymentType option"
  listing_industry :: "string option"
  listing_is_active :: bool
  listing_job_id :: "string option"
  listing_level :: "Level option"
  listing_location :: Location
  listing_organization_name :: "string option"
  listing_preferred_qualifications :: "string list"
  listing_requirements :: "string list"
  listing_role_mode :: "RoleMode option"
  listing_salary :: "string option"
  listing_title :: "string option"
  listing_url :: "string option"

section \<open>Exceptions (exceptions.py) and the built-in ones the pipeline meets\<close>

text \<open>
  The two string arguments of the \<open>CVError\<close> and \<open>RoleListingError\<close> families are the
  message and the item id.  \<open>ServiceFailure\<close> stands for whatever a collaborator outside
  the repository (file system, PDF reader, document analysis) raises, with its message.
\<close>

datatype exn =
    CVError string string
  | CVFormatError string string
  | CVLengthError string string
  | RoleListingError string string
  | JDFormatError string string
  | JDLengthError string string
  | LLMInferenceError string
  | UserNotFoundError string
  | ValueError string
  | TypeError string
  | AttributeError string
  | KeyError string
  | ValidationError string
  | ServiceFailure string

text \<open>\<open>str(e)\<close>: the message the exception was built with.\<close>

fun str :: "exn \<Rightarrow> string" where
  "str (CVError m i) = m"
| "str (CVFormatError m i) = m"
| "str (CVLengthError m i) = m"
| "str (RoleListingError m i) = m"
| "str (JDFormatError m i) = m"
| "str (JDLengthError m i) = m"
| "str (LLMInferenceError m) = m"
| "str (UserNotFoundError m) = m"
| "str (ValueError m) = m"
| "str (TypeError m) = m"
| "str (AttributeError m) = m"
| "str (KeyError m) = m"
| "str (ValidationError m) = m"
| "str (ServiceFailure m) = m"

text \<open>
  \<open>except CVError as e\<close> and \<open>except RoleListingError as e\<close>: the clause matches the
  class and its subclasses, and the handler reads \<open>e.cv_id\<close> or \<open>e.jd_id\<close>.
\<close>

fun as_CVError :: "exn \<Rightarrow> string option" where
  "as_CVError (CVError m i) = Some i"
| "as_CVError (CVFormatError m i) = Some i"
| "as_CVError (CVLengthError m i) = Some i"
| "as_CVError e = None"

fun as_RoleListingError :: "exn \<Rightarrow> string option" where
  "as_RoleListingError (RoleListingError m i) = Some i"
| "as_RoleListingError (JDFormatError m i) = Some i"
| "as_RoleListingError (JDLengthError m i) = Some i"
| "as_RoleListingError e = None"

section \<open>Strings and the call protocol\<close>

definition lower :: "string \<Rightarrow> string" where
  "lower s =
     map (\<lambda>c. let n = (of_char c :: nat)
              in if 65 \<le> n \<and> n \<le> 90 then char_of (n + 32) else c) s"

definition endswith :: "string \<Rightarrow> string \<Rightarrow> bool" where
  "endswith s ending = suffix ending s"

text \<open>The decimal digits an f-string prints for a page count.\<close>

fun str_nat :: "nat \<Rightarrow> string" where
  "str_nat n =
     (if n < 10 then [char_of (48 + n)]
      else str_nat (n div 10) @ [char_of (48 + n mod 10)])"

declare str_nat.simps [simp del]

fun join :: "string \<Rightarrow> string list \<Rightarrow> string" where
  "join sep [] = []"
| "join sep [x] = x"
| "join sep (x # y # ys) = x @ sep @ join sep (y # ys)"

text \<open>
  A Python call binds its arguments to the parameters of the \<open>def\<close> before the body
  runs: a keyword that names no parameter, or one already bound by position, and a
  required parameter left unbound each raise \<open>TypeError\<close>.  A signature lists the
  parameter names in order, how many of them have no default, and how many may be
  passed by position (those before the bare \<open>*\<close>).
\<close>

record signature =
  sig_params :: "string list"
  sig_required :: nat
  sig_positional :: nat

definition bind_arguments :: "signature \<Rightarrow> nat \<Rightarrow> string list \<Rightarrow> exn option" where
  "bind_arguments sig n_positional keywords =
     (let bound = take n_positional (sig_params sig)
      in if sig_positional sig < n_positional
         then Some (TypeError ''too many positional arguments'')
         else case filter (\<lambda>k. k \<in> set bound \<or> k \<notin> set (sig_params sig)) keywords of
                k # _ \<Rightarrow> Some (TypeError (''got an unexpected keyword argument '' @ k))
              | [] \<Rightarrow>
                 (case filter (\<lambda>p. p \<notin> set bound \<and> p \<notin> set keywords)
                         (take (sig_required sig) (sig_params sig)) of
                    p # _ \<Rightarrow> Some (TypeError (''missing required argument '' @ p))
                  | [] \<Rightarrow> None))"

section \<open>The Persistent Store, the queues and the collaborators\<close>

text \<open>
  The Persistent Store is a collaborator with keyed upsert, get, delete and query: each
  container is an association list from document id to document, an upsert is
  \<open>AList.update\<close> under the id the document carries, a query filters the
  documents in the order of the list.  The store is taken to work: its calls return.
  The three worker classes are process-wide singletons; the attributes of each instance
  are fields of the one process state, and \<open>initialized\<close> is false while the instance has
  no such attribute.  The error log keeps the entries the worker loops write at error
  level.
\<close>

datatype log_entry = WorkerError string string | LoggedException string

record system =
  users :: "(string \<times> User) list"
  cv_profiles :: "(string \<times> CVProfileRun) list"
  role_profiles :: "(string \<times> RoleProfileRun) list"
  role_listings :: "(string \<times> RoleListing) list"
  cv_initialized :: bool
  cv_is_running :: bool
  cv_queue :: "(string \<times> string) list"
  jd_initialized :: bool
  jd_is_running :: bool
  jd_queue :: "(string \<times> string) list"
  profiler_initialized :: bool
  profiler_is_running :: bool
  profile_queue :: "(string \<times> string list \<times> CVDescription option) list"
  error_log :: "log_entry list"

text \<open>
  What the world outside the repository answers during one request or one pass of a
  worker loop: the clock, the uuid generator, the PDF reader (the pages of the file, each
  with its \<open>/Annots\<close> array when it has one), the document-analysis service, the page
  renderer together with the scratch directory it writes to, and the three model
  endpoints.  \<open>Inl\<close> is the message of the exception the call raises; none of
  these is an exception of the repository, whose \<open>CVError\<close> and
  \<open>RoleListingError\<close> families are constructed in the two workers only.
\<close>

datatype 'a completion = Refusal string | Parsed 'a

datatype annotation =
  Annotation (annot_A: "string option option") (annot_Contents: "string option")
    (annot_T: "string option")

type_synonym pdf_page = "annotation list option"

record services =
  clock :: nat
  today :: Date
  uuid4 :: string
  pdf_reader :: "string \<Rightarrow> string + pdf_page list"
  analyze_paragraphs :: "string \<Rightarrow> string + string list"
  render_pages :: "string \<Rightarrow> string + string list"
  vision_client_configured :: bool
  vision_completion :: "string list \<Rightarrow> string + CVDescription completion"
  cv_completion ::
    "string list \<Rightarrow> CVDescription option \<Rightarrow> string + CVProfile completion"
  jd_completion :: "string list \<Rightarrow> string + RoleProfile completion"
  embeddings_create :: "string \<Rightarrow> string + rat list"

definition CV_MAX_PAGES :: nat where
  "CV_MAX_PAGES = 2"

definition JD_MAX_PAGES :: nat where
  "JD_MAX_PAGES = 3"

section \<open>CVProfileManager (services/users/cv_profile_manager.py)\<close>

text \<open>\<open>CVProfileRun(id=..., file_path=..., status=...)\<close> with the defaults of the model.\<close>

definition new_CVProfileRun :: "nat \<Rightarrow> string \<Rightarrow> string \<Rightarrow> RunStatus \<Rightarrow> CVProfileRun" where
  "new_CVProfileRun now ident file_path status =
     \<lparr>cv_id = ident, cv_created_at = now, cv_updated_at = now, cv_average_tenure = None,
      cv_awards = [], cv_contact_details = \<lparr>email = None, phone_number = None\<rparr>,
      cv_creativity_score = None, cv_education_history = [], cv_employment_history = [],
      cv_file_path = file_path, cv_formatting_score = None, cv_grammar_score = None,
      cv_highlights = [], cv_hobbies = [], cv_industries = [], cv_job_title = None,
      cv_level = None, cv_location = \<lparr>city = None, country = None\<rparr>, cv_name = None,
      cv_nationality = None, cv_skills = [], cv_spoken_languages = [], cv_status = status,
      cv_status_comment = None, cv_summary = None, cv_urls = [],
      cv_years_experience = None\<rparr>"

definition add_cv_profile :: "nat \<Rightarrow> string \<Rightarrow> string \<Rightarrow> system \<Rightarrow> exn + system" where
  "add_cv_profile now user_ident file_path s =
     (if user_ident = [] then Inl (ValueError ''Missing user ID'')
      else if file_path = [] then Inl (ValueError ''Missing file path'')
      else let cv_profile_run = new_CVProfileRun now user_ident file_path PENDING
           in Inr (s\<lparr>cv_profiles :=
                        AList.update (cv_id cv_profile_run) cv_profile_run (cv_profiles s)\<rparr>))"

definition get_cv_profile :: "system \<Rightarrow> string \<Rightarrow> CVProfileRun option" where
  "get_cv_profile s user_ident = map_of (cv_profiles s) user_ident"

definition get_pending_cv_profiles :: "system \<Rightarrow> CVProfileRun list" where
  "get_pending_cv_profiles s = filter (\<lambda>c. cv_status c = PENDING) (map snd (cv_profiles s))"

text \<open>
  The worker passes a \<open>CVProfileRun\<close> where \<open>update_cv_profile\<close> expects a
  \<open>CVProfile\<close>; the callee reads the sixteen fields the two models share.
\<close>

definition as_CVProfile :: "CVProfileRun \<Rightarrow> CVProfile" where
  "as_CVProfile r =
     \<lparr>awards = cv_awards r, contact_details = cv_contact_details r,
      education_history = cv_education_history r,
      employment_history = cv_employment_history r, highlights = cv_highlights r,
      hobbies = cv_hobbies r, industries = cv_industries r, job_title = cv_job_title r,
      level = cv_level r, location = cv_location r, name = cv_name r,
      nationality = cv_nationality r, skills = cv_skills r,
      spoken_languages = cv_spoken_languages r, summary = cv_summary r, urls = cv_urls r\<rparr>"

text \<open>
  \<open>_create_cv_profile_run_from_cv_profile\<close>.  The profile is \<open>None\<close> when the model
  refused; reading its first field then raises.
\<close>

definition create_cv_profile_run_from_cv_profile ::
  "nat \<Rightarrow> string \<Rightarrow> CVProfile option \<Rightarrow> string \<Rightarrow> rat option \<Rightarrow> int option \<Rightarrow> int option \<Rightarrow>
   int option \<Rightarrow> RunStatus \<Rightarrow> string option \<Rightarrow> rat option \<Rightarrow> exn + CVProfileRun" where
  "create_cv_profile_run_from_cv_profile now user_ident cv_profile file_path average_tenure
     creativity formatting grammar status status_comment years_experience =
     (case cv_profile of
        None \<Rightarrow> Inl (AttributeError ''NoneType object has no attribute awards'')
      | Some p \<Rightarrow>
          Inr \<lparr>cv_id = user_ident, cv_created_at = now, cv_updated_at = now,
               cv_average_tenure = average_tenure, cv_awards = awards p,
               cv_contact_details = contact_details p, cv_creativity_score = creativity,
               cv_education_history = education_history p,
               cv_employment_history = employment_history p, cv_file_path = file_path,
               cv_formatting_score = formatting, cv_grammar_score = grammar,
               cv_highlights = highlights p, cv_hobbies = hobbies p,
               cv_industries = industries p, cv_job_title = job_title p,
               cv_level = level p, cv_location = location p, cv_name = name p,
               cv_nationality = nationality p, cv_skills = skills p,
               cv_spoken_languages = spoken_languages p, cv_status = status,
               cv_status_comment = status_comment, cv_summary = summary p,
               cv_urls = urls p, cv_years_experience = years_experience\<rparr>)"

definition update_cv_profile_sig :: signature where
  "update_cv_profile_sig =
     \<lparr>sig_params = [''user_id'', ''cv_profile'', ''average_tenure'', ''creativity_score'',
                     ''formatting_score'', ''grammar_score'', ''status'', ''status_comment'',
                     ''years_experience''],
      sig_required = 2, sig_positional = 2\<rparr>"

definition update_cv_profile ::
  "nat \<Rightarrow> string \<Rightarrow> CVProfile option \<Rightarrow> rat option \<Rightarrow> int option \<Rightarrow> int option \<Rightarrow> int option \<Rightarrow>
   RunStatus \<Rightarrow> string option \<Rightarrow> rat option \<Rightarrow> system \<Rightarrow> exn + system" where
  "update_cv_profile now user_ident cv_profile average_tenure creativity formatting grammar
     status status_comment years_experience s =
     (case get_cv_profile s user_ident of
        None \<Rightarrow> Inl (ValueError (''No CV profile found for user '' @ user_ident))
      | Some profile \<Rightarrow>
          (case create_cv_profile_run_from_cv_profile now user_ident cv_profile
                  (cv_file_path profile) average_tenure creativity formatting grammar status
                  status_comment years_experience of
             Inl e \<Rightarrow> Inl e
           | Inr updated_profile \<Rightarrow>
               let updated_profile = updated_profile\<lparr>cv_created_at := cv_created_at profile\<rparr>
               in Inr (s\<lparr>cv_profiles :=
                            AList.update (cv_id updated_profile) updated_profile
                              (cv_profiles s)\<rparr>)))"


section \<open>RoleProfileManager (services/roles/role_profile_manager.py)\<close>

text \<open>\<open>RoleProfileRun(creator_id=..., file_path=..., id=..., status=...)\<close> with the defaults.\<close>

definition new_RoleProfileRun ::
  "nat \<Rightarrow> string \<Rightarrow> string \<Rightarrow> string \<Rightarrow> RunStatus \<Rightarrow> RoleProfileRun" where
  "new_RoleProfileRun now creator file_path ident status =
     \<lparr>run_id = ident, run_created_at = now, run_updated_at = now, run_benefits = [],
      run_creator_id = creator, run_description = None, run_employment_type = None,
      run_file_path = file_path, run_industry = None, run_job_id = None, run_level = None,
      run_location = \<lparr>city = None, country = None\<rparr>, run_organization_name = None,
      run_preferred_qualifications = [], run_requirements = [], run_role_mode = None,
      run_salary = None, run_status = status, run_status_comment = None, run_title = None,
      run_url = None\<rparr>"

definition add_role_profile :: "nat \<Rightarrow> string \<Rightarrow> string \<Rightarrow> string \<Rightarrow> system \<Rightarrow> exn + system" where
  "add_role_profile now role_ident file_path creator s =
     (if file_path = [] then Inl (ValueError ''Missing file path'')
      else let role_profile_run = new_RoleProfileRun now creator file_path role_ident PENDING
           in Inr (s\<lparr>role_profiles :=
                        AList.update (run_id role_profile_run) role_profile_run
                          (role_profiles s)\<rparr>))"

definition delete_role_profile :: "string \<Rightarrow> system \<Rightarrow> system" where
  "delete_role_profile role_ident s =
     s\<lparr>role_profiles := AList.delete role_ident (role_profiles s)\<rparr>"

definition get_pending_role_profiles :: "system \<Rightarrow> RoleProfileRun list" where
  "get_pending_role_profiles s =
     filter (\<lambda>r. run_status r = PENDING) (map snd (role_profiles s))"

definition get_role_profile :: "system \<Rightarrow> string \<Rightarrow> RoleProfileRun option" where
  "get_role_profile s role_ident = map_of (role_profiles s) role_ident"

definition as_RoleProfile :: "RoleProfileRun \<Rightarrow> RoleProfile" where
  "as_RoleProfile r =
     \<lparr>jd_benefits = run_benefits r, jd_description = run_description r,
      jd_employment_type = run_employment_type r, jd_industry = run_industry r,
      jd_job_id = run_job_id r, jd_level = run_level r,
      jd_location = Some (run_location r), jd_organization_name = run_organization_name r,
      jd_preferred_qualifications = run_preferred_qualifications r,
      jd_requirements = run_requirements r, jd_role_mode = run_role_mode r,
      jd_salary = run_salary r, jd_title = run_title r, jd_url = run_url r\<rparr>"

text \<open>
  \<open>_create_role_profile_run_from_profile\<close>, as \<open>update_role_profile\<close> calls it: always
  with an existing run, whose fields the dictionary \<open>profile_data\<close> overrides.  The
  dictionary has no \<open>job_id\<close>, so the run keeps its own.  \<open>model_validate\<close> rejects a
  missing location, which \<open>RoleProfileRun\<close> requires.
\<close>

definition create_role_profile_run_from_profile ::
  "nat \<Rightarrow> RoleProfile option \<Rightarrow> string \<Rightarrow> string \<Rightarrow> RoleProfileRun \<Rightarrow> RunStatus \<Rightarrow>
   string option \<Rightarrow> exn + RoleProfileRun" where
  "create_role_profile_run_from_profile now role_profile file_path creator existing_profile
     status status_comment =
     (case role_profile of
        None \<Rightarrow> Inl (AttributeError ''NoneType object has no attribute benefits'')
      | Some p \<Rightarrow>
          (case jd_location p of
             None \<Rightarrow> Inl (ValidationError ''location: input should be a valid dictionary'')
           | Some loc \<Rightarrow>
               Inr (existing_profile
                     \<lparr>run_benefits := jd_benefits p, run_creator_id := creator,
                      run_description := jd_description p,
                      run_employment_type := jd_employment_type p,
                      run_file_path := file_path, run_industry := jd_industry p,
                      run_level := jd_level p, run_location := loc,
                      run_organization_name := jd_organization_name p,
                      run_preferred_qualifications := jd_preferred_qualifications p,
                      run_requirements := jd_requirements p,
                      run_role_mode := jd_role_mode p, run_salary := jd_salary p,
                      run_title := jd_title p, run_url := jd_url p, run_status := status,
                      run_status_comment := status_comment, run_updated_at := now\<rparr>)))"

definition update_role_profile_sig :: signature where
  "update_role_profile_sig =
     \<lparr>sig_params = [''role_id'', ''role_profile'', ''creator_id'', ''status'',
                     ''status_comment''],
      sig_required = 3, sig_positional = 5\<rparr>"

definition update_role_profile ::
  "nat \<Rightarrow> string \<Rightarrow> RoleProfile option \<Rightarrow> string \<Rightarrow> RunStatus \<Rightarrow> string option \<Rightarrow> system \<Rightarrow>
   exn + RoleProfileRun \<times> system" where
  "update_role_profile now role_ident role_profile creator status status_comment s =
     (case get_role_profile s role_ident of
        None \<Rightarrow> Inl (ValueError (''No role profile found with ID '' @ role_ident))
      | Some existing_profile \<Rightarrow>
          (case create_role_profile_run_from_profile now role_profile
                  (run_file_path existing_profile) creator existing_profile status
                  status_comment of
             Inl e \<Rightarrow> Inl e
           | Inr updated_profile \<Rightarrow>
               Inr (updated_profile,
                    s\<lparr>role_profiles :=
                         AList.update (run_id updated_profile) updated_profile
                           (role_profiles s)\<rparr>)))"

section \<open>EmbeddingsClient and RoleListingManager\<close>

definition generate_embeddings :: "services \<Rightarrow> string \<Rightarrow> exn + rat list" where
  "generate_embeddings sv input_text =
     (if input_text = [] then Inl (ValueError ''No text provided to generate embeddings!'')
      else case embeddings_create sv input_text of
             Inl m \<Rightarrow> Inl (ValueError (''Failed to generate embeddings: '' @ m))
           | Inr v \<Rightarrow> Inr v)"

definition add_role :: "RoleListing \<Rightarrow> system \<Rightarrow> system" where
  "add_role role s =
     s\<lparr>role_listings := AList.update (listing_id role) role (role_listings s)\<rparr>"

definition get_role_by_id :: "system \<Rightarrow> string \<Rightarrow> RoleListing option" where
  "get_role_by_id s role_ident = map_of (role_listings s) role_ident"

definition delete_role :: "string \<Rightarrow> system \<Rightarrow> system" where
  "delete_role role_ident s =
     s\<lparr>role_listings := AList.delete role_ident (role_listings s)\<rparr>"

text \<open>
  The text the embedding of a new listing is computed from: the description, with the
  title in front and the requirements behind when they are not empty.
\<close>

definition listing_text :: "RoleProfileRun \<Rightarrow> string \<Rightarrow> string" where
  "listing_text role_profile_run description =
     (let description =
            (case run_title role_profile_run of
               None \<Rightarrow> description
             | Some t \<Rightarrow> if t = [] then description else t @ ''. '' @ description);
          description =
            (if run_requirements role_profile_run = [] then description
             else description @ ''. Requirements: ''
                    @ join ''. '' (run_requirements role_profile_run))
      in description)"

text \<open>
  \<open>add_role_from_profile\<close>: the new listing takes every field of the run that
  \<open>RoleListing\<close> has, except the id and the timestamps, which are fresh.  A failure of
  the embedding call is logged as a warning and swallowed.
\<close>

definition add_role_from_profile ::
  "services \<Rightarrow> RoleProfileRun \<Rightarrow> system \<Rightarrow> exn + RoleListing \<times> system" where
  "add_role_from_profile sv role_profile_run s =
     (if run_status role_profile_run \<noteq> COMPLETED
      then Inl (ValueError ''Cannot create role from incomplete profile'')
      else
        let new_role =
              \<lparr>listing_id = uuid4 sv, listing_created_at = clock sv,
               listing_updated_at = clock sv,
               listing_benefits = run_benefits role_profile_run,
               listing_creator_id = run_creator_id role_profile_run,
               listing_description = run_description role_profile_run,
               listing_embeddings = [],
               listing_employment_type = run_employment_type role_profile_run,
               listing_industry = run_industry role_profile_run,
               listing_is_active = True, listing_job_id = run_job_id role_profile_run,
               listing_level = run_level role_profile_run,
               listing_location = run_location role_profile_run,
               listing_organization_name = run_organization_name role_profile_run,
               listing_preferred_qualifications =
                 run_preferred_qualifications role_profile_run,
               listing_requirements = run_requirements role_profile_run,
               listing_role_mode = run_role_mode role_profile_run,
               listing_salary = run_salary role_profile_run,
               listing_title = run_title role_profile_run,
               listing_url = run_url role_profile_run\<rparr>;
            new_role =
              (case run_description role_profile_run of
                 None \<Rightarrow> new_role
               | Some description \<Rightarrow>
                   if description = [] then new_role
                   else (case generate_embeddings sv
                                (listing_text role_profile_run description) of
                           Inl e \<Rightarrow> new_role
                         | Inr embeddings \<Rightarrow> new_role\<lparr>listing_embeddings := embeddings\<rparr>))
        in Inr (new_role, add_role new_role s))"


section \<open>UserManager (services/users/user_manager.py)\<close>

definition add_user :: "User \<Rightarrow> system \<Rightarrow> system" where
  "add_user user s = s\<lparr>users := AList.update (user_id user) user (users s)\<rparr>"

definition get_user_by_id :: "system \<Rightarrow> string \<Rightarrow> User option" where
  "get_user_by_id s user_ident = map_of (users s) user_ident"

definition update_user :: "string \<Rightarrow> User \<Rightarrow> system \<Rightarrow> exn + system" where
  "update_user user_ident user s =
     (if user_ident = [] then Inl (ValueError ''Missing user_id or user data'')
      else case get_user_by_id s user_ident of
             None \<Rightarrow> Inl (UserNotFoundError (''User with ID '' @ user_ident @ '' not found''))
           | Some existing_user \<Rightarrow>
               Inr (s\<lparr>users :=
                        AList.update user_ident (user\<lparr>user_id := user_ident\<rparr>) (users s)\<rparr>))"

text \<open>
  \<open>update_user_from_cv_profile\<close>: the fields of the run override the user's, except the
  id and the timestamps.  The block that would compute new embeddings reads
  \<open>updated_user.experience\<close>, an attribute the \<open>User\<close> model does not have; the
  \<open>AttributeError\<close> is caught by the block's own handler, which logs a warning, so the
  user keeps the embeddings it had.
\<close>

definition update_user_from_cv_profile ::
  "string \<Rightarrow> CVProfileRun \<Rightarrow> system \<Rightarrow> exn + User \<times> system" where
  "update_user_from_cv_profile user_ident cv_profile_run s =
     (if cv_status cv_profile_run \<noteq> COMPLETED
      then Inl (ValueError ''Cannot update user from incomplete CV profile'')
      else case get_user_by_id s user_ident of
             None \<Rightarrow> Inl (UserNotFoundError (''User with ID '' @ user_ident @ '' not found''))
           | Some existing_user \<Rightarrow>
               let updated_user =
                     existing_user
                       \<lparr>user_average_tenure := cv_average_tenure cv_profile_run,
                        user_awards := cv_awards cv_profile_run,
                        user_contact_details := cv_contact_details cv_profile_run,
                        user_creativity_score := cv_creativity_score cv_profile_run,
                        user_education_history := cv_education_history cv_profile_run,
                        user_employment_history := cv_employment_history cv_profile_run,
                        user_formatting_score := cv_formatting_score cv_profile_run,
                        user_grammar_score := cv_grammar_score cv_profile_run,
                        user_highlights := cv_highlights cv_profile_run,
                        user_hobbies := cv_hobbies cv_profile_run,
                        user_industries := cv_industries cv_profile_run,
                        user_job_title := cv_job_title cv_profile_run,
                        user_level := cv_level cv_profile_run,
                        user_location := cv_location cv_profile_run,
                        user_name := cv_name cv_profile_run,
                        user_nationality := cv_nationality cv_profile_run,
                        user_skills := cv_skills cv_profile_run,
                        user_spoken_languages := cv_spoken_languages cv_profile_run,
                        user_summary := cv_summary cv_profile_run,
                        user_urls := cv_urls cv_profile_run,
                        user_years_experience := cv_years_experience cv_profile_run\<rparr>
               in (case update_user user_ident updated_user s of
                     Inl e \<Rightarrow> Inl e
                   | Inr s' \<Rightarrow> Inr (updated_user, s')))"

section \<open>Derived aggregates of the Profiler Stage (workers/profiler.py)\<close>

text \<open>
  Python's \<open>/\<close> on integers and the float arithmetic of the two functions are taken
  exactly, over the rationals.  The built-in \<open>round\<close> of one argument rounds to the
  nearest integer and breaks a tie towards the even neighbour.
\<close>

definition py_round :: "rat \<Rightarrow> int" where
  "py_round x =
     (let f = \<lfloor>x\<rfloor>; d = x - of_int f
      in if d < 1 / 2 then f
         else if 1 / 2 < d then f + 1
         else if even f then f else f + 1)"

text \<open>
  One pass of the loop body of \<open>_calculate_average_tenure\<close>: the months of one
  employment, with the reading \<open>now\<close> standing for \<open>datetime.now()\<close>.
\<close>

definition tenure_step :: "Date \<Rightarrow> int \<Rightarrow> Employment \<Rightarrow> int" where
  "tenure_step now total_months employment =
     (let start_year = year (start_date employment);
          start_month = month (start_date employment);
          end_year = year (end_date employment);
          end_month = month (end_date employment);
          (end_year, end_month) =
             (if end_year = 0 then (year now, month now) else (end_year, end_month));
          months = (end_year - start_year) * 12 + (end_month - start_month)
      in total_months + months)"

definition calculate_average_tenure :: "Date \<Rightarrow> Employment list \<Rightarrow> int" where
  "calculate_average_tenure now history =
     (if history = [] then 0
      else let total_months = foldl (tenure_step now) 0 history
           in py_round (of_int total_months / of_nat (length history)))"

definition experience_step :: "Date \<Rightarrow> rat \<Rightarrow> Employment \<Rightarrow> rat" where
  "experience_step now total_years employment =
     (let start_year = year (start_date employment);
          start_month = month (start_date employment);
          end_year = year (end_date employment);
          end_month = month (end_date employment);
          (end_year, end_month) =
             (if end_year = 0 then (year now, month now) else (end_year, end_month));
          years = end_year - start_year;
          months = end_month - start_month
      in total_years + (of_int years + of_int months / 12))"

definition calculate_years_experience :: "Date \<Rightarrow> Employment list \<Rightarrow> rat" where
  "calculate_years_experience now history =
     (let total_years = foldl (experience_step now) 0 history
      in of_int (py_round (total_years * 2)) / 2)"

section \<open>The model clients (services/llm/processor.py, services/vision/client.py)\<close>

text \<open>
  Each of the three calls wraps whatever its body raises in an \<open>LLMInferenceError\<close>
  and returns \<open>None\<close> when the model refuses.  \<open>describe_doc_pages\<close> checks its
  argument and its configuration first, outside the wrapping.
\<close>

definition describe_doc_pages :: "services \<Rightarrow> string list \<Rightarrow> exn + CVDescription option" where
  "describe_doc_pages sv filenames =
     (if filenames = [] then Inl (ValueError ''Filenames list cannot be empty'')
      else if \<not> vision_client_configured sv
      then Inl (ValueError ''OpenAI client not configured'')
      else case vision_completion sv filenames of
             Inl m \<Rightarrow>
               Inl (LLMInferenceError
                     (''Failed to generate document page descriptions: '' @ m))
           | Inr (Refusal r) \<Rightarrow> Inr None
           | Inr (Parsed d) \<Rightarrow> Inr (Some d))"

definition analyze_cv ::
  "services \<Rightarrow> string list \<Rightarrow> CVDescription option \<Rightarrow> exn + CVProfile option" where
  "analyze_cv sv paragraphs creativity_assessment =
     (case cv_completion sv paragraphs creativity_assessment of
        Inl m \<Rightarrow> Inl (LLMInferenceError (''Failed to analyze CV: '' @ m))
      | Inr (Refusal r) \<Rightarrow> Inr None
      | Inr (Parsed p) \<Rightarrow> Inr (Some p))"

definition analyze_jd :: "services \<Rightarrow> string list \<Rightarrow> exn + RoleProfile option" where
  "analyze_jd sv paragraphs =
     (case jd_completion sv paragraphs of
        Inl m \<Rightarrow> Inl (LLMInferenceError (''Failed to analyze CV: '' @ m))
      | Inr (Refusal r) \<Rightarrow> Inr None
      | Inr (Parsed p) \<Rightarrow> Inr (Some p))"


section \<open>The worker loops\<close>

text \<open>
  Each worker is given in three layers, as the source nests them: the body of the inner
  \<open>try\<close> (\<open>_try\<close>), the handler of the domain error where the worker has one
  (\<open>_except_\<close>), and one pass of the \<open>while self.is_running\<close> loop
  (\<open>_process_queue\<close>), which dequeues an item or times out, runs the body, and
  applies the handlers of the inner and of the outer \<open>try\<close>.  The body returns the
  state it had reached when it raised.  \<open>task_done\<close> and the messages written at info
  level leave no trace in the state.
\<close>

definition log_worker_error :: "string \<Rightarrow> exn \<Rightarrow> system \<Rightarrow> system" where
  "log_worker_error item_ident e s =
     s\<lparr>error_log := error_log s @ [WorkerError item_ident (str e)]\<rparr>"

definition log_exception :: "exn \<Rightarrow> system \<Rightarrow> system" where
  "log_exception e s = s\<lparr>error_log := error_log s @ [LoggedException (str e)]\<rparr>"

subsection \<open>ProfilerWorker (workers/profiler.py)\<close>

definition ProfilerWorker_init :: "system \<Rightarrow> system" where
  "ProfilerWorker_init s =
     (if profiler_initialized s then s
      else s\<lparr>profile_queue := [], profiler_is_running := True,
             profiler_initialized := True\<rparr>)"

definition add_to_queue ::
  "string \<Rightarrow> string list \<Rightarrow> CVDescription option \<Rightarrow> system \<Rightarrow> system" where
  "add_to_queue cv_ident paragraphs creativity_assessment s =
     s\<lparr>profile_queue := profile_queue s @ [(cv_ident, paragraphs, creativity_assessment)]\<rparr>"

text \<open>The end of the body: the merge of the completed run into the user, if there is one.\<close>

definition merge_into_user :: "string \<Rightarrow> system \<Rightarrow> (exn + unit) \<times> system" where
  "merge_into_user cv_ident s =
     (case get_user_by_id s cv_ident of
        None \<Rightarrow> (Inr (), s)
      | Some user \<Rightarrow>
          (case get_cv_profile s cv_ident of
             None \<Rightarrow> (Inl (AttributeError ''NoneType object has no attribute status''), s)
           | Some cv_profile_run \<Rightarrow>
               (case update_user_from_cv_profile cv_ident cv_profile_run s of
                  Inl e \<Rightarrow> (Inl e, s)
                | Inr (user, s1) \<Rightarrow>
                    if \<not> user_is_onboarded user
                    then (case update_user cv_ident (user\<lparr>user_is_onboarded := True\<rparr>) s1 of
                            Inl e \<Rightarrow> (Inl e, s1)
                          | Inr s2 \<Rightarrow> (Inr (), s2))
                    else (Inr (), s1))))"

definition profiler_try ::
  "services \<Rightarrow> string \<Rightarrow> string list \<Rightarrow> CVDescription option \<Rightarrow> system \<Rightarrow>
   (exn + unit) \<times> system" where
  "profiler_try sv cv_ident paragraphs creativity_assessment s =
     (case analyze_cv sv paragraphs creativity_assessment of
        Inl e \<Rightarrow> (Inl e, s)
      | Inr profile \<Rightarrow>
          let (years_experience, average_tenure) =
                (case profile of
                   None \<Rightarrow> (None, None)
                 | Some p \<Rightarrow>
                     if employment_history p = [] then (None, None)
                     else (Some (calculate_years_experience (today sv) (employment_history p)),
                           Some (of_int (calculate_average_tenure (today sv)
                                           (employment_history p)))))
          in (case creativity_assessment of
                None \<Rightarrow>
                  (Inl (AttributeError ''NoneType object has no attribute creativity_score''), s)
              | Some d \<Rightarrow>
                  (case bind_arguments update_cv_profile_sig 2
                          [''average_tenure'', ''creativity_score'', ''formatting_score'',
                           ''grammar_score'', ''years_experience''] of
                     Some e \<Rightarrow> (Inl e, s)
                   | None \<Rightarrow>
                       (case update_cv_profile (clock sv) cv_ident profile average_tenure
                               (Some (creativity_score d)) (Some (formatting_score d))
                               (Some (grammar_score d)) COMPLETED None years_experience s of
                          Inl e \<Rightarrow> (Inl e, s)
                        | Inr s1 \<Rightarrow> merge_into_user cv_ident s1))))"

definition profiler_process_queue :: "services \<Rightarrow> system \<Rightarrow> system" where
  "profiler_process_queue sv s =
     (if \<not> (profiler_initialized s \<and> profiler_is_running s) then s
      else case profile_queue s of
             [] \<Rightarrow> s
           | (cv_ident, paragraphs, creativity_assessment) # rest \<Rightarrow>
               (case profiler_try sv cv_ident paragraphs creativity_assessment
                       (s\<lparr>profile_queue := rest\<rparr>) of
                  (Inr u, s') \<Rightarrow> s'
                | (Inl e, s') \<Rightarrow> log_worker_error cv_ident e s'))"

subsection \<open>CVProcessorWorker (workers/cv_processor.py)\<close>

definition add_cv_to_queue :: "string \<Rightarrow> string \<Rightarrow> system \<Rightarrow> system" where
  "add_cv_to_queue cv_ident file_path s = s\<lparr>cv_queue := cv_queue s @ [(cv_ident, file_path)]\<rparr>"

definition CVProcessorWorker_init :: "system \<Rightarrow> system" where
  "CVProcessorWorker_init s =
     (if cv_initialized s then s
      else let s = s\<lparr>cv_queue := [], cv_is_running := True\<rparr>;
               pending_cvs = get_pending_cv_profiles s;
               s = foldl (\<lambda>s cv. add_cv_to_queue (cv_id cv) (cv_file_path cv) s) s pending_cvs
           in s\<lparr>cv_initialized := True\<rparr>)"

text \<open>
  The scan of the link annotations.  \<open>add_link\<close> is the innermost block, for one
  annotation whose action has a URI; \<open>scan_annotation\<close> is the body of the loop over
  the annotations of a page, where \<open>u[ank]\<close> raises for an annotation without an
  \<open>/A\<close> entry.
\<close>

definition add_link :: "string list \<Rightarrow> string \<Rightarrow> string \<Rightarrow> string list" where
  "add_link paragraphs link linked_text =
     (if \<not> list_ex (\<lambda>para. sublist link para) paragraphs
      then (if linked_text \<noteq> []
            then paragraphs @ [[CHR 0x0A] @ ''[Found link: '' @ [CHR 0x27] @ linked_text
                                 @ [CHR 0x27] @ '' -> '' @ link @ '']'']
            else paragraphs @ [[CHR 0x0A] @ ''[Found link: '' @ link @ '']''])
      else paragraphs)"

definition scan_annotation :: "annotation \<Rightarrow> string list \<Rightarrow> exn + string list" where
  "scan_annotation u paragraphs =
     (case annot_A u of
        None \<Rightarrow> Inl (KeyError ''/A'')
      | Some None \<Rightarrow> Inr paragraphs
      | Some (Some link) \<Rightarrow>
          let linked_text =
                (case annot_Contents u of
                   Some c \<Rightarrow> c
                 | None \<Rightarrow> (case annot_T u of Some t \<Rightarrow> t | None \<Rightarrow> []))
          in Inr (add_link paragraphs link linked_text))"

fun scan_annotations :: "annotation list \<Rightarrow> string list \<Rightarrow> exn + string list" where
  "scan_annotations [] paragraphs = Inr paragraphs"
| "scan_annotations (u # ann) paragraphs =
     (case scan_annotation u paragraphs of
        Inl e \<Rightarrow> Inl e
      | Inr paragraphs' \<Rightarrow> scan_annotations ann paragraphs')"

fun scan_pages :: "pdf_page list \<Rightarrow> string list \<Rightarrow> exn + string list" where
  "scan_pages [] paragraphs = Inr paragraphs"
| "scan_pages (page_object # pages) paragraphs =
     (case page_object of
        None \<Rightarrow> scan_pages pages paragraphs
      | Some ann \<Rightarrow>
          (case scan_annotations ann paragraphs of
             Inl e \<Rightarrow> Inl e
           | Inr paragraphs' \<Rightarrow> scan_pages pages paragraphs'))"

text \<open>The branch on the file type: everything up to the creativity assessment.\<close>

definition cv_extract ::
  "services \<Rightarrow> string \<Rightarrow> string \<Rightarrow> exn + string list \<times> CVDescription option" where
  "cv_extract sv cv_ident file_path =
     (if endswith (lower file_path) ''.pdf'' then
        (case pdf_reader sv file_path of
           Inl m \<Rightarrow> Inl (ServiceFailure m)
         | Inr pages \<Rightarrow>
             let page_count = length pages
             in if page_count > CV_MAX_PAGES
                then Inl (CVLengthError
                           (''The file has '' @ str_nat page_count
                              @ '' pages, which is more than the maximum allowed (''
                              @ str_nat CV_MAX_PAGES @ '')'')
                           cv_ident)
                else (case analyze_paragraphs sv file_path of
                        Inl m \<Rightarrow> Inl (ServiceFailure m)
                      | Inr paragraphs \<Rightarrow>
                          (case scan_pages pages paragraphs of
                             Inl e \<Rightarrow> Inl e
                           | Inr paragraphs \<Rightarrow>
                               (case render_pages sv file_path of
                                  Inl m \<Rightarrow> Inl (ServiceFailure m)
                                | Inr page_filenames \<Rightarrow>
                                    (case describe_doc_pages sv page_filenames of
                                       Inl e \<Rightarrow> Inl e
                                     | Inr creativity_assessment \<Rightarrow>
                                         Inr (paragraphs, creativity_assessment))))))
      else Inl (CVFormatError (''Unsupported file type: '' @ file_path) cv_ident))"

definition cv_try :: "services \<Rightarrow> string \<Rightarrow> string \<Rightarrow> system \<Rightarrow> (exn + unit) \<times> system" where
  "cv_try sv cv_ident file_path s =
     (case cv_extract sv cv_ident file_path of
        Inl e \<Rightarrow> (Inl e, s)
      | Inr (paragraphs, creativity_assessment) \<Rightarrow>
          (case get_cv_profile s cv_ident of
             None \<Rightarrow> (Inl (AttributeError ''NoneType object has no attribute updated_at''), s)
           | Some cv_profile \<Rightarrow>
               let cv_profile = cv_profile\<lparr>cv_updated_at := clock sv\<rparr>
               in (case bind_arguments update_cv_profile_sig 0
                          [''cv_id'', ''cv_profile'', ''status''] of
                     Some e \<Rightarrow> (Inl e, s)
                   | None \<Rightarrow>
                       (case update_cv_profile (clock sv) cv_ident
                               (Some (as_CVProfile cv_profile)) None None None None
                               (cv_status cv_profile) None None s of
                          Inl e \<Rightarrow> (Inl e, s)
                        | Inr s1 \<Rightarrow>
                            (Inr (),
                             add_to_queue cv_ident paragraphs creativity_assessment
                               (ProfilerWorker_init s1))))))"

definition cv_except_CVError ::
  "services \<Rightarrow> exn \<Rightarrow> string \<Rightarrow> system \<Rightarrow> (exn + unit) \<times> system" where
  "cv_except_CVError sv e e_cv_id s =
     (case get_cv_profile s e_cv_id of
        None \<Rightarrow> (Inl (AttributeError ''NoneType object has no attribute status''), s)
      | Some cv_profile \<Rightarrow>
          let cv_profile = cv_profile\<lparr>cv_status := FAILED\<rparr>
          in (case bind_arguments update_cv_profile_sig 0
                     [''cv_id'', ''cv_profile'', ''status'', ''status_comment''] of
                Some e' \<Rightarrow> (Inl e', s)
              | None \<Rightarrow>
                  (case update_cv_profile (clock sv) e_cv_id (Some (as_CVProfile cv_profile))
                          None None None None (cv_status cv_profile) (Some (str e)) None s of
                     Inl e' \<Rightarrow> (Inl e', s)
                   | Inr s' \<Rightarrow> (Inr (), log_worker_error e_cv_id e s'))))"

definition cv_process_queue :: "services \<Rightarrow> system \<Rightarrow> system" where
  "cv_process_queue sv s =
     (if \<not> (cv_initialized s \<and> cv_is_running s) then s
      else case cv_queue s of
             [] \<Rightarrow> s
           | (cv_ident, file_path) # rest \<Rightarrow>
               (case cv_try sv cv_ident file_path (s\<lparr>cv_queue := rest\<rparr>) of
                  (Inr u, s') \<Rightarrow> s'
                | (Inl e, s') \<Rightarrow>
                    (case as_CVError e of
                       Some e_cv_id \<Rightarrow>
                         (case cv_except_CVError sv e e_cv_id s' of
                            (Inr u, s'') \<Rightarrow> s''
                          | (Inl e', s'') \<Rightarrow> log_exception e' s'')
                     | None \<Rightarrow> log_worker_error cv_ident e s')))"


subsection \<open>JDProcessorWorker (workers/jd_processor.py)\<close>

definition add_jd_to_queue :: "string \<Rightarrow> string \<Rightarrow> system \<Rightarrow> system" where
  "add_jd_to_queue jd_ident file_path s = s\<lparr>jd_queue := jd_queue s @ [(jd_ident, file_path)]\<rparr>"

definition JDProcessorWorker_init :: "system \<Rightarrow> system" where
  "JDProcessorWorker_init s =
     (if jd_initialized s then s
      else let s = s\<lparr>jd_queue := [], jd_is_running := True\<rparr>;
               pending_jds = get_pending_role_profiles s;
               s = foldl (\<lambda>s jd. add_jd_to_queue (run_id jd) (run_file_path jd) s) s pending_jds
           in s\<lparr>jd_initialized := True\<rparr>)"

definition jd_extract :: "services \<Rightarrow> string \<Rightarrow> string \<Rightarrow> exn + string list" where
  "jd_extract sv jd_ident file_path =
     (if endswith (lower file_path) ''.pdf'' then
        (case pdf_reader sv file_path of
           Inl m \<Rightarrow> Inl (ServiceFailure m)
         | Inr pages \<Rightarrow>
             let page_count = length pages
             in if page_count > JD_MAX_PAGES
                then Inl (JDLengthError
                           (''The file has '' @ str_nat page_count
                              @ '' pages, which is more than the maximum allowed (''
                              @ str_nat JD_MAX_PAGES @ '')'')
                           jd_ident)
                else (case analyze_paragraphs sv file_path of
                        Inl m \<Rightarrow> Inl (ServiceFailure m)
                      | Inr paragraphs \<Rightarrow> Inr paragraphs))
      else Inl (JDFormatError (''Unsupported file type: '' @ file_path) jd_ident))"

definition jd_try :: "services \<Rightarrow> string \<Rightarrow> string \<Rightarrow> system \<Rightarrow> (exn + unit) \<times> system" where
  "jd_try sv jd_ident file_path s =
     (case get_role_profile s jd_ident of
        None \<Rightarrow>
          (Inl (RoleListingError (''Role profile run '' @ jd_ident @ '' not found'') jd_ident), s)
      | Some role_profile_run \<Rightarrow>
          let role_profile_run = role_profile_run\<lparr>run_updated_at := clock sv\<rparr>
          in (case bind_arguments update_role_profile_sig 0
                     [''role_id'', ''role_profile'', ''creator_id'', ''status''] of
                Some e \<Rightarrow> (Inl e, s)
              | None \<Rightarrow>
                  (case update_role_profile (clock sv) jd_ident
                          (Some (as_RoleProfile role_profile_run))
                          (run_creator_id role_profile_run) (run_status role_profile_run)
                          None s of
                     Inl e \<Rightarrow> (Inl e, s)
                   | Inr (role_profile_run, s1) \<Rightarrow>
                       (case jd_extract sv jd_ident file_path of
                          Inl e \<Rightarrow> (Inl e, s1)
                        | Inr paragraphs \<Rightarrow>
                            (case analyze_jd sv paragraphs of
                               Inl e \<Rightarrow> (Inl e, s1)
                             | Inr jd_analysis \<Rightarrow>
                                 let role_profile_run =
                                       role_profile_run\<lparr>run_updated_at := clock sv,
                                                        run_status := COMPLETED\<rparr>
                                 in (case update_role_profile (clock sv) jd_ident jd_analysis
                                            (run_creator_id role_profile_run)
                                            (run_status role_profile_run) None s1 of
                                       Inl e \<Rightarrow> (Inl e, s1)
                                     | Inr (role_profile_run, s2) \<Rightarrow>
                                         (case add_role_from_profile sv role_profile_run s2 of
                                            Inl e \<Rightarrow> (Inl e, s2)
                                          | Inr (new_role, s3) \<Rightarrow>
                                              (Inr (),
                                               delete_role_profile (run_id role_profile_run)
                                                 s3))))))))"

definition jd_except_RoleListingError ::
  "services \<Rightarrow> exn \<Rightarrow> string \<Rightarrow> system \<Rightarrow> (exn + unit) \<times> system" where
  "jd_except_RoleListingError sv e e_jd_id s =
     (case get_role_profile s e_jd_id of
        None \<Rightarrow> (Inr (), log_worker_error e_jd_id e s)
      | Some role_profile_run \<Rightarrow>
          let role_profile_run = role_profile_run\<lparr>run_status := FAILED\<rparr>
          in (case bind_arguments update_role_profile_sig 0
                     [''role_id'', ''role_profile'', ''creator_id'', ''status'',
                      ''status_comment''] of
                Some e' \<Rightarrow> (Inl e', s)
              | None \<Rightarrow>
                  (case update_role_profile (clock sv) e_jd_id
                          (Some (as_RoleProfile role_profile_run))
                          (run_creator_id role_profile_run) (run_status role_profile_run)
                          (Some (str e)) s of
                     Inl e' \<Rightarrow> (Inl e', s)
                   | Inr (r, s') \<Rightarrow> (Inr (), log_worker_error e_jd_id e s'))))"

definition jd_process_queue :: "services \<Rightarrow> system \<Rightarrow> system" where
  "jd_process_queue sv s =
     (if \<not> (jd_initialized s \<and> jd_is_running s) then s
      else case jd_queue s of
             [] \<Rightarrow> s
           | (jd_ident, file_path) # rest \<Rightarrow>
               (case jd_try sv jd_ident file_path (s\<lparr>jd_queue := rest\<rparr>) of
                  (Inr u, s') \<Rightarrow> s'
                | (Inl e, s') \<Rightarrow>
                    (case as_RoleListingError e of
                       Some e_jd_id \<Rightarrow>
                         (case jd_except_RoleListingError sv e e_jd_id s' of
                            (Inr u, s'') \<Rightarrow> s''
                          | (Inl e', s'') \<Rightarrow> log_exception e' s'')
                     | None \<Rightarrow> log_worker_error jd_ident e s')))"


section \<open>The producers (routers/cvs.py, routers/roles.py) and the life of the process\<close>

text \<open>
  The upload handlers store the file under a name built from the id and the extension
  of the uploaded file, create the run and enqueue the item.  An exception of
  \<open>add_cv_profile\<close> or \<open>add_role_profile\<close> ends the request before the item is
  enqueued.
\<close>

definition upload_cv :: "services \<Rightarrow> string \<Rightarrow> string \<Rightarrow> system \<Rightarrow> system" where
  "upload_cv sv user_ident original_extension s =
     (case get_user_by_id s user_ident of
        None \<Rightarrow> s
      | Some user \<Rightarrow>
          let file_path = ''backend/uploads/'' @ user_ident @ ''/cv'' @ original_extension
          in (case add_cv_profile (clock sv) user_ident file_path s of
                Inl e \<Rightarrow> s
              | Inr s' \<Rightarrow> add_cv_to_queue user_ident file_path s'))"

definition upload_jd :: "services \<Rightarrow> string \<Rightarrow> string \<Rightarrow> system \<Rightarrow> system" where
  "upload_jd sv user_ident original_extension s =
     (case get_user_by_id s user_ident of
        None \<Rightarrow> s
      | Some user \<Rightarrow>
          if user_role user \<noteq> Some RECRUITER then s
          else let role_ident = uuid4 sv;
                   file_path = ''backend/uploads/'' @ role_ident @ ''/jd'' @ original_extension
               in (case add_role_profile (clock sv) role_ident file_path user_ident s of
                     Inl e \<Rightarrow> s
                   | Inr s' \<Rightarrow> add_jd_to_queue role_ident file_path s'))"

text \<open>The \<open>DELETE /role/{role_id}\<close> handler: a listing first, a run otherwise.\<close>

definition delete_role_route :: "string \<Rightarrow> string \<Rightarrow> system \<Rightarrow> system" where
  "delete_role_route role_ident user_ident s =
     (case get_role_by_id s role_ident of
        Some role \<Rightarrow> if listing_creator_id role \<noteq> user_ident then s else delete_role role_ident s
      | None \<Rightarrow>
          (case get_role_profile s role_ident of
             Some role_profile \<Rightarrow>
               if run_creator_id role_profile \<noteq> user_ident then s
               else delete_role_profile role_ident s
           | None \<Rightarrow> s))"

text \<open>
  Importing the routers constructs the Resume pool and then the Listing pool; the
  Profiler pool is constructed by the first resume that reaches the hand-off.  A restart
  of the process loses the attributes of the three instances and keeps the store.
\<close>

definition import_routers :: "system \<Rightarrow> system" where
  "import_routers s = JDProcessorWorker_init (CVProcessorWorker_init s)"

definition restart :: "system \<Rightarrow> system" where
  "restart s =
     import_routers
       (s\<lparr>cv_initialized := False, cv_is_running := False, cv_queue := [],
          jd_initialized := False, jd_is_running := False, jd_queue := [],
          profiler_initialized := False, profiler_is_running := False,
          profile_queue := []\<rparr>)"

definition first_start :: system where
  "first_start =
     import_routers
       \<lparr>users = [], cv_profiles = [], role_profiles = [], role_listings = [],
        cv_initialized = False, cv_is_running = False, cv_queue = [],
        jd_initialized = False, jd_is_running = False, jd_queue = [],
        profiler_initialized = False, profiler_is_running = False, profile_queue = [],
        error_log = []\<rparr>"

text \<open>
  The step relation of the pipeline: a request of a client, one pass of the loop of one
  worker thread, or a restart.  Each step is atomic; worker threads interleave at the
  granularity of one pass.
\<close>

datatype event =
    CreateUser User
  | UploadCV services string string
  | UploadJD services string string
  | DeleteRole string string
  | CVWorker services
  | JDWorker services
  | Profiler services
  | Restart

fun apply_event :: "event \<Rightarrow> system \<Rightarrow> system" where
  "apply_event (CreateUser user) s = add_user user s"
| "apply_event (UploadCV sv user_ident ext) s = upload_cv sv user_ident ext s"
| "apply_event (UploadJD sv user_ident ext) s = upload_jd sv user_ident ext s"
| "apply_event (DeleteRole role_ident user_ident) s = delete_role_route role_ident user_ident s"
| "apply_event (CVWorker sv) s = cv_process_queue sv s"
| "apply_event (JDWorker sv) s = jd_process_queue sv s"
| "apply_event (Profiler sv) s = profiler_process_queue sv s"
| "apply_event Restart s = restart s"

definition run :: "event list \<Rightarrow> system \<Rightarrow> system" where
  "run events s = foldl (\<lambda>s e. apply_event e s) s events"

inductive reachable :: "system \<Rightarrow> bool" where
  start: "reachable first_start"
| step: "reachable s \<Longrightarrow> reachable (apply_event e s)"

text \<open>
  A step resubmits an item when it is an upload that creates the run of that id anew.
\<close>

fun resubmits_cv :: "event \<Rightarrow> string \<Rightarrow> bool" where
  "resubmits_cv (UploadCV sv user_ident ext) i = (user_ident = i)"
| "resubmits_cv e i = False"

fun resubmits_jd :: "event \<Rightarrow> string \<Rightarrow> bool" where
  "resubmits_jd (UploadJD sv user_ident ext) i = (uuid4 sv = i)"
| "resubmits_jd e i = False"

text \<open>
  The two containers of runs are keyed by id: a run is filed under the id it carries,
  once.
\<close>

definition keyed :: "('a \<Rightarrow> string) \<Rightarrow> (string \<times> 'a) list \<Rightarrow> bool" where
  "keyed ident docs \<longleftrightarrow> distinct (map fst docs) \<and> list_all (\<lambda>(k, d). ident d = k) docs"

definition store_keyed :: "system \<Rightarrow> bool" where
  "store_keyed s \<longleftrightarrow> keyed cv_id (cv_profiles s) \<and> keyed run_id (role_profiles s)"

section \<open>The rate limiters (services/llm/processor.py, services/vision/client.py)\<close>

text \<open>
  Time is the reading of \<open>time.time()\<close>, a real number of seconds.  A wait reads the
  clock (\<open>now\<close>), sleeps if the last call is too recent, and reads the clock again
  (\<open>now'\<close>) to record the call.  The result is the argument of \<open>time.sleep\<close>, if it was
  called, and the limiter with the new record.
\<close>

record LLMProcessor =
  api_rate_limit :: real
  last_api_call :: real

record VisionAnalysisClient =
  openai_rate_limit :: real
  vision_rate_limit :: real
  last_openai_call :: real
  last_vision_call :: real

definition LLMProcessor_init :: LLMProcessor where
  "LLMProcessor_init = \<lparr>api_rate_limit = 1 / 2, last_api_call = 0\<rparr>"

definition VisionAnalysisClient_init :: VisionAnalysisClient where
  "VisionAnalysisClient_init =
     \<lparr>openai_rate_limit = 1 / 2, vision_rate_limit = 1, last_openai_call = 0,
      last_vision_call = 0\<rparr>"

definition wait_for_rate_limit ::
  "real \<Rightarrow> real \<Rightarrow> LLMProcessor \<Rightarrow> real option \<times> LLMProcessor" where
  "wait_for_rate_limit now now' self =
     (let slept =
            (if now - last_api_call self < api_rate_limit self
             then Some (api_rate_limit self - (now - last_api_call self))
             else None)
      in (slept, self\<lparr>last_api_call := now'\<rparr>))"

definition wait_for_vision_rate_limit ::
  "real \<Rightarrow> real \<Rightarrow> VisionAnalysisClient \<Rightarrow> real option \<times> VisionAnalysisClient" where
  "wait_for_vision_rate_limit now now' self =
     (let slept =
            (if now - last_vision_call self < vision_rate_limit self
             then Some (vision_rate_limit self - (now - last_vision_call self))
             else None)
      in (slept, self\<lparr>last_vision_call := now'\<rparr>))"

text \<open>
  The clock of a wait is sound when the second reading is not earlier than the first
  plus the time slept: \<open>time.sleep\<close> suspends for at least its argument and the clock
  does not run backwards meanwhile.
\<close>

definition clock_sound :: "real \<Rightarrow> real option \<Rightarrow> real \<Rightarrow> bool" where
  "clock_sound now slept now' \<longleftrightarrow> now + (case slept of None \<Rightarrow> 0 | Some d \<Rightarrow> d) \<le> now'"

text \<open>Two clients of one process, each with its own limiter.\<close>

record clients =
  text_llm :: LLMProcessor
  vision :: VisionAnalysisClient

definition llm_wait :: "real \<Rightarrow> real \<Rightarrow> clients \<Rightarrow> real option \<times> clients" where
  "llm_wait now now' c =
     (let (slept, p) = wait_for_rate_limit now now' (text_llm c) in (slept, c\<lparr>text_llm := p\<rparr>))"

definition vision_wait :: "real \<Rightarrow> real \<Rightarrow> clients \<Rightarrow> real option \<times> clients" where
  "vision_wait now now' c =
     (let (slept, v) = wait_for_vision_rate_limit now now' (vision c)
      in (slept, c\<lparr>vision := v\<rparr>))"


section \<open>Sample data for the closed instances\<close>

definition employment_between :: "int \<Rightarrow> int \<Rightarrow> int \<Rightarrow> int \<Rightarrow> Employment" where
  "employment_between start_year start_month end_year end_month =
     \<lparr>emp_organization_name = Some ''Initech'',
      end_date = \<lparr>month = end_month, year = end_year\<rparr>,
      emp_location = \<lparr>city = None, country = None\<rparr>, emp_role = Some ''Engineer'',
      start_date = \<lparr>month = start_month, year = start_year\<rparr>,
      emp_summary = None, emp_type = Some FULL_TIME\<rparr>"

definition july_2024 :: Date where
  "july_2024 = \<lparr>month = 7, year = 2024\<rparr>"

definition sample_link :: annotation where
  "sample_link = Annotation (Some (Some ''https://example.org/me'')) (Some ''my site'') None"

definition short_link :: annotation where
  "short_link = Annotation (Some (Some ''https://example.org'')) None None"

definition sample_user :: "string \<Rightarrow> UserRole \<Rightarrow> User" where
  "sample_user ident r =
     \<lparr>user_id = ident, user_created_at = 0, user_updated_at = 0, user_average_tenure = None,
      user_awards = [], user_contact_details = \<lparr>email = None, phone_number = None\<rparr>,
      user_creativity_score = None, user_education_history = [], user_embeddings = [],
      user_employment_history = [], user_formatting_score = None, user_grammar_score = None,
      user_highlights = [], user_hobbies = [], user_industries = [],
      user_is_onboarded = False, user_job_title = None, user_level = None,
      user_location = \<lparr>city = None, country = None\<rparr>, user_location_preferences = [],
      user_name = Some ''Jane Doe'', user_nationality = None,
      user_profile_picture_url = None, user_role = Some r, user_skills = [],
      user_spoken_languages = [], user_summary = None, user_urls = [],
      user_years_experience = None\<rparr>"

definition sample_cv_profile :: CVProfile where
  "sample_cv_profile =
     \<lparr>awards = [], contact_details = \<lparr>email = None, phone_number = None\<rparr>,
      education_history = [], employment_history = [employment_between 2020 1 0 0],
      highlights = [], hobbies = [], industries = [''Software''],
      job_title = Some ''Engineer'', level = Some MID_LEVEL,
      location = \<lparr>city = None, country = None\<rparr>, name = Some ''Jane Doe'',
      nationality = None, skills = [''Isabelle''], spoken_languages = [''en''],
      summary = None, urls = []\<rparr>"

definition sample_role_profile :: RoleProfile where
  "sample_role_profile =
     \<lparr>jd_benefits = [''pension''], jd_description = Some ''Build verified software'',
      jd_employment_type = Some FULL_TIME, jd_industry = Some ''Software'',
      jd_job_id = Some ''J-7'', jd_level = Some SENIOR,
      jd_location = Some \<lparr>city = Some ''Munich'', country = Some ''DE''\<rparr>,
      jd_organization_name = Some ''Initech'', jd_preferred_qualifications = [],
      jd_requirements = [''HOL'', ''Python''], jd_role_mode = Some REMOTE,
      jd_salary = None, jd_title = Some ''Engineer'', jd_url = None\<rparr>"

definition sample_assessment :: CVDescription where
  "sample_assessment = \<lparr>creativity_score = 7, formatting_score = 8, grammar_score = 9\<rparr>"

text \<open>
  Collaborators that all answer: a PDF of one page without annotations, two paragraphs,
  one rendered page, an assessment, a profile, and an embedding.
\<close>

definition sample_services :: services where
  "sample_services =
     \<lparr>clock = 1000, today = july_2024, uuid4 = ''listing-1'',
      pdf_reader = (\<lambda>file_path. Inr [None]),
      analyze_paragraphs = (\<lambda>file_path. Inr [''Jane Doe'', ''Engineer'']),
      render_pages = (\<lambda>file_path. Inr [''page-0.png'']),
      vision_client_configured = True,
      vision_completion = (\<lambda>filenames. Inr (Parsed sample_assessment)),
      cv_completion = (\<lambda>paragraphs assessment. Inr (Parsed sample_cv_profile)),
      jd_completion = (\<lambda>paragraphs. Inr (Parsed sample_role_profile)),
      embeddings_create = (\<lambda>input_text. Inr [1 / 2, 1 / 4])\<rparr>"

definition three_page_reader :: services where
  "three_page_reader = sample_services\<lparr>pdf_reader := (\<lambda>file_path. Inr [None, None, None])\<rparr>"

definition refusing_vision :: services where
  "refusing_vision =
     sample_services\<lparr>vision_completion := (\<lambda>filenames. Inr (Refusal ''I cannot assess this''))\<rparr>"

definition failing_analysis :: services where
  "failing_analysis =
     sample_services\<lparr>analyze_paragraphs := (\<lambda>file_path. Inl ''503 Service Unavailable'')\<rparr>"

definition failing_llm :: services where
  "failing_llm =
     sample_services
       \<lparr>jd_completion := (\<lambda>paragraphs. Inl ''429 Too Many Requests''),
        cv_completion := (\<lambda>paragraphs assessment. Inl ''429 Too Many Requests'')\<rparr>"

text \<open>A job seeker has uploaded a resume; a recruiter has uploaded a job description.\<close>

definition cv_uploaded :: system where
  "cv_uploaded =
     run [CreateUser (sample_user ''u1'' JOB_SEEKER), UploadCV sample_services ''u1'' ''.pdf'']
       first_start"

definition jd_uploaded :: system where
  "jd_uploaded =
     run [CreateUser (sample_user ''r1'' RECRUITER),
          UploadJD (sample_services\<lparr>uuid4 := ''role-1''\<rparr>) ''r1'' ''.pdf'']
       first_start"

text \<open>
  The store a crashed process left behind, before the pools are constructed again:
  three pending resume runs among five, one pending listing run among two.
\<close>

definition after_crash :: system where
  "after_crash =
     \<lparr>users = [],
      cv_profiles =
        [(''u1'', new_CVProfileRun 1 ''u1'' ''backend/uploads/u1/cv.pdf'' PENDING),
         (''u2'', new_CVProfileRun 2 ''u2'' ''backend/uploads/u2/cv.pdf'' COMPLETED),
         (''u3'', new_CVProfileRun 3 ''u3'' ''backend/uploads/u3/cv.pdf'' PENDING),
         (''u4'', new_CVProfileRun 4 ''u4'' ''backend/uploads/u4/cv.docx'' FAILED),
         (''u5'', new_CVProfileRun 5 ''u5'' ''backend/uploads/u5/cv.pdf'' PENDING)],
      role_profiles =
        [(''role-1'', new_RoleProfileRun 6 ''r1'' ''backend/uploads/role-1/jd.pdf'' ''role-1''
                       PENDING),
         (''role-2'', new_RoleProfileRun 7 ''r1'' ''backend/uploads/role-2/jd.txt'' ''role-2''
                       FAILED)],
      role_listings = [],
      cv_initialized = False, cv_is_running = False, cv_queue = [],
      jd_initialized = False, jd_is_running = False, jd_queue = [],
      profiler_initialized = False, profiler_is_running = False, profile_queue = [],
      error_log = []\<rparr>"

text \<open>A Profiler pool that has been handed a resume: what the hand-off would enqueue.\<close>

definition handed_off :: "CVDescription option \<Rightarrow> system" where
  "handed_off assessment =
     add_to_queue ''u1'' [''Jane Doe'', ''Engineer''] assessment
       (ProfilerWorker_init cv_uploaded)"

text \<open>
  A job description uploaded in a format the Listing Pipeline does not read, and a job
  description withdrawn by its recruiter before the Listing worker has come to it.
\<close>

definition jd_txt_uploaded :: system where
  "jd_txt_uploaded =
     run [CreateUser (sample_user ''r1'' RECRUITER),
          UploadJD (sample_services\<lparr>uuid4 := ''role-2''\<rparr>) ''r1'' ''.txt'']
       first_start"

definition jd_withdrawn :: system where
  "jd_withdrawn = apply_event (DeleteRole ''role-1'' ''r1'') jd_uploaded"


section \<open>The link scan as the specification words it\<close>

text \<open>
  The annotations of a document in document order, the text a link is anchored to, the
  paragraph that notes a link, and the notes a scan appends: going through the
  annotations in order, a link whose URI occurs in a paragraph of the list as it stands
  is passed over, any other link is noted at the end of the list.
\<close>

definition document_annotations :: "pdf_page list \<Rightarrow> annotation list" where
  "document_annotations pages =
     concat (map (\<lambda>page_object. case page_object of None \<Rightarrow> [] | Some ann \<Rightarrow> ann) pages)"

definition spec_anchor_text :: "annotation \<Rightarrow> string" where
  "spec_anchor_text u =
     (case annot_Contents u of
        Some c \<Rightarrow> c
      | None \<Rightarrow> (case annot_T u of Some t \<Rightarrow> t | None \<Rightarrow> []))"

definition spec_link_note :: "string \<Rightarrow> string \<Rightarrow> string" where
  "spec_link_note link anchor =
     (if anchor = [] then [CHR 0x0A] @ ''[Found link: '' @ link @ '']''
      else [CHR 0x0A] @ ''[Found link: '' @ [CHR 0x27] @ anchor @ [CHR 0x27] @ '' -> ''
             @ link @ '']'')"

fun spec_link_notes :: "string list \<Rightarrow> annotation list \<Rightarrow> string list" where
  "spec_link_notes seen [] = []"
| "spec_link_notes seen (u # us) =
     (case annot_A u of
        Some (Some link) \<Rightarrow>
          if \<exists>para \<in> set seen. sublist link para then spec_link_notes seen us
          else spec_link_note link (spec_anchor_text u)
                 # spec_link_notes (seen @ [spec_link_note link (spec_anchor_text u)]) us
      | _ \<Rightarrow> spec_link_notes seen us)"


section \<open>The stage functions when the store can fail and requests come in between\<close>

text \<open>
  Every method of the three managers wraps its calls of the Cosmos container in
  \<open>try: ... except Exception as e: logger.error(...); raise\<close>: a failure of the store
  comes out of the method as an exception, before the method has written.  The
  conditions of a pass say, for each call of a manager in the loop of a worker, whether
  the store fails there and with what message, and which steps of the pipeline (requests,
  passes of other worker threads) are taken in the meantime, while the worker waits for
  the document to be read and analysed.  Under calm conditions the store returns
  everywhere and nothing happens in the meantime.
\<close>

datatype store_call =
    CV_get_run
  | CV_failure_get_run
  | Profiler_write_run
  | Profiler_get_user
  | Profiler_get_run
  | Profiler_merge_user
  | Profiler_onboard_user
  | JD_get_run
  | JD_touch_run
  | JD_write_run
  | JD_add_listing
  | JD_delete_run
  | JD_failure_get_run
  | JD_failure_write_run

record conditions =
  store_error :: "store_call \<Rightarrow> string option"
  meanwhile :: "event list"

definition calm :: conditions where
  "calm = \<lparr>store_error = (\<lambda>c. None), meanwhile = []\<rparr>"

definition at_store :: "conditions \<Rightarrow> store_call \<Rightarrow> exn + 'a \<Rightarrow> exn + 'a" where
  "at_store cd c returned =
     (case store_error cd c of Some m \<Rightarrow> Inl (ServiceFailure m) | None \<Rightarrow> returned)"

subsection \<open>CVProcessorWorker\<close>

definition cv_try_under ::
  "conditions \<Rightarrow> services \<Rightarrow> string \<Rightarrow> string \<Rightarrow> system \<Rightarrow> (exn + unit) \<times> system" where
  "cv_try_under cd sv cv_ident file_path s =
     (let s = run (meanwhile cd) s
      in case cv_extract sv cv_ident file_path of
           Inl e \<Rightarrow> (Inl e, s)
         | Inr (paragraphs, creativity_assessment) \<Rightarrow>
             (case at_store cd CV_get_run (Inr (get_cv_profile s cv_ident)) of
                Inl e \<Rightarrow> (Inl e, s)
              | Inr None \<Rightarrow>
                  (Inl (AttributeError ''NoneType object has no attribute updated_at''), s)
              | Inr (Some cv_profile) \<Rightarrow>
                  let cv_profile = cv_profile\<lparr>cv_updated_at := clock sv\<rparr>
                  in (case bind_arguments update_cv_profile_sig 0
                             [''cv_id'', ''cv_profile'', ''status''] of
                        Some e \<Rightarrow> (Inl e, s)
                      | None \<Rightarrow>
                          (case update_cv_profile (clock sv) cv_ident
                                  (Some (as_CVProfile cv_profile)) None None None None
                                  (cv_status cv_profile) None None s of
                             Inl e \<Rightarrow> (Inl e, s)
                           | Inr s1 \<Rightarrow>
                               (Inr (),
                                add_to_queue cv_ident paragraphs creativity_assessment
                                  (ProfilerWorker_init s1))))))"

definition cv_except_CVError_under ::
  "conditions \<Rightarrow> services \<Rightarrow> exn \<Rightarrow> string \<Rightarrow> system \<Rightarrow> (exn + unit) \<times> system" where
  "cv_except_CVError_under cd sv e e_cv_id s =
     (case at_store cd CV_failure_get_run (Inr (get_cv_profile s e_cv_id)) of
        Inl e' \<Rightarrow> (Inl e', s)
      | Inr found \<Rightarrow> cv_except_CVError sv e e_cv_id s)"

definition cv_process_queue_under :: "conditions \<Rightarrow> services \<Rightarrow> system \<Rightarrow> system" where
  "cv_process_queue_under cd sv s =
     (if \<not> (cv_initialized s \<and> cv_is_running s) then s
      else case cv_queue s of
             [] \<Rightarrow> s
           | (cv_ident, file_path) # rest \<Rightarrow>
               (case cv_try_under cd sv cv_ident file_path (s\<lparr>cv_queue := rest\<rparr>) of
                  (Inr u, s') \<Rightarrow> s'
                | (Inl e, s') \<Rightarrow>
                    (case as_CVError e of
                       Some e_cv_id \<Rightarrow>
                         (case cv_except_CVError_under cd sv e e_cv_id s' of
                            (Inr u, s'') \<Rightarrow> s''
                          | (Inl e', s'') \<Rightarrow> log_exception e' s'')
                     | None \<Rightarrow> log_worker_error cv_ident e s')))"

subsection \<open>ProfilerWorker\<close>

definition merge_into_user_under ::
  "conditions \<Rightarrow> string \<Rightarrow> system \<Rightarrow> (exn + unit) \<times> system" where
  "merge_into_user_under cd cv_ident s =
     (case at_store cd Profiler_get_user (Inr (get_user_by_id s cv_ident)) of
        Inl e \<Rightarrow> (Inl e, s)
      | Inr None \<Rightarrow> (Inr (), s)
      | Inr (Some user) \<Rightarrow>
          (case at_store cd Profiler_get_run (Inr (get_cv_profile s cv_ident)) of
             Inl e \<Rightarrow> (Inl e, s)
           | Inr None \<Rightarrow> (Inl (AttributeError ''NoneType object has no attribute status''), s)
           | Inr (Some cv_profile_run) \<Rightarrow>
               (case at_store cd Profiler_merge_user
                       (update_user_from_cv_profile cv_ident cv_profile_run s) of
                  Inl e \<Rightarrow> (Inl e, s)
                | Inr (user, s1) \<Rightarrow>
                    if \<not> user_is_onboarded user
                    then (case at_store cd Profiler_onboard_user
                                 (update_user cv_ident (user\<lparr>user_is_onboarded := True\<rparr>) s1) of
                            Inl e \<Rightarrow> (Inl e, s1)
                          | Inr s2 \<Rightarrow> (Inr (), s2))
                    else (Inr (), s1))))"

definition profiler_try_under ::
  "conditions \<Rightarrow> services \<Rightarrow> string \<Rightarrow> string list \<Rightarrow> CVDescription option \<Rightarrow> system \<Rightarrow>
   (exn + unit) \<times> system" where
  "profiler_try_under cd sv cv_ident paragraphs creativity_assessment s =
     (let s = run (meanwhile cd) s
      in case analyze_cv sv paragraphs creativity_assessment of
           Inl e \<Rightarrow> (Inl e, s)
         | Inr profile \<Rightarrow>
             let (years_experience, average_tenure) =
                   (case profile of
                      None \<Rightarrow> (None, None)
                    | Some p \<Rightarrow>
                        if employment_history p = [] then (None, None)
                        else (Some (calculate_years_experience (today sv)
                                      (employment_history p)),
                              Some (of_int (calculate_average_tenure (today sv)
                                              (employment_history p)))))
             in (case creativity_assessment of
                   None \<Rightarrow>
                     (Inl (AttributeError
                             ''NoneType object has no attribute creativity_score''), s)
                 | Some d \<Rightarrow>
                     (case bind_arguments update_cv_profile_sig 2
                             [''average_tenure'', ''creativity_score'', ''formatting_score'',
                              ''grammar_score'', ''years_experience''] of
                        Some e \<Rightarrow> (Inl e, s)
                      | None \<Rightarrow>
                          (case at_store cd Profiler_write_run
                                  (update_cv_profile (clock sv) cv_ident profile average_tenure
                                     (Some (creativity_score d)) (Some (formatting_score d))
                                     (Some (grammar_score d)) COMPLETED None years_experience
                                     s) of
                             Inl e \<Rightarrow> (Inl e, s)
                           | Inr s1 \<Rightarrow> merge_into_user_under cd cv_ident s1))))"

definition profiler_process_queue_under :: "conditions \<Rightarrow> services \<Rightarrow> system \<Rightarrow> system" where
  "profiler_process_queue_under cd sv s =
     (if \<not> (profiler_initialized s \<and> profiler_is_running s) then s
      else case profile_queue s of
             [] \<Rightarrow> s
           | (cv_ident, paragraphs, creativity_assessment) # rest \<Rightarrow>
               (case profiler_try_under cd sv cv_ident paragraphs creativity_assessment
                       (s\<lparr>profile_queue := rest\<rparr>) of
                  (Inr u, s') \<Rightarrow> s'
                | (Inl e, s') \<Rightarrow> log_worker_error cv_ident e s'))"

subsection \<open>JDProcessorWorker\<close>

definition jd_try_under ::
  "conditions \<Rightarrow> services \<Rightarrow> string \<Rightarrow> string \<Rightarrow> system \<Rightarrow> (exn + unit) \<times> system" where
  "jd_try_under cd sv jd_ident file_path s =
     (case at_store cd JD_get_run (Inr (get_role_profile s jd_ident)) of
        Inl e \<Rightarrow> (Inl e, s)
      | Inr None \<Rightarrow>
          (Inl (RoleListingError (''Role profile run '' @ jd_ident @ '' not found'') jd_ident), s)
      | Inr (Some role_profile_run) \<Rightarrow>
          let role_profile_run = role_profile_run\<lparr>run_updated_at := clock sv\<rparr>
          in (case bind_arguments update_role_profile_sig 0
                     [''role_id'', ''role_profile'', ''creator_id'', ''status''] of
                Some e \<Rightarrow> (Inl e, s)
              | None \<Rightarrow>
                  (case at_store cd JD_touch_run
                          (update_role_profile (clock sv) jd_ident
                             (Some (as_RoleProfile role_profile_run))
                             (run_creator_id role_profile_run) (run_status role_profile_run)
                             None s) of
                     Inl e \<Rightarrow> (Inl e, s)
                   | Inr (role_profile_run, s1) \<Rightarrow>
                       let s1 = run (meanwhile cd) s1
                       in (case jd_extract sv jd_ident file_path of
                             Inl e \<Rightarrow> (Inl e, s1)
                           | Inr paragraphs \<Rightarrow>
                               (case analyze_jd sv paragraphs of
                                  Inl e \<Rightarrow> (Inl e, s1)
                                | Inr jd_analysis \<Rightarrow>
                                    let role_profile_run =
                                          role_profile_run\<lparr>run_updated_at := clock sv,
                                                           run_status := COMPLETED\<rparr>
                                    in (case at_store cd JD_write_run
                                               (update_role_profile (clock sv) jd_ident
                                                  jd_analysis (run_creator_id role_profile_run)
                                                  (run_status role_profile_run) None s1) of
                                          Inl e \<Rightarrow> (Inl e, s1)
                                        | Inr (role_profile_run, s2) \<Rightarrow>
                                            (case at_store cd JD_add_listing
                                                    (add_role_from_profile sv role_profile_run
                                                       s2) of
                                               Inl e \<Rightarrow> (Inl e, s2)
                                             | Inr (new_role, s3) \<Rightarrow>
                                                 (case at_store cd JD_delete_run
                                                         (Inr (delete_role_profile
                                                                 (run_id role_profile_run)
                                                                 s3)) of
                                                    Inl e \<Rightarrow> (Inl e, s3)
                                                  | Inr s4 \<Rightarrow> (Inr (), s4)))))))))"

definition jd_except_RoleListingError_under ::
  "conditions \<Rightarrow> services \<Rightarrow> exn \<Rightarrow> string \<Rightarrow> system \<Rightarrow> (exn + unit) \<times> system" where
  "jd_except_RoleListingError_under cd sv e e_jd_id s =
     (case at_store cd JD_failure_get_run (Inr (get_role_profile s e_jd_id)) of
        Inl e' \<Rightarrow> (Inl e', s)
      | Inr None \<Rightarrow> (Inr (), log_worker_error e_jd_id e s)
      | Inr (Some role_profile_run) \<Rightarrow>
          let role_profile_run = role_profile_run\<lparr>run_status := FAILED\<rparr>
          in (case bind_arguments update_role_profile_sig 0
                     [''role_id'', ''role_profile'', ''creator_id'', ''status'',
                      ''status_comment''] of
                Some e' \<Rightarrow> (Inl e', s)
              | None \<Rightarrow>
                  (case at_store cd JD_failure_write_run
                          (update_role_profile (clock sv) e_jd_id
                             (Some (as_RoleProfile role_profile_run))
                             (run_creator_id role_profile_run) (run_status role_profile_run)
                             (Some (str e)) s) of
                     Inl e' \<Rightarrow> (Inl e', s)
                   | Inr (r, s') \<Rightarrow> (Inr (), log_worker_error e_jd_id e s'))))"

definition jd_process_queue_under :: "conditions \<Rightarrow> services \<Rightarrow> system \<Rightarrow> system" where
  "jd_process_queue_under cd sv s =
     (if \<not> (jd_initialized s \<and> jd_is_running s) then s
      else case jd_queue s of
             [] \<Rightarrow> s
           | (jd_ident, file_path) # rest \<Rightarrow>
               (case jd_try_under cd sv jd_ident file_path (s\<lparr>jd_queue := rest\<rparr>) of
                  (Inr u, s') \<Rightarrow> s'
                | (Inl e, s') \<Rightarrow>
                    (case as_RoleListingError e of
                       Some e_jd_id \<Rightarrow>
                         (case jd_except_RoleListingError_under cd sv e e_jd_id s' of
                            (Inr u, s'') \<Rightarrow> s''
                          | (Inl e', s'') \<Rightarrow> log_exception e' s'')
                     | None \<Rightarrow> log_worker_error jd_ident e s')))"

text \<open>
  The conditions of the samples: the store refuses the upsert of the new listing; the
  recruiter withdraws the job description while it is being analysed.
\<close>

definition listing_store_down :: conditions where
  "listing_store_down =
     calm\<lparr>store_error := (\<lambda>c. if c = JD_add_listing then Some ''503 Service Unavailable''
                               else None)\<rparr>"

definition withdrawn_meanwhile :: conditions where
  "withdrawn_meanwhile = calm\<lparr>meanwhile := [DeleteRole ''role-1'' ''r1'']\<rparr>"

definition user_store_down :: conditions where
  "user_store_down =
     calm\<lparr>store_error := (\<lambda>c. if c = Profiler_merge_user then Some ''409 Conflict''
                               else None)\<rparr>"


section \<open>Rounding and the two aggregates\<close>

lemma py_round_near: "\<bar>of_int (py_round x) - x\<bar> \<le> 1 / 2"
  using floor_correct [of x] unfolding py_round_def Let_def by (auto; linarith)

lemma floor_plus_half: "\<lfloor>of_int k + (1 / 2 :: rat)\<rfloor> = k"
  by linarith

lemma py_round_tie: "py_round (of_int k + 1 / 2) = (if even k then k else k + 1)"
  unfolding py_round_def Let_def floor_plus_half by simp

lemma foldl_tenure_step:
  "foldl (tenure_step now) a h =
     a + (\<Sum>e\<leftarrow>h. ((if year (end_date e) = 0 then year now else year (end_date e))
                      - year (start_date e)) * 12
                    + ((if year (end_date e) = 0 then month now else month (end_date e))
                      - month (start_date e)))"
  by (induction h arbitrary: a) (simp_all add: tenure_step_def Let_def)


text \<open>
  C7.  For a non-empty employment history the average tenure is the mean of the months
  of the entries, where the months of an entry are (end year - start year) * 12 +
  (end month - start month) and the current year and month replace an end date whose
  year is 0.  The mean is rounded to a nearest whole month, and a mean that lies exactly
  half-way between two whole months always goes to the even one.  One entry from 2020-01
  to 2022-01 gives 24 months.
\<close>

theorem average_tenure_is_rounded_mean:
  "h \<noteq> [] \<Longrightarrow>
     (let months = (\<lambda>e. ((if year (end_date e) = 0 then year now else year (end_date e))
                          - year (start_date e)) * 12
                        + ((if year (end_date e) = 0 then month now else month (end_date e))
                          - month (start_date e)));
          mean = (of_int (\<Sum>e\<leftarrow>h. months e) :: rat) / of_nat (length h);
          r = calculate_average_tenure now h
      in \<bar>of_int r - mean\<bar> \<le> 1 / 2
         \<and> (\<forall>k. mean = of_int k + 1 / 2 \<longrightarrow> r = (if even k then k else k + 1)))
     \<and> calculate_average_tenure now [employment_between 2020 1 2022 1] = 24"
proof -
  assume ne: "h \<noteq> []"
  have r: "calculate_average_tenure now h =
             py_round (of_int (\<Sum>e\<leftarrow>h. ((if year (end_date e) = 0 then year now
                                            else year (end_date e)) - year (start_date e)) * 12
                                + ((if year (end_date e) = 0 then month now
                                    else month (end_date e)) - month (start_date e)))
                       / of_nat (length h))"
    using ne by (simp add: calculate_average_tenure_def foldl_tenure_step)
  have one: "calculate_average_tenure now [employment_between 2020 1 2022 1] = 24"
    by (simp add: calculate_average_tenure_def tenure_step_def py_round_def
          employment_between_def)
  show ?thesis
    unfolding Let_def r using py_round_near py_round_tie one by (auto simp del: of_int_sum)
qed

theorem average_tenure_witness:
  "[employment_between 2020 1 2020 3, employment_between 2020 1 2020 4] \<noteq> []
   \<and> ((2 + 3 :: rat) / 2 = of_int 2 + 1 / 2)
   \<and> calculate_average_tenure july_2024
        [employment_between 2020 1 2020 3, employment_between 2020 1 2020 4] = 2"
proof -
  let ?h = "[employment_between 2020 1 2020 3, employment_between 2020 1 2020 4]"
  have ne: "?h \<noteq> []" by simp
  have "\<forall>k. (5 :: rat) / 2 = of_int k + 1 / 2 \<longrightarrow>
            calculate_average_tenure july_2024 ?h = (if even k then k else k + 1)"
    using average_tenure_is_rounded_mean [OF ne, of july_2024]
    by (simp add: Let_def employment_between_def)
  then have "(5 :: rat) / 2 = of_int 2 + 1 / 2 \<longrightarrow>
               calculate_average_tenure july_2024 ?h = (if even (2::int) then 2 else 2 + 1)"
    by (rule spec)
  then show ?thesis by simp
qed




section \<open>The scan of the link annotations\<close>

lemma sublist_in_middle: "sublist x (a @ x @ b)"
  unfolding sublist_def by blast

lemma sublist_in_middle2: "sublist x (a @ b @ c @ x @ d)"
proof -
  have "a @ b @ c @ x @ d = (a @ b @ c) @ x @ d" by simp
  then show ?thesis unfolding sublist_def by blast
qed

lemma spec_link_note_has_link: "sublist link (spec_link_note link anchor)"
proof (cases "anchor = []")
  case True
  then show ?thesis
    using sublist_in_middle [of link "[CHR 0x0A] @ ''[Found link: ''" "'']''"]
    by (simp add: spec_link_note_def)
next
  case False
  then show ?thesis
    using sublist_in_middle2
      [of link "[CHR 0x0A] @ ''[Found link: '' @ [CHR 0x27]" anchor "[CHR 0x27] @ '' -> ''"
         "'']''"]
    by (simp add: spec_link_note_def)
qed

lemma spec_link_note_has_anchor: "sublist anchor (spec_link_note link anchor)"
proof (cases "anchor = []")
  case True
  then show ?thesis by simp
next
  case False
  then show ?thesis
    using sublist_in_middle
      [of anchor "[CHR 0x0A] @ ''[Found link: '' @ [CHR 0x27]"
         "[CHR 0x27] @ '' -> '' @ link @ '']''"]
    by (simp add: spec_link_note_def)
qed

lemma add_link_spec:
  "add_link paragraphs link linked_text =
     (if \<exists>para \<in> set paragraphs. sublist link para then paragraphs
      else paragraphs @ [spec_link_note link linked_text])"
  by (simp add: add_link_def spec_link_note_def list_ex_iff)

lemma scan_annotation_link:
  "annot_A u = Some (Some link) \<Longrightarrow>
     scan_annotation u paragraphs = Inr (add_link paragraphs link (spec_anchor_text u))"
  by (simp add: scan_annotation_def spec_anchor_text_def)

lemma scan_annotation_step:
  assumes "annot_A u \<noteq> None"
  shows "scan_annotation u paragraphs = Inr (paragraphs @ spec_link_notes paragraphs [u])"
proof (cases "annot_A u")
  case None
  then show ?thesis using assms by simp
next
  case (Some a)
  show ?thesis
  proof (cases a)
    case None
    then show ?thesis using Some by (simp add: scan_annotation_def)
  next
    case (Some link)
    then have "annot_A u = Some (Some link)" using \<open>annot_A u = Some a\<close> by simp
    then show ?thesis by (simp add: scan_annotation_link add_link_spec)
  qed
qed

lemma spec_link_notes_append:
  "spec_link_notes seen (us @ vs)
     = spec_link_notes seen us @ spec_link_notes (seen @ spec_link_notes seen us) vs"
proof (induction us arbitrary: seen)
  case Nil
  then show ?case by simp
next
  case (Cons u us)
  show ?case
  proof (cases "annot_A u")
    case None
    then show ?thesis using Cons.IH by simp
  next
    case (Some a)
    then show ?thesis using Cons.IH by (cases a) simp_all
  qed
qed

lemma spec_link_notes_single:
  "spec_link_notes seen (u # us)
     = spec_link_notes seen [u] @ spec_link_notes (seen @ spec_link_notes seen [u]) us"
  using spec_link_notes_append [of seen "[u]" us] by simp

lemma scan_annotations_spec:
  assumes "\<forall>u \<in> set ann. annot_A u \<noteq> None"
  shows "scan_annotations ann paragraphs = Inr (paragraphs @ spec_link_notes paragraphs ann)"
  using assms
proof (induction ann arbitrary: paragraphs)
  case Nil
  then show ?case by simp
next
  case (Cons u ann)
  have u: "scan_annotation u paragraphs = Inr (paragraphs @ spec_link_notes paragraphs [u])"
    using Cons.prems by (simp add: scan_annotation_step)
  have "scan_annotations ann (paragraphs @ spec_link_notes paragraphs [u])
          = Inr ((paragraphs @ spec_link_notes paragraphs [u])
                 @ spec_link_notes (paragraphs @ spec_link_notes paragraphs [u]) ann)"
    using Cons.IH Cons.prems by simp
  then show ?case
    using u spec_link_notes_single [of paragraphs u ann] by simp
qed

lemma scan_annotations_KeyError:
  assumes "\<exists>u \<in> set ann. annot_A u = None"
  shows "scan_annotations ann paragraphs = Inl (KeyError ''/A'')"
  using assms
proof (induction ann arbitrary: paragraphs)
  case Nil
  then show ?case by simp
next
  case (Cons u ann)
  show ?case
  proof (cases "annot_A u = None")
    case True
    then show ?thesis by (simp add: scan_annotation_def)
  next
    case False
    then have "\<exists>u \<in> set ann. annot_A u = None" using Cons.prems by auto
    then have "scan_annotations ann (paragraphs @ spec_link_notes paragraphs [u])
                 = Inl (KeyError ''/A'')"
      by (rule Cons.IH)
    then show ?thesis using False by (simp add: scan_annotation_step)
  qed
qed

lemma scan_pages_spec:
  assumes "\<forall>u \<in> set (document_annotations pages). annot_A u \<noteq> None"
  shows "scan_pages pages paragraphs
           = Inr (paragraphs @ spec_link_notes paragraphs (document_annotations pages))"
  using assms
proof (induction pages arbitrary: paragraphs)
  case Nil
  then show ?case by (simp add: document_annotations_def)
next
  case (Cons page_object pages)
  have rest: "\<forall>u \<in> set (document_annotations pages). annot_A u \<noteq> None"
    using Cons.prems by (simp add: document_annotations_def)
  show ?case
  proof (cases page_object)
    case None
    then show ?thesis using Cons.IH [OF rest] by (simp add: document_annotations_def)
  next
    case (Some ann)
    have a: "\<forall>u \<in> set ann. annot_A u \<noteq> None"
      using Cons.prems Some by (simp add: document_annotations_def)
    have d: "document_annotations (Some ann # pages) = ann @ document_annotations pages"
      by (simp add: document_annotations_def)
    show ?thesis
      using Some scan_annotations_spec [OF a, of paragraphs]
        Cons.IH [OF rest, of "paragraphs @ spec_link_notes paragraphs ann"]
      by (simp add: d spec_link_notes_append)
  qed
qed

lemma scan_pages_KeyError:
  assumes "\<exists>u \<in> set (document_annotations pages). annot_A u = None"
  shows "scan_pages pages paragraphs = Inl (KeyError ''/A'')"
  using assms
proof (induction pages arbitrary: paragraphs)
  case Nil
  then show ?case by (simp add: document_annotations_def)
next
  case (Cons page_object pages)
  show ?case
  proof (cases page_object)
    case None
    then show ?thesis using Cons by (simp add: document_annotations_def)
  next
    case (Some ann)
    show ?thesis
    proof (cases "\<exists>u \<in> set ann. annot_A u = None")
      case True
      then show ?thesis using Some by (simp add: scan_annotations_KeyError)
    next
      case False
      then have a: "\<forall>u \<in> set ann. annot_A u \<noteq> None" by simp
      have "\<exists>u \<in> set (document_annotations pages). annot_A u = None"
        using Cons.prems Some False by (auto simp: document_annotations_def)
      then have "scan_pages pages (paragraphs @ spec_link_notes paragraphs ann)
                   = Inl (KeyError ''/A'')"
        by (rule Cons.IH)
      then show ?thesis using Some scan_annotations_spec [OF a, of paragraphs] by simp
    qed
  qed
qed

text \<open>Every link of the document occurs in the list the scan ends with.\<close>

lemma spec_link_notes_cover:
  assumes "u \<in> set us" "annot_A u = Some (Some link)"
  shows "\<exists>para \<in> set (seen @ spec_link_notes seen us). sublist link para"
  using assms
proof (induction us arbitrary: seen)
  case Nil
  then show ?case by simp
next
  case (Cons v us)
  have grow: "set (seen @ spec_link_notes seen [v])
                \<subseteq> set (seen @ spec_link_notes seen (v # us))"
    using spec_link_notes_single [of seen v us] by auto
  have split: "seen @ spec_link_notes seen (v # us)
                 = (seen @ spec_link_notes seen [v])
                   @ spec_link_notes (seen @ spec_link_notes seen [v]) us"
    using spec_link_notes_single [of seen v us] by simp
  show ?case
  proof (cases "u = v")
    case True
    have "\<exists>para \<in> set (seen @ spec_link_notes seen [v]). sublist link para"
      using True Cons.prems(2) spec_link_note_has_link [of link "spec_anchor_text v"]
      by auto
    then show ?thesis using grow by blast
  next
    case False
    then have "u \<in> set us" using Cons.prems(1) by simp
    then show ?thesis
      using Cons.IH [of "seen @ spec_link_notes seen [v]"] Cons.prems(2) split by simp
  qed
qed

lemma spec_link_notes_length: "length (spec_link_notes seen us) \<le> length us"
proof (induction us arbitrary: seen)
  case Nil
  then show ?case by simp
next
  case (Cons u us)
  show ?case
  proof (cases "annot_A u")
    case None
    then show ?thesis using Cons.IH [of seen] by simp
  next
    case (Some a)
    show ?thesis
    proof (cases a)
      case None
      then show ?thesis using Some Cons.IH [of seen] by simp
    next
      case (Some link)
      then show ?thesis
        using \<open>annot_A u = Some a\<close> Cons.IH [of seen]
          Cons.IH [of "seen @ [spec_link_note link (spec_anchor_text u)]"]
        by simp
    qed
  qed
qed

text \<open>
  C9, amended.  An annotation whose action has a URI, met with the list of paragraphs as
  it stands at that moment (the extracted paragraphs and the notes appended for earlier
  annotations): when the URI is a substring of some paragraph of that list, the list stays
  as it is; otherwise exactly one paragraph is appended, the URI in its fixed frame,
  preceded by the quoted anchor text when there is one (the \<open>/Contents\<close> entry, else the
  \<open>/T\<close> entry, not empty).  For a document whose annotations all have an action entry,
  the scan returns the extracted paragraphs, in their order, followed by the notes of the
  specification, taken over the annotations in document order; there are at most as many
  notes as annotations, and every URI of the document is a substring of some paragraph of
  the result.  A document with an annotation that has no action entry makes the scan raise
  \<open>KeyError\<close>.
\<close>

theorem link_scan_notes_each_missing_link:
  "(annot_A u = Some (Some link) \<longrightarrow>
      ((\<exists>para \<in> set paragraphs. sublist link para) \<longrightarrow>
         scan_annotation u paragraphs = Inr paragraphs)
      \<and> (\<not> (\<exists>para \<in> set paragraphs. sublist link para) \<longrightarrow>
           (\<exists>p. scan_annotation u paragraphs = Inr (paragraphs @ [p])
                \<and> sublist link p
                \<and> (let linked_text =
                          (case annot_Contents u of
                             Some c \<Rightarrow> c
                           | None \<Rightarrow> (case annot_T u of Some t \<Rightarrow> t | None \<Rightarrow> []))
                    in (linked_text \<noteq> [] \<longrightarrow>
                          sublist linked_text p
                          \<and> p = [CHR 0x0A] @ ''[Found link: '' @ [CHR 0x27] @ linked_text
                                  @ [CHR 0x27] @ '' -> '' @ link @ '']'')
                       \<and> (linked_text = [] \<longrightarrow>
                             p = [CHR 0x0A] @ ''[Found link: '' @ link @ '']'')))))
   \<and> ((\<forall>v \<in> set (document_annotations pages). annot_A v \<noteq> None) \<longrightarrow>
         scan_pages pages paragraphs
           = Inr (paragraphs @ spec_link_notes paragraphs (document_annotations pages))
         \<and> length (spec_link_notes paragraphs (document_annotations pages))
             \<le> length (document_annotations pages)
         \<and> (\<forall>v \<in> set (document_annotations pages). \<forall>l. annot_A v = Some (Some l) \<longrightarrow>
               (\<exists>para \<in> set (paragraphs
                               @ spec_link_notes paragraphs (document_annotations pages)).
                  sublist l para)))
   \<and> ((\<exists>v \<in> set (document_annotations pages). annot_A v = None) \<longrightarrow>
         scan_pages pages paragraphs = Inl (KeyError ''/A''))"
proof (intro conjI impI)
  assume a: "annot_A u = Some (Some link)"
    and yes: "\<exists>para \<in> set paragraphs. sublist link para"
  show "scan_annotation u paragraphs = Inr paragraphs"
    using yes by (simp add: scan_annotation_link [OF a] add_link_spec)
next
  assume a: "annot_A u = Some (Some link)"
    and no: "\<not> (\<exists>para \<in> set paragraphs. sublist link para)"
  define linked_text where
    "linked_text = (case annot_Contents u of
                      Some c \<Rightarrow> c
                    | None \<Rightarrow> (case annot_T u of Some t \<Rightarrow> t | None \<Rightarrow> []))"
  have lt: "spec_anchor_text u = linked_text"
    by (simp add: spec_anchor_text_def linked_text_def)
  let ?p = "spec_link_note link linked_text"
  have s: "scan_annotation u paragraphs = Inr (paragraphs @ [?p])"
    using no by (simp add: scan_annotation_link [OF a] add_link_spec lt)
  have "(linked_text \<noteq> [] \<longrightarrow>
            sublist linked_text ?p
            \<and> ?p = [CHR 0x0A] @ ''[Found link: '' @ [CHR 0x27] @ linked_text
                    @ [CHR 0x27] @ '' -> '' @ link @ '']'')
         \<and> (linked_text = [] \<longrightarrow> ?p = [CHR 0x0A] @ ''[Found link: '' @ link @ '']'')"
  proof (cases "linked_text = []")
    case True
    then show ?thesis by (simp add: spec_link_note_def)
  next
    case False
    then have "?p = [CHR 0x0A] @ ''[Found link: '' @ [CHR 0x27] @ linked_text
                    @ [CHR 0x27] @ '' -> '' @ link @ '']''"
      by (simp add: spec_link_note_def)
    then show ?thesis
      using False spec_link_note_has_anchor [of linked_text link] by blast
  qed
  then show "\<exists>p. scan_annotation u paragraphs = Inr (paragraphs @ [p])
                \<and> sublist link p
                \<and> (let linked_text =
                          (case annot_Contents u of
                             Some c \<Rightarrow> c
                           | None \<Rightarrow> (case annot_T u of Some t \<Rightarrow> t | None \<Rightarrow> []))
                    in (linked_text \<noteq> [] \<longrightarrow>
                          sublist linked_text p
                          \<and> p = [CHR 0x0A] @ ''[Found link: '' @ [CHR 0x27] @ linked_text
                                  @ [CHR 0x27] @ '' -> '' @ link @ '']'')
                       \<and> (linked_text = [] \<longrightarrow>
                             p = [CHR 0x0A] @ ''[Found link: '' @ link @ '']''))"
    unfolding Let_def linked_text_def [symmetric]
    using s spec_link_note_has_link [of link linked_text] by blast
next
  assume "\<forall>v \<in> set (document_annotations pages). annot_A v \<noteq> None"
  then show "scan_pages pages paragraphs
           = Inr (paragraphs @ spec_link_notes paragraphs (document_annotations pages))"
    by (rule scan_pages_spec)
next
  show "length (spec_link_notes paragraphs (document_annotations pages))
             \<le> length (document_annotations pages)"
    by (rule spec_link_notes_length)
next
  show "\<forall>v \<in> set (document_annotations pages). \<forall>l. annot_A v = Some (Some l) \<longrightarrow>
               (\<exists>para \<in> set (paragraphs
                               @ spec_link_notes paragraphs (document_annotations pages)).
                  sublist l para)"
    using spec_link_notes_cover by blast
next
  assume "\<exists>v \<in> set (document_annotations pages). annot_A v = None"
  then show "scan_pages pages paragraphs = Inl (KeyError ''/A'')"
    by (rule scan_pages_KeyError)
qed

theorem link_scan_witness:
  "annot_A sample_link = Some (Some ''https://example.org/me'')
   \<and> (\<exists>para \<in> set [''See https://example.org/me for more''].
         sublist ''https://example.org/me'' para)
   \<and> scan_annotation sample_link [''See https://example.org/me for more'']
       = Inr [''See https://example.org/me for more'']
   \<and> \<not> (\<exists>para \<in> set [''Jane Doe'', ''Engineer'']. sublist ''https://example.org/me'' para)
   \<and> scan_annotation sample_link [''Jane Doe'', ''Engineer'']
       = Inr [''Jane Doe'', ''Engineer'',
              [CHR 0x0A] @ ''[Found link: '' @ [CHR 0x27] @ ''my site'' @ [CHR 0x27]
                @ '' -> https://example.org/me]'']
   \<and> scan_annotation short_link [''Jane Doe'', ''Engineer'']
       = Inr [''Jane Doe'', ''Engineer'', [CHR 0x0A] @ ''[Found link: https://example.org]'']
   \<and> document_annotations [None, Some [short_link], Some [sample_link, short_link]]
       = [short_link, sample_link, short_link]
   \<and> scan_pages [None, Some [short_link], Some [sample_link, short_link]]
        [''Jane Doe'', ''Engineer'']
       = Inr [''Jane Doe'', ''Engineer'', [CHR 0x0A] @ ''[Found link: https://example.org]'',
              [CHR 0x0A] @ ''[Found link: '' @ [CHR 0x27] @ ''my site'' @ [CHR 0x27]
                @ '' -> https://example.org/me]'']
   \<and> scan_pages [Some [sample_link, Annotation None (Some ''a remark'') None]]
        [''Jane Doe'', ''Engineer'']
       = Inl (KeyError ''/A'')"
proof -
  note claim = link_scan_notes_each_missing_link
  let ?ps = "[''Jane Doe'', ''Engineer'']"
  let ?pages = "[None, Some [short_link], Some [sample_link, short_link]]"
  let ?bad = "[Some [sample_link, Annotation None (Some ''a remark'') None]]"
  have a: "annot_A sample_link = Some (Some ''https://example.org/me'')"
    by (simp add: sample_link_def)
  have b: "annot_A short_link = Some (Some ''https://example.org'')"
    by (simp add: short_link_def)
  have yes: "\<exists>para \<in> set [''See https://example.org/me for more''].
               sublist ''https://example.org/me'' para"
    by code_simp
  have no: "\<not> (\<exists>para \<in> set ?ps. sublist ''https://example.org/me'' para)"
    by code_simp
  have no': "\<not> (\<exists>para \<in> set ?ps. sublist ''https://example.org'' para)"
    by code_simp
  have kept: "scan_annotation sample_link [''See https://example.org/me for more'']
                = Inr [''See https://example.org/me for more'']"
    using claim [of sample_link "''https://example.org/me''"
        "[''See https://example.org/me for more'']", THEN conjunct1] a yes
    by blast
  have "\<exists>p. scan_annotation sample_link ?ps = Inr (?ps @ [p])
          \<and> p = [CHR 0x0A] @ ''[Found link: '' @ [CHR 0x27] @ ''my site'' @ [CHR 0x27]
                  @ '' -> '' @ ''https://example.org/me'' @ '']''"
    using claim [of sample_link "''https://example.org/me''" ?ps, THEN conjunct1] a no
    by (simp add: sample_link_def)
  then have noted: "scan_annotation sample_link ?ps
       = Inr [''Jane Doe'', ''Engineer'',
              [CHR 0x0A] @ ''[Found link: '' @ [CHR 0x27] @ ''my site'' @ [CHR 0x27]
                @ '' -> https://example.org/me]'']"
    by auto
  have "\<exists>p. scan_annotation short_link ?ps = Inr (?ps @ [p])
          \<and> p = [CHR 0x0A] @ ''[Found link: '' @ ''https://example.org'' @ '']''"
    using claim [of short_link "''https://example.org''" ?ps, THEN conjunct1] b no'
    by (simp add: short_link_def)
  then have bare: "scan_annotation short_link ?ps
       = Inr [''Jane Doe'', ''Engineer'', [CHR 0x0A] @ ''[Found link: https://example.org]'']"
    by auto
  have d: "document_annotations ?pages = [short_link, sample_link, short_link]"
    by (simp add: document_annotations_def)
  have all: "\<forall>v \<in> set (document_annotations ?pages). annot_A v \<noteq> None"
    by (simp add: d a b)
  have nt: "spec_link_notes ?ps [short_link, sample_link, short_link]
                 = [[CHR 0x0A] @ ''[Found link: https://example.org]'',
                    [CHR 0x0A] @ ''[Found link: '' @ [CHR 0x27] @ ''my site'' @ [CHR 0x27]
                      @ '' -> https://example.org/me]'']"
    by code_simp
  have r: "scan_pages ?pages ?ps
             = Inr (?ps @ spec_link_notes ?ps (document_annotations ?pages))"
    using claim [where pages = "?pages" and paragraphs = "?ps", THEN conjunct2, THEN conjunct1]
      all
    by blast
  have e: "?ps @ spec_link_notes ?ps (document_annotations ?pages)
       = [''Jane Doe'', ''Engineer'', [CHR 0x0A] @ ''[Found link: https://example.org]'',
              [CHR 0x0A] @ ''[Found link: '' @ [CHR 0x27] @ ''my site'' @ [CHR 0x27]
                @ '' -> https://example.org/me]'']"
    unfolding d nt by simp
  have scan: "scan_pages ?pages ?ps
       = Inr [''Jane Doe'', ''Engineer'', [CHR 0x0A] @ ''[Found link: https://example.org]'',
              [CHR 0x0A] @ ''[Found link: '' @ [CHR 0x27] @ ''my site'' @ [CHR 0x27]
                @ '' -> https://example.org/me]'']"
    using r by (simp only: e)
  have "\<exists>v \<in> set (document_annotations ?bad). annot_A v = None"
    by (simp add: document_annotations_def)
  then have bad: "scan_pages ?bad ?ps = Inl (KeyError ''/A'')"
    using claim [where pages = "?bad" and paragraphs = "?ps", THEN conjunct2, THEN conjunct2] by blast
  show ?thesis using a yes kept no noted bare d scan bad by blast
qed

text \<open>
  Where C9 as it is stated fails: a link that is in no extracted paragraph and is not
  noted.  The same link twice is noted once, the second annotation finding the URI in
  the note of the first; a link whose URI is part of an earlier note is not noted, and is
  noted when the two annotations come in the other order.
\<close>

theorem link_in_earlier_note_is_not_noted:
  "annot_A sample_link = Some (Some ''https://example.org/me'')
   \<and> annot_A short_link = Some (Some ''https://example.org'')
   \<and> \<not> sublist ''https://example.org/me'' ''Jane Doe''
   \<and> \<not> sublist ''https://example.org/me'' ''Engineer''
   \<and> \<not> sublist ''https://example.org'' ''Jane Doe''
   \<and> \<not> sublist ''https://example.org'' ''Engineer''
   \<and> scan_pages [Some [sample_link, sample_link]] [''Jane Doe'', ''Engineer'']
       = Inr [''Jane Doe'', ''Engineer'',
              [CHR 0x0A] @ ''[Found link: '' @ [CHR 0x27] @ ''my site'' @ [CHR 0x27]
                @ '' -> https://example.org/me]'']
   \<and> scan_pages [Some [sample_link, short_link]] [''Jane Doe'', ''Engineer'']
       = Inr [''Jane Doe'', ''Engineer'',
              [CHR 0x0A] @ ''[Found link: '' @ [CHR 0x27] @ ''my site'' @ [CHR 0x27]
                @ '' -> https://example.org/me]'']
   \<and> scan_pages [Some [short_link, sample_link]] [''Jane Doe'', ''Engineer'']
       = Inr [''Jane Doe'', ''Engineer'', [CHR 0x0A] @ ''[Found link: https://example.org]'',
              [CHR 0x0A] @ ''[Found link: '' @ [CHR 0x27] @ ''my site'' @ [CHR 0x27]
                @ '' -> https://example.org/me]'']"
  by code_simp


section \<open>The rate limiters\<close>

lemma wait_for_rate_limit_spacing:
  assumes "wait_for_rate_limit t2 t2' p1 = (d2, p2)" and "clock_sound t2 d2 t2'"
  shows "api_rate_limit p1 \<le> last_api_call p2 - last_api_call p1"
  using assms
  by (auto simp: wait_for_rate_limit_def clock_sound_def Let_def split: if_splits)

lemma wait_for_vision_rate_limit_spacing:
  assumes "wait_for_vision_rate_limit t2 t2' v1 = (e2, v2)" and "clock_sound t2 e2 t2'"
  shows "vision_rate_limit v1 \<le> last_vision_call v2 - last_vision_call v1"
  using assms
  by (auto simp: wait_for_vision_rate_limit_def clock_sound_def Let_def split: if_splits)

text \<open>
  C6.  Two consecutive waits on one limiter: the second wait sleeps for exactly what is
  left of the interval when it comes early and does not sleep otherwise, and the
  timestamp it records is at least the interval later than the timestamp the first wait
  recorded, provided the clock of the second wait is sound (the sleep lasts at least as
  long as asked, the clock does not run backwards).  This holds for the limiter of the
  text model and for the limiter of the vision client alike.  A wait on one of the two
  leaves the sleep of the other as it would have been without it.
\<close>

theorem rate_limiter_spaces_calls:
  "(wait_for_rate_limit t1 t1' p0 = (d1, p1) \<and> wait_for_rate_limit t2 t2' p1 = (d2, p2)
      \<and> clock_sound t2 d2 t2'
    \<longrightarrow> last_api_call p1 = t1' \<and> last_api_call p2 = t2'
        \<and> api_rate_limit p0 \<le> last_api_call p2 - last_api_call p1
        \<and> d2 = (if t2 - t1' < api_rate_limit p0 then Some (api_rate_limit p0 - (t2 - t1'))
                else None))
   \<and> (wait_for_vision_rate_limit t1 t1' v0 = (e1, v1)
        \<and> wait_for_vision_rate_limit t2 t2' v1 = (e2, v2) \<and> clock_sound t2 e2 t2'
      \<longrightarrow> last_vision_call v1 = t1' \<and> last_vision_call v2 = t2'
          \<and> vision_rate_limit v0 \<le> last_vision_call v2 - last_vision_call v1
          \<and> e2 = (if t2 - t1' < vision_rate_limit v0
                  then Some (vision_rate_limit v0 - (t2 - t1')) else None))
   \<and> fst (vision_wait t t' (snd (llm_wait u u' c))) = fst (vision_wait t t' c)
   \<and> fst (llm_wait t t' (snd (vision_wait u u' c))) = fst (llm_wait t t' c)"
proof -
  have llm: "last_api_call p1 = t1' \<and> last_api_call p2 = t2'
        \<and> api_rate_limit p0 \<le> last_api_call p2 - last_api_call p1
        \<and> d2 = (if t2 - t1' < api_rate_limit p0 then Some (api_rate_limit p0 - (t2 - t1'))
                else None)"
    if a: "wait_for_rate_limit t1 t1' p0 = (d1, p1)"
      and b: "wait_for_rate_limit t2 t2' p1 = (d2, p2)" and c: "clock_sound t2 d2 t2'"
  proof -
    have p1: "last_api_call p1 = t1'" "api_rate_limit p1 = api_rate_limit p0"
      using a by (auto simp: wait_for_rate_limit_def Let_def)
    have p2: "last_api_call p2 = t2'"
      using b by (auto simp: wait_for_rate_limit_def Let_def)
    have d2: "d2 = (if t2 - t1' < api_rate_limit p0 then Some (api_rate_limit p0 - (t2 - t1'))
                    else None)"
      using b p1 by (auto simp: wait_for_rate_limit_def Let_def)
    show ?thesis using wait_for_rate_limit_spacing [OF b c] p1 p2 d2 by simp
  qed
  have vis: "last_vision_call v1 = t1' \<and> last_vision_call v2 = t2'
          \<and> vision_rate_limit v0 \<le> last_vision_call v2 - last_vision_call v1
          \<and> e2 = (if t2 - t1' < vision_rate_limit v0
                  then Some (vision_rate_limit v0 - (t2 - t1')) else None)"
    if a: "wait_for_vision_rate_limit t1 t1' v0 = (e1, v1)"
      and b: "wait_for_vision_rate_limit t2 t2' v1 = (e2, v2)" and c: "clock_sound t2 e2 t2'"
  proof -
    have v1: "last_vision_call v1 = t1'" "vision_rate_limit v1 = vision_rate_limit v0"
      using a by (auto simp: wait_for_vision_rate_limit_def Let_def)
    have v2: "last_vision_call v2 = t2'"
      using b by (auto simp: wait_for_vision_rate_limit_def Let_def)
    have e2: "e2 = (if t2 - t1' < vision_rate_limit v0
                    then Some (vision_rate_limit v0 - (t2 - t1')) else None)"
      using b v1 by (auto simp: wait_for_vision_rate_limit_def Let_def)
    show ?thesis using wait_for_vision_rate_limit_spacing [OF b c] v1 v2 e2 by simp
  qed
  have i1: "fst (vision_wait t t' (snd (llm_wait u u' c))) = fst (vision_wait t t' c)"
    by (simp add: vision_wait_def llm_wait_def wait_for_rate_limit_def
          wait_for_vision_rate_limit_def Let_def)
  have i2: "fst (llm_wait t t' (snd (vision_wait u u' c))) = fst (llm_wait t t' c)"
    by (simp add: vision_wait_def llm_wait_def wait_for_rate_limit_def
          wait_for_vision_rate_limit_def Let_def)
  show ?thesis using llm vis i1 i2 by blast
qed

theorem rate_limiter_witness:
  "wait_for_rate_limit 100 100 LLMProcessor_init
     = (None, \<lparr>api_rate_limit = 1 / 2, last_api_call = 100\<rparr>)
   \<and> wait_for_rate_limit (1002 / 10) (1005 / 10) \<lparr>api_rate_limit = 1 / 2, last_api_call = 100\<rparr>
     = (Some (3 / 10), \<lparr>api_rate_limit = 1 / 2, last_api_call = 1005 / 10\<rparr>)
   \<and> clock_sound (1002 / 10) (Some (3 / 10)) (1005 / 10)
   \<and> (1 / 2 :: real) \<le> 1005 / 10 - 100
   \<and> wait_for_vision_rate_limit 100 100 VisionAnalysisClient_init
     = (None, \<lparr>openai_rate_limit = 1 / 2, vision_rate_limit = 1, last_openai_call = 0,
               last_vision_call = 100\<rparr>)
   \<and> wait_for_vision_rate_limit 102 102
        \<lparr>openai_rate_limit = 1 / 2, vision_rate_limit = 1, last_openai_call = 0,
         last_vision_call = 100\<rparr>
     = (None, \<lparr>openai_rate_limit = 1 / 2, vision_rate_limit = 1, last_openai_call = 0,
               last_vision_call = 102\<rparr>)
   \<and> clock_sound 102 None 102
   \<and> (1 :: real) \<le> 102 - 100"
proof -
  let ?p1 = "\<lparr>api_rate_limit = 1 / 2, last_api_call = 100\<rparr>"
  let ?p2 = "\<lparr>api_rate_limit = 1 / 2, last_api_call = 1005 / 10\<rparr>"
  let ?v1 = "\<lparr>openai_rate_limit = 1 / 2, vision_rate_limit = 1, last_openai_call = 0,
              last_vision_call = 100\<rparr>"
  let ?v2 = "\<lparr>openai_rate_limit = 1 / 2, vision_rate_limit = 1, last_openai_call = 0,
              last_vision_call = 102\<rparr>"
  have a: "wait_for_rate_limit 100 100 LLMProcessor_init = (None, ?p1)"
    by (simp add: wait_for_rate_limit_def LLMProcessor_init_def)
  have b: "wait_for_rate_limit (1002 / 10) (1005 / 10) ?p1 = (Some (3 / 10), ?p2)"
    by (simp add: wait_for_rate_limit_def)
  have c: "clock_sound (1002 / 10) (Some (3 / 10)) (1005 / 10)"
    by (simp add: clock_sound_def)
  have a': "wait_for_vision_rate_limit 100 100 VisionAnalysisClient_init = (None, ?v1)"
    by (simp add: wait_for_vision_rate_limit_def VisionAnalysisClient_init_def)
  have b': "wait_for_vision_rate_limit 102 102 ?v1 = (None, ?v2)"
    by (simp add: wait_for_vision_rate_limit_def)
  have c': "clock_sound 102 None 102"
    by (simp add: clock_sound_def)
  note t = rate_limiter_spaces_calls
             [of 100 100 LLMProcessor_init None ?p1 "1002 / 10" "1005 / 10" "Some (3 / 10)" ?p2
                VisionAnalysisClient_init None ?v1 None ?v2]
  have "api_rate_limit LLMProcessor_init \<le> last_api_call ?p2 - last_api_call ?p1"
    using t a b c by blast
  then have s: "(1 / 2 :: real) \<le> 1005 / 10 - 100"
    by (simp add: LLMProcessor_init_def)
  note t' = rate_limiter_spaces_calls
              [of 100 100 LLMProcessor_init None ?p1 102 102 None ?p2
                 VisionAnalysisClient_init None ?v1 None ?v2]
  have "vision_rate_limit VisionAnalysisClient_init
          \<le> last_vision_call ?v2 - last_vision_call ?v1"
    using t' a' b' c' by blast
  then have s': "(1 :: real) \<le> 102 - 100"
    by (simp add: VisionAnalysisClient_init_def)
  show ?thesis using a b c a' b' c' s s' by blast
qed


section \<open>How the workers' calls bind\<close>

lemma cv_write_back_call_raises:
  "bind_arguments update_cv_profile_sig 0 [''cv_id'', ''cv_profile'', ''status'']
     = Some (TypeError ''got an unexpected keyword argument cv_id'')"
  by (simp add: bind_arguments_def update_cv_profile_sig_def)

lemma cv_failure_call_raises:
  "bind_arguments update_cv_profile_sig 0
     [''cv_id'', ''cv_profile'', ''status'', ''status_comment'']
     = Some (TypeError ''got an unexpected keyword argument cv_id'')"
  by (simp add: bind_arguments_def update_cv_profile_sig_def)

lemma profiler_call_binds:
  "bind_arguments update_cv_profile_sig 2
     [''average_tenure'', ''creativity_score'', ''formatting_score'', ''grammar_score'',
      ''years_experience''] = None"
  by (simp add: bind_arguments_def update_cv_profile_sig_def)

lemma jd_touch_call_binds:
  "bind_arguments update_role_profile_sig 0
     [''role_id'', ''role_profile'', ''creator_id'', ''status''] = None"
  by (simp add: bind_arguments_def update_role_profile_sig_def)

lemma jd_failure_call_binds:
  "bind_arguments update_role_profile_sig 0
     [''role_id'', ''role_profile'', ''creator_id'', ''status'', ''status_comment''] = None"
  by (simp add: bind_arguments_def update_role_profile_sig_def)

section \<open>The Resume worker writes nothing\<close>

lemma cv_try_unfold:
  "cv_try sv i fp s =
     (case cv_extract sv i fp of
        Inl e \<Rightarrow> (Inl e, s)
      | Inr pc \<Rightarrow>
          (case get_cv_profile s i of
             None \<Rightarrow> (Inl (AttributeError ''NoneType object has no attribute updated_at''), s)
           | Some c \<Rightarrow> (Inl (TypeError ''got an unexpected keyword argument cv_id''), s)))"
  by (simp add: cv_try_def cv_write_back_call_raises Let_def
        split: sum.splits prod.splits option.splits)

lemma cv_except_CVError_unfold:
  "cv_except_CVError sv e i s =
     (case get_cv_profile s i of
        None \<Rightarrow> (Inl (AttributeError ''NoneType object has no attribute status''), s)
      | Some c \<Rightarrow> (Inl (TypeError ''got an unexpected keyword argument cv_id''), s))"
  by (simp add: cv_except_CVError_def cv_failure_call_raises Let_def split: option.splits)

lemma cv_try_raises: "\<exists>e. cv_try sv i fp s = (Inl e, s)"
  by (simp add: cv_try_unfold split: sum.splits option.splits)

lemma cv_except_CVError_raises: "\<exists>e'. cv_except_CVError sv e i s = (Inl e', s)"
  by (simp add: cv_except_CVError_unfold split: option.splits)

lemma cv_process_queue_item:
  assumes "cv_initialized s" "cv_is_running s" "cv_queue s = (i, fp) # rest"
  shows "\<exists>entry. cv_process_queue sv s
                  = s\<lparr>cv_queue := rest, error_log := error_log s @ [entry]\<rparr>"
proof -
  obtain e where e: "cv_try sv i fp (s\<lparr>cv_queue := rest\<rparr>) = (Inl e, s\<lparr>cv_queue := rest\<rparr>)"
    using cv_try_raises by blast
  show ?thesis
  proof (cases "as_CVError e")
    case None
    then have "cv_process_queue sv s
                 = s\<lparr>cv_queue := rest, error_log := error_log s @ [WorkerError i (str e)]\<rparr>"
      using assms e by (simp add: cv_process_queue_def log_worker_error_def)
    then show ?thesis by blast
  next
    case (Some j)
    obtain e' where
      "cv_except_CVError sv e j (s\<lparr>cv_queue := rest\<rparr>) = (Inl e', s\<lparr>cv_queue := rest\<rparr>)"
      using cv_except_CVError_raises by blast
    then have "cv_process_queue sv s
                 = s\<lparr>cv_queue := rest, error_log := error_log s @ [LoggedException (str e')]\<rparr>"
      using assms e Some by (simp add: cv_process_queue_def log_exception_def)
    then show ?thesis by blast
  qed
qed

lemma cv_process_queue_frame:
  "users (cv_process_queue sv s) = users s"
  "cv_profiles (cv_process_queue sv s) = cv_profiles s"
  "role_profiles (cv_process_queue sv s) = role_profiles s"
  "role_listings (cv_process_queue sv s) = role_listings s"
  "profile_queue (cv_process_queue sv s) = profile_queue s"
  "jd_queue (cv_process_queue sv s) = jd_queue s"
  "cv_is_running (cv_process_queue sv s) = cv_is_running s"
  "cv_initialized (cv_process_queue sv s) = cv_initialized s"
proof -
  have "users (cv_process_queue sv s) = users s
      \<and> cv_profiles (cv_process_queue sv s) = cv_profiles s
      \<and> role_profiles (cv_process_queue sv s) = role_profiles s
      \<and> role_listings (cv_process_queue sv s) = role_listings s
      \<and> profile_queue (cv_process_queue sv s) = profile_queue s
      \<and> jd_queue (cv_process_queue sv s) = jd_queue s
      \<and> cv_is_running (cv_process_queue sv s) = cv_is_running s
      \<and> cv_initialized (cv_process_queue sv s) = cv_initialized s"
  proof (cases "cv_initialized s \<and> cv_is_running s")
    case False
    then show ?thesis by (simp add: cv_process_queue_def)
  next
    case True
    show ?thesis
    proof (cases "cv_queue s")
      case Nil
      then show ?thesis by (simp add: cv_process_queue_def)
    next
      case (Cons item rest)
      obtain i fp where "item = (i, fp)" by (cases item)
      with True Cons obtain entry where
        "cv_process_queue sv s = s\<lparr>cv_queue := rest, error_log := error_log s @ [entry]\<rparr>"
        using cv_process_queue_item [of s i fp rest sv] by auto
      then show ?thesis by simp
    qed
  qed
  then show "users (cv_process_queue sv s) = users s"
    "cv_profiles (cv_process_queue sv s) = cv_profiles s"
    "role_profiles (cv_process_queue sv s) = role_profiles s"
    "role_listings (cv_process_queue sv s) = role_listings s"
    "profile_queue (cv_process_queue sv s) = profile_queue s"
    "jd_queue (cv_process_queue sv s) = jd_queue s"
    "cv_is_running (cv_process_queue sv s) = cv_is_running s"
    "cv_initialized (cv_process_queue sv s) = cv_initialized s"
    by simp_all
qed

section \<open>The Profiler worker\<close>

lemma update_cv_profile_result:
  assumes "update_cv_profile now i p avg cr fo gr st cm ye s = Inr s'"
  shows "\<exists>r r'. get_cv_profile s i = Some r
            \<and> s' = s\<lparr>cv_profiles := AList.update i r' (cv_profiles s)\<rparr>
            \<and> cv_status r' = st \<and> cv_status_comment r' = cm \<and> cv_id r' = i
            \<and> cv_file_path r' = cv_file_path r \<and> cv_creativity_score r' = cr
            \<and> cv_average_tenure r' = avg \<and> cv_years_experience r' = ye"
  using assms
  by (auto simp: update_cv_profile_def create_cv_profile_run_from_cv_profile_def Let_def
        split: option.splits)

lemma update_cv_profile_no_profile:
  "update_cv_profile now i None avg cr fo gr st cm ye s = Inr s' \<Longrightarrow> False"
  by (auto simp: update_cv_profile_def create_cv_profile_run_from_cv_profile_def
        split: option.splits)

lemma update_user_frame:
  "update_user i u s = Inr s' \<Longrightarrow>
     s' = s\<lparr>users := AList.update i (u\<lparr>user_id := i\<rparr>) (users s)\<rparr>"
  by (auto simp: update_user_def split: if_splits option.splits)

lemma update_user_ok:
  "i \<noteq> [] \<Longrightarrow> get_user_by_id s i = Some u0 \<Longrightarrow> \<exists>s'. update_user i u s = Inr s'"
  by (simp add: update_user_def)

lemma users_only:
  "s1 = s\<lparr>users := a\<rparr> \<Longrightarrow> s1 = s\<lparr>users := users s1\<rparr>"
  "s1 = s\<lparr>users := a\<rparr> \<Longrightarrow> s2 = s1\<lparr>users := b\<rparr> \<Longrightarrow> s2 = s\<lparr>users := users s2\<rparr>"
  by simp_all

lemma update_user_from_cv_profile_frame:
  assumes "update_user_from_cv_profile i r s = Inr (u, s')"
  shows "s' = s\<lparr>users := users s'\<rparr>"
proof -
  from assms obtain u' where "update_user i u' s = Inr s'"
    unfolding update_user_from_cv_profile_def Let_def
    by (simp split: if_splits option.splits sum.splits)
  from update_user_frame [OF this] show ?thesis by (rule users_only(1))
qed

lemma merge_into_user_frame:
  assumes "merge_into_user i s = (res, s')"
  shows "s' = s\<lparr>users := users s'\<rparr>"
proof (cases "get_user_by_id s i")
  case None
  then show ?thesis using assms by (simp add: merge_into_user_def)
next
  case (Some u0)
  note u0 = this
  show ?thesis
  proof (cases "get_cv_profile s i")
    case None
    then show ?thesis using assms u0 by (simp add: merge_into_user_def)
  next
    case (Some r)
    note r = this
    show ?thesis
    proof (cases "update_user_from_cv_profile i r s")
      case (Inl e)
      then show ?thesis using assms u0 r by (simp add: merge_into_user_def)
    next
      case (Inr us1)
      obtain u1 s1 where us1: "us1 = (u1, s1)" by (cases us1)
      have m: "update_user_from_cv_profile i r s = Inr (u1, s1)" using Inr us1 by simp
      have s1: "s1 = s\<lparr>users := users s1\<rparr>"
        using m by (rule update_user_from_cv_profile_frame)
      show ?thesis
      proof (cases "user_is_onboarded u1")
        case True
        then have "s' = s1" using assms u0 r m by (simp add: merge_into_user_def)
        then show ?thesis using s1 by simp
      next
        case False
        note nb = this
        show ?thesis
        proof (cases "update_user i (u1\<lparr>user_is_onboarded := True\<rparr>) s1")
          case (Inl e)
          then have "s' = s1" using assms u0 r m nb by (simp add: merge_into_user_def)
          then show ?thesis using s1 by simp
        next
          case (Inr s2)
          have "s' = s2" using assms u0 r m nb Inr by (simp add: merge_into_user_def)
          moreover have "s2 = s\<lparr>users := users s2\<rparr>"
            using s1 update_user_frame [OF Inr] by (rule users_only(2))
          ultimately show ?thesis by simp
        qed
      qed
    qed
  qed
qed

lemma update_user_from_cv_profile_ok:
  assumes "i \<noteq> []" "get_user_by_id s i = Some u0" "cv_status r = COMPLETED"
  shows "\<exists>u1 s1. update_user_from_cv_profile i r s = Inr (u1, s1)
                \<and> (\<exists>x. get_user_by_id s1 i = Some x)"
proof -
  let ?u = "u0\<lparr>user_average_tenure := cv_average_tenure r, user_awards := cv_awards r,
               user_contact_details := cv_contact_details r,
               user_creativity_score := cv_creativity_score r,
               user_education_history := cv_education_history r,
               user_employment_history := cv_employment_history r,
               user_formatting_score := cv_formatting_score r,
               user_grammar_score := cv_grammar_score r, user_highlights := cv_highlights r,
               user_hobbies := cv_hobbies r, user_industries := cv_industries r,
               user_job_title := cv_job_title r, user_level := cv_level r,
               user_location := cv_location r, user_name := cv_name r,
               user_nationality := cv_nationality r, user_skills := cv_skills r,
               user_spoken_languages := cv_spoken_languages r,
               user_summary := cv_summary r, user_urls := cv_urls r,
               user_years_experience := cv_years_experience r\<rparr>"
  obtain s1 where s1: "update_user i ?u s = Inr s1"
    using update_user_ok [OF assms(1) assms(2)] by blast
  have "get_user_by_id s1 i = Some (?u\<lparr>user_id := i\<rparr>)"
    using update_user_frame [OF s1] by (simp add: get_user_by_id_def update_conv')
  moreover have "update_user_from_cv_profile i r s = Inr (?u, s1)"
    using assms s1 by (simp add: update_user_from_cv_profile_def Let_def)
  ultimately show ?thesis by blast
qed

lemma merge_into_user_ok:
  assumes "i \<noteq> []" "get_cv_profile s i = Some r" "cv_status r = COMPLETED"
  shows "\<exists>s'. merge_into_user i s = (Inr (), s')"
proof (cases "get_user_by_id s i")
  case None
  then show ?thesis by (simp add: merge_into_user_def)
next
  case (Some u0)
  obtain u1 s1 x where m: "update_user_from_cv_profile i r s = Inr (u1, s1)"
    and x: "get_user_by_id s1 i = Some x"
    using update_user_from_cv_profile_ok [OF assms(1) Some assms(3)] by blast
  show ?thesis
  proof (cases "user_is_onboarded u1")
    case True
    then show ?thesis using Some assms m by (simp add: merge_into_user_def)
  next
    case False
    obtain s2 where "update_user i (u1\<lparr>user_is_onboarded := True\<rparr>) s1 = Inr s2"
      using update_user_ok [OF assms(1) x] by blast
    then show ?thesis using Some assms m False by (simp add: merge_into_user_def)
  qed
qed


lemma profiler_try_cases:
  assumes "profiler_try sv i ps ca s = (res, s')"
  shows "(s' = s \<and> (\<exists>e. res = Inl e))
       \<or> (\<exists>d p avg ye s1. ca = Some d \<and> analyze_cv sv ps ca = Inr p
             \<and> update_cv_profile (clock sv) i p avg (Some (creativity_score d))
                  (Some (formatting_score d)) (Some (grammar_score d)) COMPLETED None ye s
                 = Inr s1
             \<and> merge_into_user i s1 = (res, s'))"
  using assms
  by (auto simp: profiler_try_def profiler_call_binds Let_def
        split: sum.splits option.splits prod.splits if_splits)

lemma profiler_try_none_assessment: "\<exists>e. profiler_try sv i ps None s = (Inl e, s)"
  by (auto simp: profiler_try_def Let_def split: sum.splits option.splits prod.splits)

lemma profiler_try_raises:
  assumes "profiler_try sv i ps ca s = (Inl e, s')" "i \<noteq> []"
  shows "s' = s"
proof -
  from profiler_try_cases [OF assms(1)] show ?thesis
  proof
    assume "s' = s \<and> (\<exists>e'. Inl e = Inl e')"
    then show ?thesis by simp
  next
    assume "\<exists>d p avg ye s1. ca = Some d \<and> analyze_cv sv ps ca = Inr p
             \<and> update_cv_profile (clock sv) i p avg (Some (creativity_score d))
                  (Some (formatting_score d)) (Some (grammar_score d)) COMPLETED None ye s
                 = Inr s1
             \<and> merge_into_user i s1 = (Inl e, s')"
    then obtain d :: CVDescription and p avg ye s1 where
      u: "update_cv_profile (clock sv) i p avg (Some (creativity_score d))
            (Some (formatting_score d)) (Some (grammar_score d)) COMPLETED None ye s = Inr s1"
      and m: "merge_into_user i s1 = (Inl e, s')"
      by blast
    from update_cv_profile_result [OF u] obtain r r' where
      "s1 = s\<lparr>cv_profiles := AList.update i r' (cv_profiles s)\<rparr>" "cv_status r' = COMPLETED"
      by blast
    then have "get_cv_profile s1 i = Some r'" "cv_status r' = COMPLETED"
      by (simp_all add: get_cv_profile_def update_conv')
    from merge_into_user_ok [OF assms(2) this] m show ?thesis by simp
  qed
qed

text \<open>What one pass of the Profiler loop does to the runs: nothing, or one completed run.\<close>

lemma profiler_try_runs:
  assumes "profiler_try sv i ps ca s = (res, s')"
  shows "role_profiles s' = role_profiles s \<and> role_listings s' = role_listings s
       \<and> cv_queue s' = cv_queue s \<and> jd_queue s' = jd_queue s
       \<and> profile_queue s' = profile_queue s \<and> error_log s' = error_log s
       \<and> profiler_is_running s' = profiler_is_running s
       \<and> profiler_initialized s' = profiler_initialized s
       \<and> (cv_profiles s' = cv_profiles s
          \<or> (\<exists>r r'. get_cv_profile s i = Some r
                \<and> cv_profiles s' = AList.update i r' (cv_profiles s)
                \<and> cv_status r' = COMPLETED \<and> cv_id r' = i))"
proof -
  from profiler_try_cases [OF assms] show ?thesis
  proof
    assume "s' = s \<and> (\<exists>e. res = Inl e)"
    then show ?thesis by simp
  next
    assume "\<exists>d p avg ye s1. ca = Some d \<and> analyze_cv sv ps ca = Inr p
             \<and> update_cv_profile (clock sv) i p avg (Some (creativity_score d))
                  (Some (formatting_score d)) (Some (grammar_score d)) COMPLETED None ye s
                 = Inr s1
             \<and> merge_into_user i s1 = (res, s')"
    then obtain d :: CVDescription and p avg ye s1 where
      u: "update_cv_profile (clock sv) i p avg (Some (creativity_score d))
            (Some (formatting_score d)) (Some (grammar_score d)) COMPLETED None ye s = Inr s1"
      and m: "merge_into_user i s1 = (res, s')"
      by blast
    from update_cv_profile_result [OF u] obtain r r' where
      r: "get_cv_profile s i = Some r"
        "s1 = s\<lparr>cv_profiles := AList.update i r' (cv_profiles s)\<rparr>"
        "cv_status r' = COMPLETED" "cv_id r' = i"
      by blast
    have "s' = s\<lparr>cv_profiles := AList.update i r' (cv_profiles s), users := users s'\<rparr>"
      using merge_into_user_frame [OF m] r(2) by simp
    then have "role_profiles s' = role_profiles s \<and> role_listings s' = role_listings s
       \<and> cv_queue s' = cv_queue s \<and> jd_queue s' = jd_queue s
       \<and> profile_queue s' = profile_queue s \<and> error_log s' = error_log s
       \<and> profiler_is_running s' = profiler_is_running s
       \<and> profiler_initialized s' = profiler_initialized s
       \<and> cv_profiles s' = AList.update i r' (cv_profiles s)"
      by (metis system.select_convs system.update_convs system.surjective)
    then show ?thesis using r by blast
  qed
qed

section \<open>The Listing worker\<close>

lemma create_role_profile_run_fields:
  assumes "create_role_profile_run_from_profile now (Some p) fp c ex st cm = Inr u"
  shows "run_id u = run_id ex" "run_status u = st" "run_status_comment u = cm"
    "run_creator_id u = c" "run_job_id u = run_job_id ex" "run_file_path u = fp"
    "run_benefits u = jd_benefits p" "run_description u = jd_description p"
    "run_employment_type u = jd_employment_type p" "run_industry u = jd_industry p"
    "run_level u = jd_level p" "jd_location p = Some (run_location u)"
    "run_organization_name u = jd_organization_name p"
    "run_preferred_qualifications u = jd_preferred_qualifications p"
    "run_requirements u = jd_requirements p" "run_role_mode u = jd_role_mode p"
    "run_salary u = jd_salary p" "run_title u = jd_title p" "run_url u = jd_url p"
  using assms
  by (auto simp: create_role_profile_run_from_profile_def split: option.splits)

lemma create_role_profile_run_none:
  "create_role_profile_run_from_profile now None fp c ex st cm
     = Inl (AttributeError ''NoneType object has no attribute benefits'')"
  by (simp add: create_role_profile_run_from_profile_def)

lemma rewrite_run:
  "create_role_profile_run_from_profile now (Some (as_RoleProfile (r\<lparr>run_status := st0\<rparr>)))
     (run_file_path r) (run_creator_id r) r st cm
     = Inr (r\<lparr>run_status := st, run_status_comment := cm, run_updated_at := now\<rparr>)"
  "create_role_profile_run_from_profile now (Some (as_RoleProfile (r\<lparr>run_updated_at := t\<rparr>)))
     (run_file_path r) (run_creator_id r) r st cm
     = Inr (r\<lparr>run_status := st, run_status_comment := cm, run_updated_at := now\<rparr>)"
  by (simp_all add: create_role_profile_run_from_profile_def as_RoleProfile_def)

lemma update_role_profile_unfold:
  "get_role_profile s i = Some ex \<Longrightarrow>
     update_role_profile now i p c st cm s =
       (case create_role_profile_run_from_profile now p (run_file_path ex) c ex st cm of
          Inl e \<Rightarrow> Inl e
        | Inr u \<Rightarrow> Inr (u, s\<lparr>role_profiles := AList.update (run_id ex) u (role_profiles s)\<rparr>))"
  by (auto simp: update_role_profile_def create_role_profile_run_from_profile_def
        split: option.splits sum.splits)

lemma jd_try_absent:
  "get_role_profile s i = None \<Longrightarrow>
     jd_try sv i fp s
       = (Inl (RoleListingError (''Role profile run '' @ i @ '' not found'') i), s)"
  by (simp add: jd_try_def)

lemma jd_try_present:
  assumes "get_role_profile s i = Some r"
  shows "jd_try sv i fp s =
     (let r1 = r\<lparr>run_status_comment := None, run_updated_at := clock sv\<rparr>;
          s1 = s\<lparr>role_profiles := AList.update (run_id r) r1 (role_profiles s)\<rparr>
      in case jd_extract sv i fp of
           Inl e \<Rightarrow> (Inl e, s1)
         | Inr paragraphs \<Rightarrow>
             (case analyze_jd sv paragraphs of
                Inl e \<Rightarrow> (Inl e, s1)
              | Inr jd_analysis \<Rightarrow>
                  (case update_role_profile (clock sv) i jd_analysis (run_creator_id r)
                          COMPLETED None s1 of
                     Inl e \<Rightarrow> (Inl e, s1)
                   | Inr (r2, s2) \<Rightarrow>
                       (case add_role_from_profile sv r2 s2 of
                          Inl e \<Rightarrow> (Inl e, s2)
                        | Inr (new_role, s3) \<Rightarrow>
                            (Inr (), delete_role_profile (run_id r2) s3)))))"
proof -
  have t: "update_role_profile (clock sv) i
             (Some (as_RoleProfile (r\<lparr>run_updated_at := clock sv\<rparr>))) (run_creator_id r)
             (run_status r) None s
           = Inr (r\<lparr>run_status_comment := None, run_updated_at := clock sv\<rparr>,
                  s\<lparr>role_profiles :=
                       AList.update (run_id r)
                         (r\<lparr>run_status_comment := None, run_updated_at := clock sv\<rparr>)
                         (role_profiles s)\<rparr>)"
    by (simp add: update_role_profile_unfold [OF assms] rewrite_run(2))
  show ?thesis
    unfolding jd_try_def
    by (simp add: assms jd_touch_call_binds t Let_def
          split: sum.splits prod.splits option.splits)
qed


lemma jd_extract_errors:
  assumes "jd_extract sv i fp = Inl e"
  shows "as_RoleListingError e = None \<or> as_RoleListingError e = Some i"
  using assms
  by (auto simp: jd_extract_def Let_def split: if_splits sum.splits)

lemma analyze_jd_errors: "analyze_jd sv ps = Inl e \<Longrightarrow> as_RoleListingError e = None"
  by (auto simp: analyze_jd_def split: sum.splits completion.splits)

lemma create_role_profile_run_errors:
  "create_role_profile_run_from_profile now p fp c ex st cm = Inl e \<Longrightarrow>
     as_RoleListingError e = None"
  by (auto simp: create_role_profile_run_from_profile_def split: option.splits)

lemma add_role_from_profile_completed:
  assumes "run_status r2 = COMPLETED"
  shows "\<exists>new_role.
           add_role_from_profile sv r2 s
             = Inr (new_role,
                    s\<lparr>role_listings := AList.update (uuid4 sv) new_role (role_listings s)\<rparr>)
           \<and> listing_id new_role = uuid4 sv
           \<and> listing_benefits new_role = run_benefits r2
           \<and> listing_creator_id new_role = run_creator_id r2
           \<and> listing_description new_role = run_description r2
           \<and> listing_employment_type new_role = run_employment_type r2
           \<and> listing_industry new_role = run_industry r2
           \<and> listing_job_id new_role = run_job_id r2
           \<and> listing_level new_role = run_level r2
           \<and> listing_location new_role = run_location r2
           \<and> listing_organization_name new_role = run_organization_name r2
           \<and> listing_preferred_qualifications new_role = run_preferred_qualifications r2
           \<and> listing_requirements new_role = run_requirements r2
           \<and> listing_role_mode new_role = run_role_mode r2
           \<and> listing_salary new_role = run_salary r2
           \<and> listing_title new_role = run_title r2
           \<and> listing_url new_role = run_url r2
           \<and> listing_is_active new_role"
  using assms
  by (auto simp: add_role_from_profile_def add_role_def Let_def
        split: option.splits sum.splits)

lemma keyed_lookup: "keyed ident docs \<Longrightarrow> map_of docs k = Some d \<Longrightarrow> ident d = k"
  by (auto simp: keyed_def list_all_iff dest!: map_of_SomeD)

text \<open>
  The four ways one pass of the Listing loop can end for the item at the head of the
  queue: the run is missing; the validation raised a domain error; something else was
  raised, after the first write-back; or the run was promoted and deleted.
\<close>

lemma jd_pass_outcomes:
  assumes on: "jd_initialized s" "jd_is_running s"
    and q: "jd_queue s = (i, fp) # rest"
    and k: "keyed run_id (role_profiles s)"
  shows
    "(get_role_profile s i = None
        \<and> jd_try sv i fp (s\<lparr>jd_queue := rest\<rparr>)
            = (Inl (RoleListingError (''Role profile run '' @ i @ '' not found'') i),
               s\<lparr>jd_queue := rest\<rparr>)
        \<and> jd_process_queue sv s
            = s\<lparr>jd_queue := rest,
                error_log := error_log s
                  @ [WorkerError i (''Role profile run '' @ i @ '' not found'')]\<rparr>)
     \<or> (\<exists>r e. get_role_profile s i = Some r \<and> jd_extract sv i fp = Inl e
            \<and> as_RoleListingError e = Some i
            \<and> jd_try sv i fp (s\<lparr>jd_queue := rest\<rparr>)
                = (Inl e,
                   s\<lparr>jd_queue := rest,
                     role_profiles :=
                       AList.update i
                         (r\<lparr>run_status_comment := None, run_updated_at := clock sv\<rparr>)
                         (role_profiles s)\<rparr>)
            \<and> jd_process_queue sv s
                = s\<lparr>jd_queue := rest,
                    role_profiles :=
                      AList.update i
                        (r\<lparr>run_status := FAILED, run_status_comment := Some (str e),
                           run_updated_at := clock sv\<rparr>)
                        (role_profiles s),
                    error_log := error_log s @ [WorkerError i (str e)]\<rparr>)
     \<or> (\<exists>r e. get_role_profile s i = Some r \<and> as_RoleListingError e = None
            \<and> jd_try sv i fp (s\<lparr>jd_queue := rest\<rparr>)
                = (Inl e,
                   s\<lparr>jd_queue := rest,
                     role_profiles :=
                       AList.update i
                         (r\<lparr>run_status_comment := None, run_updated_at := clock sv\<rparr>)
                         (role_profiles s)\<rparr>)
            \<and> jd_process_queue sv s
                = s\<lparr>jd_queue := rest,
                    role_profiles :=
                      AList.update i
                        (r\<lparr>run_status_comment := None, run_updated_at := clock sv\<rparr>)
                        (role_profiles s),
                    error_log := error_log s @ [WorkerError i (str e)]\<rparr>)
     \<or> (\<exists>r paragraphs p new_role.
            get_role_profile s i = Some r \<and> jd_extract sv i fp = Inr paragraphs
            \<and> analyze_jd sv paragraphs = Inr (Some p)
            \<and> jd_try sv i fp (s\<lparr>jd_queue := rest\<rparr>) = (Inr (), jd_process_queue sv s)
            \<and> jd_process_queue sv s
                = s\<lparr>jd_queue := rest,
                    role_profiles := AList.delete i (role_profiles s),
                    role_listings := AList.update (uuid4 sv) new_role (role_listings s)\<rparr>
            \<and> listing_id new_role = uuid4 sv
            \<and> listing_benefits new_role = jd_benefits p
            \<and> listing_creator_id new_role = run_creator_id r
            \<and> listing_description new_role = jd_description p
            \<and> listing_employment_type new_role = jd_employment_type p
            \<and> listing_industry new_role = jd_industry p
            \<and> listing_job_id new_role = run_job_id r
            \<and> listing_level new_role = jd_level p
            \<and> jd_location p = Some (listing_location new_role)
            \<and> listing_organization_name new_role = jd_organization_name p
            \<and> listing_preferred_qualifications new_role = jd_preferred_qualifications p
            \<and> listing_requirements new_role = jd_requirements p
            \<and> listing_role_mode new_role = jd_role_mode p
            \<and> listing_salary new_role = jd_salary p
            \<and> listing_title new_role = jd_title p
            \<and> listing_url new_role = jd_url p
            \<and> listing_is_active new_role)"
proof (cases "get_role_profile s i")
  case None
  let ?e = "RoleListingError (''Role profile run '' @ i @ '' not found'') i"
  have g: "get_role_profile (s\<lparr>jd_queue := rest\<rparr>) i = None"
    using None by (simp add: get_role_profile_def)
  have t: "jd_try sv i fp (s\<lparr>jd_queue := rest\<rparr>) = (Inl ?e, s\<lparr>jd_queue := rest\<rparr>)"
    using jd_try_absent [OF g] .
  have h: "jd_except_RoleListingError sv ?e i (s\<lparr>jd_queue := rest\<rparr>)
             = (Inr (), log_worker_error i ?e (s\<lparr>jd_queue := rest\<rparr>))"
    using g by (simp add: jd_except_RoleListingError_def)
  have "jd_process_queue sv s
          = s\<lparr>jd_queue := rest,
              error_log := error_log s
                @ [WorkerError i (''Role profile run '' @ i @ '' not found'')]\<rparr>"
    using on q t h by (simp add: jd_process_queue_def log_worker_error_def)
  then show ?thesis using None t by blast
next
  case (Some r)
  define s0 where "s0 = s\<lparr>jd_queue := rest\<rparr>"
  define r1 where "r1 = r\<lparr>run_status_comment := None, run_updated_at := clock sv\<rparr>"
  define s1 where
    "s1 = s\<lparr>jd_queue := rest, role_profiles := AList.update i r1 (role_profiles s)\<rparr>"
  have rid: "run_id r = i"
    using keyed_lookup [OF k] Some by (simp add: get_role_profile_def)
  have g0: "get_role_profile s0 i = Some r"
    using Some by (simp add: get_role_profile_def s0_def)
  have g1: "get_role_profile s1 i = Some r1"
    by (simp add: get_role_profile_def s1_def update_conv')
  have s1': "s0\<lparr>role_profiles := AList.update (run_id r) r1 (role_profiles s0)\<rparr> = s1"
    by (simp add: s0_def s1_def rid)
  note tp = jd_try_present [OF g0, of sv fp, unfolded Let_def, folded r1_def, unfolded s1']
  have pass: "jd_process_queue sv s =
      (case jd_try sv i fp s0 of
         (Inr u, s') \<Rightarrow> s'
       | (Inl e, s') \<Rightarrow>
           (case as_RoleListingError e of
              Some e_jd_id \<Rightarrow>
                (case jd_except_RoleListingError sv e e_jd_id s' of
                   (Inr u, s'') \<Rightarrow> s''
                 | (Inl e', s'') \<Rightarrow> log_exception e' s'')
            | None \<Rightarrow> log_worker_error i e s'))"
    using on q by (simp add: jd_process_queue_def s0_def)
  have other: ?thesis if t: "jd_try sv i fp s0 = (Inl e, s1)" and e: "as_RoleListingError e = None"
    for e
  proof -
    have "jd_process_queue sv s
            = s\<lparr>jd_queue := rest, role_profiles := AList.update i r1 (role_profiles s),
                error_log := error_log s @ [WorkerError i (str e)]\<rparr>"
      using pass t e by (simp add: log_worker_error_def s1_def)
    then show ?thesis
      using Some e t unfolding s0_def s1_def r1_def by blast
  qed
  show ?thesis
  proof (cases "jd_extract sv i fp")
    case (Inl e)
    then have t: "jd_try sv i fp s0 = (Inl e, s1)" using tp by simp
    from jd_extract_errors [OF Inl] show ?thesis
    proof
      assume "as_RoleListingError e = None"
      with t show ?thesis by (rule other)
    next
      assume d: "as_RoleListingError e = Some i"
      have u: "update_role_profile (clock sv) i (Some (as_RoleProfile (r1\<lparr>run_status := FAILED\<rparr>)))
                 (run_creator_id r1) FAILED (Some (str e)) s1
               = Inr (r1\<lparr>run_status := FAILED, run_status_comment := Some (str e),
                         run_updated_at := clock sv\<rparr>,
                      s1\<lparr>role_profiles :=
                           AList.update (run_id r1)
                             (r1\<lparr>run_status := FAILED, run_status_comment := Some (str e),
                                 run_updated_at := clock sv\<rparr>)
                             (role_profiles s1)\<rparr>)"
        by (simp add: update_role_profile_unfold [OF g1] rewrite_run(1))
      have h: "jd_except_RoleListingError sv e i s1
                 = (Inr (),
                    log_worker_error i e
                      (s1\<lparr>role_profiles :=
                            AList.update (run_id r1)
                              (r1\<lparr>run_status := FAILED, run_status_comment := Some (str e),
                                  run_updated_at := clock sv\<rparr>)
                              (role_profiles s1)\<rparr>))"
        using g1 u by (simp add: jd_except_RoleListingError_def jd_failure_call_binds)
      have "jd_process_queue sv s
              = s\<lparr>jd_queue := rest,
                  role_profiles :=
                    AList.update i
                      (r\<lparr>run_status := FAILED, run_status_comment := Some (str e),
                         run_updated_at := clock sv\<rparr>)
                      (role_profiles s),
                  error_log := error_log s @ [WorkerError i (str e)]\<rparr>"
        using pass t d h by (simp add: log_worker_error_def s1_def r1_def rid)
      moreover have "jd_try sv i fp (s\<lparr>jd_queue := rest\<rparr>)
                = (Inl e,
                   s\<lparr>jd_queue := rest,
                     role_profiles :=
                       AList.update i
                         (r\<lparr>run_status_comment := None, run_updated_at := clock sv\<rparr>)
                         (role_profiles s)\<rparr>)"
        using t by (simp add: s0_def s1_def r1_def)
      ultimately show ?thesis using Some Inl d by blast
    qed
  next
    case (Inr paragraphs)
    note ex = this
    show ?thesis
    proof (cases "analyze_jd sv paragraphs")
      case (Inl e)
      then have "jd_try sv i fp s0 = (Inl e, s1)" using tp ex by simp
      then show ?thesis using analyze_jd_errors [OF Inl] by (rule other)
    next
      case (Inr jd_analysis)
      note an = this
      show ?thesis
      proof (cases "create_role_profile_run_from_profile (clock sv) jd_analysis
                      (run_file_path r1) (run_creator_id r) r1 COMPLETED None")
        case (Inl e)
        then have "update_role_profile (clock sv) i jd_analysis (run_creator_id r) COMPLETED
                     None s1 = Inl e"
          by (simp add: update_role_profile_unfold [OF g1])
        then have "jd_try sv i fp s0 = (Inl e, s1)" using tp ex an by simp
        then show ?thesis using create_role_profile_run_errors [OF Inl] by (rule other)
      next
        case (Inr r2)
        obtain p where p: "jd_analysis = Some p"
          using Inr by (cases jd_analysis) (simp_all add: create_role_profile_run_none)
        note f = create_role_profile_run_fields [OF Inr [unfolded p]]
        define s2 where "s2 = s1\<lparr>role_profiles := AList.update (run_id r1) r2 (role_profiles s1)\<rparr>"
        have u: "update_role_profile (clock sv) i jd_analysis (run_creator_id r) COMPLETED
                   None s1 = Inr (r2, s2)"
          using Inr by (simp add: update_role_profile_unfold [OF g1] s2_def)
        obtain new_role where a: "add_role_from_profile sv r2 s2
             = Inr (new_role,
                    s2\<lparr>role_listings := AList.update (uuid4 sv) new_role (role_listings s2)\<rparr>)"
          and l: "listing_id new_role = uuid4 sv"
            "listing_benefits new_role = run_benefits r2"
            "listing_creator_id new_role = run_creator_id r2"
            "listing_description new_role = run_description r2"
            "listing_employment_type new_role = run_employment_type r2"
            "listing_industry new_role = run_industry r2"
            "listing_job_id new_role = run_job_id r2"
            "listing_level new_role = run_level r2"
            "listing_location new_role = run_location r2"
            "listing_organization_name new_role = run_organization_name r2"
            "listing_preferred_qualifications new_role = run_preferred_qualifications r2"
            "listing_requirements new_role = run_requirements r2"
            "listing_role_mode new_role = run_role_mode r2"
            "listing_salary new_role = run_salary r2"
            "listing_title new_role = run_title r2"
            "listing_url new_role = run_url r2"
            "listing_is_active new_role"
          using add_role_from_profile_completed [OF f(2), of sv s2] by blast
        have id2: "run_id r2 = i" using f(1) by (simp add: r1_def rid)
        have t: "jd_try sv i fp s0
                   = (Inr (),
                      delete_role_profile i
                        (s2\<lparr>role_listings :=
                              AList.update (uuid4 sv) new_role (role_listings s2)\<rparr>))"
          using tp ex an u a id2 by simp
        have fin: "delete_role_profile i
                     (s2\<lparr>role_listings := AList.update (uuid4 sv) new_role (role_listings s2)\<rparr>)
                   = s\<lparr>jd_queue := rest, role_profiles := AList.delete i (role_profiles s),
                       role_listings := AList.update (uuid4 sv) new_role (role_listings s)\<rparr>"
          by (simp add: delete_role_profile_def s2_def s1_def r1_def rid delete_update_same)
        have res: "jd_process_queue sv s
                = s\<lparr>jd_queue := rest, role_profiles := AList.delete i (role_profiles s),
                    role_listings := AList.update (uuid4 sv) new_role (role_listings s)\<rparr>"
          using pass t fin by simp
        have t': "jd_try sv i fp (s\<lparr>jd_queue := rest\<rparr>) = (Inr (), jd_process_queue sv s)"
          using t fin res by (simp add: s0_def)
        have cre: "listing_creator_id new_role = run_creator_id r"
          using l(3) f(4) by simp
        have job: "listing_job_id new_role = run_job_id r"
          using l(7) f(5) by (simp add: r1_def)
        have loc: "jd_location p = Some (listing_location new_role)"
          using l(9) f(12) by simp
        show ?thesis
          using Some ex an [unfolded p] t' res l(1) cre job loc
            l(2) [unfolded f(7)] l(4) [unfolded f(8)] l(5) [unfolded f(9)]
            l(6) [unfolded f(10)] l(8) [unfolded f(11)] l(10) [unfolded f(13)]
            l(11) [unfolded f(14)] l(12) [unfolded f(15)] l(13) [unfolded f(16)]
            l(14) [unfolded f(17)] l(15) [unfolded f(18)] l(16) [unfolded f(19)] l(17)
          by blast
      qed
    qed
  qed
qed


section \<open>Construction of the pools, and the store invariant\<close>

lemma foldl_add_cv_to_queue:
  "foldl (\<lambda>s cv. add_cv_to_queue (cv_id cv) (cv_file_path cv) s) s xs
     = s\<lparr>cv_queue := cv_queue s @ map (\<lambda>cv. (cv_id cv, cv_file_path cv)) xs\<rparr>"
  by (induction xs arbitrary: s) (simp_all add: add_cv_to_queue_def)

lemma foldl_add_jd_to_queue:
  "foldl (\<lambda>s jd. add_jd_to_queue (run_id jd) (run_file_path jd) s) s xs
     = s\<lparr>jd_queue := jd_queue s @ map (\<lambda>jd. (run_id jd, run_file_path jd)) xs\<rparr>"
  by (induction xs arbitrary: s) (simp_all add: add_jd_to_queue_def)

lemma CVProcessorWorker_init_unfold:
  "CVProcessorWorker_init s =
     (if cv_initialized s then s
      else s\<lparr>cv_queue := map (\<lambda>cv. (cv_id cv, cv_file_path cv)) (get_pending_cv_profiles s),
             cv_is_running := True, cv_initialized := True\<rparr>)"
  by (simp add: CVProcessorWorker_init_def foldl_add_cv_to_queue Let_def
        get_pending_cv_profiles_def)

lemma JDProcessorWorker_init_unfold:
  "JDProcessorWorker_init s =
     (if jd_initialized s then s
      else s\<lparr>jd_queue := map (\<lambda>jd. (run_id jd, run_file_path jd)) (get_pending_role_profiles s),
             jd_is_running := True, jd_initialized := True\<rparr>)"
  by (simp add: JDProcessorWorker_init_def foldl_add_jd_to_queue Let_def
        get_pending_role_profiles_def)

lemma import_routers_frame:
  "users (import_routers s) = users s" "cv_profiles (import_routers s) = cv_profiles s"
  "role_profiles (import_routers s) = role_profiles s"
  "role_listings (import_routers s) = role_listings s"
  by (simp_all add: import_routers_def CVProcessorWorker_init_unfold
        JDProcessorWorker_init_unfold)

lemma restart_frame:
  "users (restart s) = users s" "cv_profiles (restart s) = cv_profiles s"
  "role_profiles (restart s) = role_profiles s" "role_listings (restart s) = role_listings s"
  by (simp_all add: restart_def import_routers_frame)

lemma keyed_Nil: "keyed ident []"
  by (simp add: keyed_def)

lemma keyed_update: "keyed ident docs \<Longrightarrow> ident d = k \<Longrightarrow> keyed ident (AList.update k d docs)"
proof (induction docs)
  case Nil
  then show ?case by (simp add: keyed_def)
next
  case (Cons a docs)
  obtain k' d' where a: "a = (k', d')" by (cases a)
  have rest: "keyed ident docs" using Cons.prems(1) by (simp add: keyed_def)
  from Cons.IH [OF rest Cons.prems(2)] have ih: "keyed ident (AList.update k d docs)" .
  show ?case
  proof (cases "k' = k")
    case True
    then show ?thesis using Cons.prems a by (simp add: keyed_def)
  next
    case False
    have "k' \<notin> fst ` set (AList.update k d docs)"
      using Cons.prems(1) a False by (auto simp: keyed_def dom_update)
    then show ?thesis using ih Cons.prems a False by (simp add: keyed_def)
  qed
qed

lemma keyed_delete: "keyed ident docs \<Longrightarrow> keyed ident (AList.delete k docs)"
proof -
  assume a: "keyed ident docs"
  then have "distinct (map fst (AList.delete k docs))"
    by (simp add: keyed_def distinct_delete)
  moreover have "list_all (\<lambda>(k, d). ident d = k) (AList.delete k docs)"
    using a by (auto simp: keyed_def list_all_iff AList.delete_eq)
  ultimately show ?thesis by (simp add: keyed_def)
qed

lemma store_keyed_first_start: "store_keyed first_start"
  by (simp add: store_keyed_def first_start_def import_routers_frame keyed_Nil)

lemma upload_cv_runs:
  "role_profiles (upload_cv sv u ext s) = role_profiles s"
  "cv_profiles (upload_cv sv u ext s) = cv_profiles s
   \<or> cv_profiles (upload_cv sv u ext s)
       = AList.update u (new_CVProfileRun (clock sv) u (''backend/uploads/'' @ u @ ''/cv'' @ ext)
                           PENDING) (cv_profiles s)"
  by (auto simp: upload_cv_def add_cv_profile_def add_cv_to_queue_def Let_def
        new_CVProfileRun_def split: option.splits)

lemma upload_jd_runs:
  "cv_profiles (upload_jd sv u ext s) = cv_profiles s"
  "role_profiles (upload_jd sv u ext s) = role_profiles s
   \<or> role_profiles (upload_jd sv u ext s)
       = AList.update (uuid4 sv)
           (new_RoleProfileRun (clock sv) u (''backend/uploads/'' @ uuid4 sv @ ''/jd'' @ ext)
              (uuid4 sv) PENDING) (role_profiles s)"
  by (auto simp: upload_jd_def add_role_profile_def add_jd_to_queue_def Let_def
        new_RoleProfileRun_def split: option.splits)

lemma delete_role_route_runs:
  "cv_profiles (delete_role_route i u s) = cv_profiles s"
  "role_profiles (delete_role_route i u s) = role_profiles s
   \<or> role_profiles (delete_role_route i u s) = AList.delete i (role_profiles s)"
  by (auto simp: delete_role_route_def delete_role_def delete_role_profile_def
        split: option.splits)

text \<open>What one pass of the Listing loop does to the runs.\<close>

lemma jd_process_queue_runs:
  assumes "keyed run_id (role_profiles s)"
  shows "cv_profiles (jd_process_queue sv s) = cv_profiles s
       \<and> (role_profiles (jd_process_queue sv s) = role_profiles s
          \<or> (\<exists>i r r'. get_role_profile s i = Some r
                \<and> role_profiles (jd_process_queue sv s) = AList.update i r' (role_profiles s)
                \<and> run_id r' = i
                \<and> (run_status r' = FAILED \<or> run_status r' = run_status r))
          \<or> (\<exists>i. role_profiles (jd_process_queue sv s) = AList.delete i (role_profiles s)))"
proof (cases "jd_initialized s \<and> jd_is_running s")
  case False
  then show ?thesis by (simp add: jd_process_queue_def)
next
  case True
  show ?thesis
  proof (cases "jd_queue s")
    case Nil
    then show ?thesis by (simp add: jd_process_queue_def)
  next
    case (Cons item rest)
    obtain i fp where item: "item = (i, fp)" by (cases item)
    have q: "jd_queue s = (i, fp) # rest" using Cons item by simp
    from True have on: "jd_initialized s" "jd_is_running s" by simp_all
    have id: "run_id r = i" if "get_role_profile s i = Some r" for r
      using keyed_lookup [OF assms] that by (simp add: get_role_profile_def)
    from jd_pass_outcomes [OF on q assms, of sv] show ?thesis
    proof (elim disjE exE conjE)
      assume "jd_process_queue sv s
            = s\<lparr>jd_queue := rest,
                error_log := error_log s
                  @ [WorkerError i (''Role profile run '' @ i @ '' not found'')]\<rparr>"
      then show ?thesis by simp
    next
      fix r e
      assume g: "get_role_profile s i = Some r"
        and "jd_process_queue sv s
                = s\<lparr>jd_queue := rest,
                    role_profiles :=
                      AList.update i
                        (r\<lparr>run_status := FAILED, run_status_comment := Some (str e),
                           run_updated_at := clock sv\<rparr>)
                        (role_profiles s),
                    error_log := error_log s @ [WorkerError i (str e)]\<rparr>"
      then have "cv_profiles (jd_process_queue sv s) = cv_profiles s"
        and "role_profiles (jd_process_queue sv s)
               = AList.update i
                   (r\<lparr>run_status := FAILED, run_status_comment := Some (str e),
                      run_updated_at := clock sv\<rparr>) (role_profiles s)"
        by simp_all
      moreover have "run_id (r\<lparr>run_status := FAILED, run_status_comment := Some (str e),
                                run_updated_at := clock sv\<rparr>) = i"
        "run_status (r\<lparr>run_status := FAILED, run_status_comment := Some (str e),
                        run_updated_at := clock sv\<rparr>) = FAILED"
        using id [OF g] by simp_all
      ultimately show ?thesis using g by blast
    next
      fix r e
      assume g: "get_role_profile s i = Some r"
        and "jd_process_queue sv s
                = s\<lparr>jd_queue := rest,
                    role_profiles :=
                      AList.update i
                        (r\<lparr>run_status_comment := None, run_updated_at := clock sv\<rparr>)
                        (role_profiles s),
                    error_log := error_log s @ [WorkerError i (str e)]\<rparr>"
      then have "cv_profiles (jd_process_queue sv s) = cv_profiles s"
        and "role_profiles (jd_process_queue sv s)
               = AList.update i (r\<lparr>run_status_comment := None, run_updated_at := clock sv\<rparr>)
                   (role_profiles s)"
        by simp_all
      moreover have "run_id (r\<lparr>run_status_comment := None, run_updated_at := clock sv\<rparr>) = i"
        "run_status (r\<lparr>run_status_comment := None, run_updated_at := clock sv\<rparr>)
           = run_status r"
        using id [OF g] by simp_all
      ultimately show ?thesis using g by blast
    next
      fix new_role
      assume "jd_process_queue sv s
                = s\<lparr>jd_queue := rest,
                    role_profiles := AList.delete i (role_profiles s),
                    role_listings := AList.update (uuid4 sv) new_role (role_listings s)\<rparr>"
      then have "cv_profiles (jd_process_queue sv s) = cv_profiles s"
        and "role_profiles (jd_process_queue sv s) = AList.delete i (role_profiles s)"
        by simp_all
      then show ?thesis by blast
    qed
  qed
qed

text \<open>What one pass of the Profiler loop does to the runs.\<close>

lemma profiler_process_queue_runs:
  "role_profiles (profiler_process_queue sv s) = role_profiles s
   \<and> (cv_profiles (profiler_process_queue sv s) = cv_profiles s
      \<or> (\<exists>i r r'. get_cv_profile s i = Some r
            \<and> cv_profiles (profiler_process_queue sv s) = AList.update i r' (cv_profiles s)
            \<and> cv_status r' = COMPLETED \<and> cv_id r' = i))"
proof (cases "profiler_initialized s \<and> profiler_is_running s")
  case False
  then show ?thesis by (simp add: profiler_process_queue_def)
next
  case True
  show ?thesis
  proof (cases "profile_queue s")
    case Nil
    then show ?thesis by (simp add: profiler_process_queue_def)
  next
    case (Cons item rest)
    obtain i ps ca where item: "item = (i, ps, ca)" by (cases item)
    obtain res s' where t: "profiler_try sv i ps ca (s\<lparr>profile_queue := rest\<rparr>) = (res, s')"
      by (cases "profiler_try sv i ps ca (s\<lparr>profile_queue := rest\<rparr>)")
    have p: "profiler_process_queue sv s
               = (case res of Inr u \<Rightarrow> s' | Inl e \<Rightarrow> log_worker_error i e s')"
      using True Cons item t by (simp add: profiler_process_queue_def split: sum.splits)
    have "role_profiles (profiler_process_queue sv s) = role_profiles s'"
      "cv_profiles (profiler_process_queue sv s) = cv_profiles s'"
      using p by (simp_all add: log_worker_error_def split: sum.splits)
    then show ?thesis
      using profiler_try_runs [OF t] by (simp add: get_cv_profile_def) blast
  qed
qed

lemma store_keyed_step: "store_keyed s \<Longrightarrow> store_keyed (apply_event e s)"
proof (cases e)
  case (CreateUser u)
  assume "store_keyed s"
  then show ?thesis using CreateUser by (simp add: store_keyed_def add_user_def)
next
  case (UploadCV sv u ext)
  assume k: "store_keyed s"
  have "cv_id (new_CVProfileRun (clock sv) u (''backend/uploads/'' @ u @ ''/cv'' @ ext) PENDING)
          = u"
    by (simp add: new_CVProfileRun_def)
  then have "keyed cv_id
               (AList.update u
                  (new_CVProfileRun (clock sv) u (''backend/uploads/'' @ u @ ''/cv'' @ ext)
                     PENDING) (cv_profiles s))"
    using k by (intro keyed_update) (simp_all add: store_keyed_def)
  then have "keyed cv_id (cv_profiles (upload_cv sv u ext s))"
    using k upload_cv_runs(2) [of sv u ext s] by (auto simp: store_keyed_def)
  then show ?thesis
    using k UploadCV upload_cv_runs(1) [of sv u ext s] by (simp add: store_keyed_def)
next
  case (UploadJD sv u ext)
  assume k: "store_keyed s"
  have "run_id (new_RoleProfileRun (clock sv) u
                  (''backend/uploads/'' @ uuid4 sv @ ''/jd'' @ ext) (uuid4 sv) PENDING)
          = uuid4 sv"
    by (simp add: new_RoleProfileRun_def)
  then have "keyed run_id
               (AList.update (uuid4 sv)
                  (new_RoleProfileRun (clock sv) u
                     (''backend/uploads/'' @ uuid4 sv @ ''/jd'' @ ext) (uuid4 sv) PENDING)
                  (role_profiles s))"
    using k by (intro keyed_update) (simp_all add: store_keyed_def)
  then have "keyed run_id (role_profiles (upload_jd sv u ext s))"
    using k upload_jd_runs(2) [of sv u ext s] by (auto simp: store_keyed_def)
  then show ?thesis
    using k UploadJD upload_jd_runs(1) [of sv u ext s] by (simp add: store_keyed_def)
next
  case (DeleteRole i u)
  assume k: "store_keyed s"
  then have "keyed run_id (AList.delete i (role_profiles s))"
    by (intro keyed_delete) (simp add: store_keyed_def)
  then have "keyed run_id (role_profiles (delete_role_route i u s))"
    using k delete_role_route_runs(2) [of i u s] by (auto simp: store_keyed_def)
  then show ?thesis
    using k DeleteRole delete_role_route_runs(1) [of i u s] by (simp add: store_keyed_def)
next
  case (CVWorker sv)
  assume "store_keyed s"
  then show ?thesis using CVWorker by (simp add: store_keyed_def cv_process_queue_frame)
next
  case (JDWorker sv)
  assume k: "store_keyed s"
  then have kr: "keyed run_id (role_profiles s)" by (simp add: store_keyed_def)
  have "keyed run_id (role_profiles (jd_process_queue sv s))"
    using jd_process_queue_runs [OF kr, of sv] kr
    by (elim conjE disjE exE) (auto intro!: keyed_update keyed_delete)
  then show ?thesis
    using k JDWorker jd_process_queue_runs [OF kr, of sv] by (simp add: store_keyed_def)
next
  case (Profiler sv)
  assume k: "store_keyed s"
  then have kc: "keyed cv_id (cv_profiles s)" by (simp add: store_keyed_def)
  have "keyed cv_id (cv_profiles (profiler_process_queue sv s))"
    using profiler_process_queue_runs [of sv s] kc
    by (elim conjE disjE exE) (auto intro!: keyed_update)
  then show ?thesis
    using k Profiler profiler_process_queue_runs [of sv s] by (simp add: store_keyed_def)
next
  case Restart
  assume "store_keyed s"
  then show ?thesis using Restart by (simp add: store_keyed_def restart_frame)
qed

lemma reachable_store_keyed: "reachable s \<Longrightarrow> store_keyed s"
  by (induction rule: reachable.induct) (simp_all add: store_keyed_first_start store_keyed_step)

lemma reachable_run: "reachable s \<Longrightarrow> reachable (run events s)"
  unfolding run_def
  by (induction events arbitrary: s) (simp_all add: reachable.step)


section \<open>The length check of the Resume Pipeline\<close>

lemma cv_length_error_message:
  assumes "endswith (lower fp) ''.pdf''" "pdf_reader sv fp = Inr pages"
    "length pages > CV_MAX_PAGES"
  shows "\<exists>msg. cv_extract sv i fp = Inl (CVLengthError msg i)
             \<and> sublist (str_nat (length pages)) msg \<and> sublist (str_nat CV_MAX_PAGES) msg"
proof -
  let ?msg = "''The file has '' @ str_nat (length pages)
                @ '' pages, which is more than the maximum allowed (''
                @ str_nat CV_MAX_PAGES @ '')''"
  have "cv_extract sv i fp = Inl (CVLengthError ?msg i)"
    using assms by (simp add: cv_extract_def Let_def)
  moreover have "sublist (str_nat (length pages)) ?msg"
    using sublist_in_middle
      [of "str_nat (length pages)" "''The file has ''"
         "'' pages, which is more than the maximum allowed ('' @ str_nat CV_MAX_PAGES @ '')''"]
    by simp
  moreover have "sublist (str_nat CV_MAX_PAGES) ?msg"
    using sublist_in_middle2
      [of "str_nat CV_MAX_PAGES" "''The file has ''" "str_nat (length pages)"
         "'' pages, which is more than the maximum allowed (''" "'')''"]
    by simp
  ultimately show ?thesis by blast
qed

text \<open>
  C4, evaluated where the code departs from it.  A resume of three pages against the
  maximum of two: the length error is raised, bound to the item and with both page counts
  in its message, and nothing is handed to the Profiler; but the handler's call of
  \<open>update_cv_profile\<close> passes a keyword \<open>cv_id\<close> that the method does not have, the
  call raises \<open>TypeError\<close>, and the run stays PENDING with no status comment.
\<close>

theorem overlong_resume_is_left_pending:
  "cv_queue cv_uploaded = [(''u1'', ''backend/uploads/u1/cv.pdf'')]
   \<and> map_option cv_status (get_cv_profile cv_uploaded ''u1'') = Some PENDING
   \<and> cv_extract three_page_reader ''u1'' ''backend/uploads/u1/cv.pdf''
       = Inl (CVLengthError
               ''The file has 3 pages, which is more than the maximum allowed (2)'' ''u1'')
   \<and> map_option cv_status
        (get_cv_profile (cv_process_queue three_page_reader cv_uploaded) ''u1'')
       = Some PENDING
   \<and> map_option cv_status_comment
        (get_cv_profile (cv_process_queue three_page_reader cv_uploaded) ''u1'')
       = Some None
   \<and> error_log (cv_process_queue three_page_reader cv_uploaded)
       = [LoggedException ''got an unexpected keyword argument cv_id'']
   \<and> profile_queue (cv_process_queue three_page_reader cv_uploaded) = []"
  by code_simp

section \<open>A refused creativity assessment\<close>

text \<open>
  C10, evaluated where the code departs from it.  When the vision model refuses, the
  extraction of the Resume Pipeline ends with the paragraphs and no assessment; but the
  write-back that precedes the hand-off raises \<open>TypeError\<close> (the keyword \<open>cv_id\<close>
  again), so nothing is put on the Profiler's queue.  The Profiler itself, given an item
  without assessment, raises before it writes, whatever the state and the collaborators.
\<close>

theorem refused_assessment_is_not_handed_off:
  "cv_extract refusing_vision ''u1'' ''backend/uploads/u1/cv.pdf''
     = Inr ([''Jane Doe'', ''Engineer''], None)
   \<and> profile_queue (cv_process_queue refusing_vision cv_uploaded) = []
   \<and> error_log (cv_process_queue refusing_vision cv_uploaded)
       = [WorkerError ''u1'' ''got an unexpected keyword argument cv_id'']
   \<and> map_option cv_status
        (get_cv_profile (cv_process_queue refusing_vision cv_uploaded) ''u1'')
       = Some PENDING
   \<and> (\<forall>sv i ps s. \<exists>e. profiler_try sv i ps None s = (Inl e, s))
   \<and> cv_profiles (profiler_process_queue failing_llm (handed_off None))
       = cv_profiles (handed_off None)
   \<and> cv_profiles (profiler_process_queue sample_services (handed_off None))
       = cv_profiles (handed_off None)
   \<and> error_log (profiler_process_queue sample_services (handed_off None))
       = [WorkerError ''u1'' ''NoneType object has no attribute creativity_score'']"
proof -
  have a: "cv_extract refusing_vision ''u1'' ''backend/uploads/u1/cv.pdf''
             = Inr ([''Jane Doe'', ''Engineer''], None)"
    by code_simp
  have b: "profile_queue (cv_process_queue refusing_vision cv_uploaded) = []"
    by code_simp
  have c: "error_log (cv_process_queue refusing_vision cv_uploaded)
             = [WorkerError ''u1'' ''got an unexpected keyword argument cv_id'']"
    by code_simp
  have d: "map_option cv_status
             (get_cv_profile (cv_process_queue refusing_vision cv_uploaded) ''u1'')
           = Some PENDING"
    by code_simp
  have e: "\<forall>sv i ps s. \<exists>e. profiler_try sv i ps None s = (Inl e, s)"
    using profiler_try_none_assessment by blast
  have f: "cv_profiles (profiler_process_queue failing_llm (handed_off None))
             = cv_profiles (handed_off None)"
    by code_simp
  have g: "cv_profiles (profiler_process_queue sample_services (handed_off None))
             = cv_profiles (handed_off None)"
    by code_simp
  have h: "error_log (profiler_process_queue sample_services (handed_off None))
             = [WorkerError ''u1'' ''NoneType object has no attribute creativity_score'']"
    by code_simp
  show ?thesis using a b c d e f g h by blast
qed


section \<open>Recovery when a pool is constructed\<close>

lemma keyed_ids: "keyed ident docs \<Longrightarrow> map ident (map snd docs) = map fst docs"
  by (induction docs) (auto simp: keyed_def)

lemma keyed_member:
  assumes "keyed ident docs"
  shows "d \<in> set (map snd docs) \<longleftrightarrow> map_of docs (ident d) = Some d"
proof
  assume "d \<in> set (map snd docs)"
  then obtain k where kd: "(k, d) \<in> set docs" by auto
  then have "ident d = k" using assms by (auto simp: keyed_def list_all_iff)
  then show "map_of docs (ident d) = Some d"
    using kd assms by (simp add: keyed_def)
next
  assume "map_of docs (ident d) = Some d"
  then have "(ident d, d) \<in> set docs" by (rule map_of_SomeD)
  then show "d \<in> set (map snd docs)" by force
qed

lemma keyed_pending_distinct:
  assumes "keyed ident docs"
  shows "distinct (map fst (map (\<lambda>d. (ident d, path d)) (filter P (map snd docs))))"
    and "distinct (map (\<lambda>d. (ident d, path d)) (filter P (map snd docs)))"
proof -
  have "distinct (map fst docs)" using assms by (simp add: keyed_def)
  then have "distinct (map ident (map snd docs))"
    by (simp only: keyed_ids [OF assms])
  then have "distinct (map ident (filter P (map snd docs)))"
    by (rule distinct_map_filter)
  then show 2: "distinct (map fst (map (\<lambda>d. (ident d, path d)) (filter P (map snd docs))))"
    by (simp add: comp_def)
  from 2 show "distinct (map (\<lambda>d. (ident d, path d)) (filter P (map snd docs)))"
    by (rule distinct_map [THEN iffD1, THEN conjunct1])
qed

lemma keyed_pending_set:
  assumes "keyed ident docs"
  shows "set (map (\<lambda>d. (ident d, path d)) (filter P (map snd docs)))
           = {(i, path d) | i d. map_of docs i = Some d \<and> P d}"
proof (intro set_eqI iffI)
  fix x
  assume "x \<in> set (map (\<lambda>d. (ident d, path d)) (filter P (map snd docs)))"
  then obtain d where d: "x = (ident d, path d)" "d \<in> set (map snd docs)" "P d"
    by auto
  from d(2) have "map_of docs (ident d) = Some d"
    using keyed_member [OF assms] by blast
  then show "x \<in> {(i, path d) | i d. map_of docs i = Some d \<and> P d}"
    using d(1) d(3) by blast
next
  fix x
  assume "x \<in> {(i, path d) | i d. map_of docs i = Some d \<and> P d}"
  then obtain i d where d: "x = (i, path d)" "map_of docs i = Some d" "P d"
    by blast
  have i: "ident d = i" using keyed_lookup [OF assms d(2)] .
  then have "d \<in> set (map snd docs)"
    using keyed_member [OF assms, of d] d(2) by simp
  then have "(ident d, path d) \<in> (\<lambda>d. (ident d, path d)) ` set (filter P (map snd docs))"
    using d(3) by simp
  then show "x \<in> set (map (\<lambda>d. (ident d, path d)) (filter P (map snd docs)))"
    using d(1) i by simp
qed

text \<open>
  C5, as the code has it.  With the containers of runs keyed by id, constructing the
  Resume pool for the first time in a process puts on its queue exactly the resume runs
  whose status is PENDING, each once, with the file path of the run; constructing the
  Listing pool does the same for the listing runs; constructing either again changes
  nothing.  Constructing the Profiler pool scans nothing: its queue starts empty.
\<close>

theorem pool_construction_recovers_pending_runs:
  "store_keyed s \<Longrightarrow>
     (\<not> cv_initialized s \<longrightarrow>
        distinct (cv_queue (CVProcessorWorker_init s))
        \<and> distinct (map fst (cv_queue (CVProcessorWorker_init s)))
        \<and> set (cv_queue (CVProcessorWorker_init s))
            = {(i, cv_file_path c) | i c. get_cv_profile s i = Some c \<and> cv_status c = PENDING})
     \<and> (\<not> jd_initialized s \<longrightarrow>
          distinct (jd_queue (JDProcessorWorker_init s))
          \<and> distinct (map fst (jd_queue (JDProcessorWorker_init s)))
          \<and> set (jd_queue (JDProcessorWorker_init s))
              = {(i, run_file_path r) | i r.
                   get_role_profile s i = Some r \<and> run_status r = PENDING})
     \<and> (cv_initialized s \<longrightarrow> CVProcessorWorker_init s = s)
     \<and> (jd_initialized s \<longrightarrow> JDProcessorWorker_init s = s)
     \<and> (\<not> profiler_initialized s \<longrightarrow> profile_queue (ProfilerWorker_init s) = [])"
proof -
  assume k: "store_keyed s"
  then have kc: "keyed cv_id (cv_profiles s)" and kr: "keyed run_id (role_profiles s)"
    by (simp_all add: store_keyed_def)
  have cv: "distinct (cv_queue (CVProcessorWorker_init s))
        \<and> distinct (map fst (cv_queue (CVProcessorWorker_init s)))
        \<and> set (cv_queue (CVProcessorWorker_init s))
            = {(i, cv_file_path c) | i c. get_cv_profile s i = Some c \<and> cv_status c = PENDING}"
    if "\<not> cv_initialized s"
    using that keyed_pending_distinct [OF kc, of cv_file_path "\<lambda>c. cv_status c = PENDING"]
      keyed_pending_set [OF kc, of cv_file_path "\<lambda>c. cv_status c = PENDING"]
    by (simp add: CVProcessorWorker_init_unfold get_pending_cv_profiles_def
          get_cv_profile_def)
  have jd: "distinct (jd_queue (JDProcessorWorker_init s))
          \<and> distinct (map fst (jd_queue (JDProcessorWorker_init s)))
          \<and> set (jd_queue (JDProcessorWorker_init s))
              = {(i, run_file_path r) | i r.
                   get_role_profile s i = Some r \<and> run_status r = PENDING}"
    if "\<not> jd_initialized s"
    using that keyed_pending_distinct [OF kr, of run_file_path "\<lambda>r. run_status r = PENDING"]
      keyed_pending_set [OF kr, of run_file_path "\<lambda>r. run_status r = PENDING"]
    by (simp add: JDProcessorWorker_init_unfold get_pending_role_profiles_def
          get_role_profile_def)
  have again: "cv_initialized s \<longrightarrow> CVProcessorWorker_init s = s"
    "jd_initialized s \<longrightarrow> JDProcessorWorker_init s = s"
    by (simp_all add: CVProcessorWorker_init_def JDProcessorWorker_init_def)
  have prof: "\<not> profiler_initialized s \<longrightarrow> profile_queue (ProfilerWorker_init s) = []"
    by (simp add: ProfilerWorker_init_def)
  show ?thesis using cv jd again prof by blast
qed

theorem pool_recovery_witness:
  "store_keyed after_crash
   \<and> \<not> cv_initialized after_crash \<and> \<not> jd_initialized after_crash
   \<and> \<not> profiler_initialized after_crash
   \<and> cv_queue (CVProcessorWorker_init after_crash)
       = [(''u1'', ''backend/uploads/u1/cv.pdf''), (''u3'', ''backend/uploads/u3/cv.pdf''),
          (''u5'', ''backend/uploads/u5/cv.pdf'')]
   \<and> distinct (map fst (cv_queue (CVProcessorWorker_init after_crash)))
   \<and> jd_queue (JDProcessorWorker_init after_crash)
       = [(''role-1'', ''backend/uploads/role-1/jd.pdf'')]
   \<and> distinct (map fst (jd_queue (JDProcessorWorker_init after_crash)))
   \<and> cv_initialized (CVProcessorWorker_init after_crash)
   \<and> CVProcessorWorker_init (CVProcessorWorker_init after_crash)
       = CVProcessorWorker_init after_crash
   \<and> jd_initialized (JDProcessorWorker_init after_crash)
   \<and> JDProcessorWorker_init (JDProcessorWorker_init after_crash)
       = JDProcessorWorker_init after_crash
   \<and> profile_queue (ProfilerWorker_init after_crash) = []"
proof -
  have k: "store_keyed after_crash" by code_simp
  have n: "\<not> cv_initialized after_crash" "\<not> jd_initialized after_crash"
    "\<not> profiler_initialized after_crash"
    by (simp_all add: after_crash_def)
  have q: "cv_queue (CVProcessorWorker_init after_crash)
       = [(''u1'', ''backend/uploads/u1/cv.pdf''), (''u3'', ''backend/uploads/u3/cv.pdf''),
          (''u5'', ''backend/uploads/u5/cv.pdf'')]"
    by code_simp
  have j: "jd_queue (JDProcessorWorker_init after_crash)
       = [(''role-1'', ''backend/uploads/role-1/jd.pdf'')]"
    by code_simp
  have k1: "store_keyed (CVProcessorWorker_init after_crash)"
    using k by (simp add: store_keyed_def CVProcessorWorker_init_unfold)
  have k2: "store_keyed (JDProcessorWorker_init after_crash)"
    using k by (simp add: store_keyed_def JDProcessorWorker_init_unfold)
  have i1: "cv_initialized (CVProcessorWorker_init after_crash)"
    by (simp add: CVProcessorWorker_init_unfold)
  have i2: "jd_initialized (JDProcessorWorker_init after_crash)"
    by (simp add: JDProcessorWorker_init_unfold)
  note t = pool_construction_recovers_pending_runs [OF k]
  note t1 = pool_construction_recovers_pending_runs [OF k1]
  note t2 = pool_construction_recovers_pending_runs [OF k2]
  have d1: "distinct (map fst (cv_queue (CVProcessorWorker_init after_crash)))"
    using t n by blast
  have d2: "distinct (map fst (jd_queue (JDProcessorWorker_init after_crash)))"
    using t n by blast
  have p: "profile_queue (ProfilerWorker_init after_crash) = []"
    using t n by blast
  have a1: "CVProcessorWorker_init (CVProcessorWorker_init after_crash)
              = CVProcessorWorker_init after_crash"
    using t1 i1 by blast
  have a2: "JDProcessorWorker_init (JDProcessorWorker_init after_crash)
              = JDProcessorWorker_init after_crash"
    using t2 i2 by blast
  show ?thesis using k n q j d1 d2 i1 i2 a1 a2 p by blast
qed

text \<open>
  The Profiler pool is the exception to C5 as it is stated: constructed over a store that
  holds three pending resume runs, it enqueues none of them.
\<close>

theorem profiler_pool_recovers_nothing:
  "length (get_pending_cv_profiles after_crash) = 3
   \<and> \<not> profiler_initialized after_crash
   \<and> profile_queue (ProfilerWorker_init after_crash) = []
   \<and> profiler_initialized (ProfilerWorker_init after_crash)"
  by code_simp


section \<open>The two ends of a Listing Pipeline run\<close>

text \<open>
  C2, amended.  One pass of the Listing worker over an item \<open>(i, fp)\<close>, in a store keyed
  by id.  If the stage function runs to its end, the run of \<open>i\<close> has been deleted and a
  listing is stored under a fresh id, active, with the fields of the analysed job
  description and the creator and job id of the run.  If a domain error is raised and the
  run of \<open>i\<close> exists, the run is still there afterwards, FAILED, with the message of the
  error as status comment, and no listing has been created.  If a domain error is raised
  and the run of \<open>i\<close> does not exist (the error is then the \<open>RoleListingError\<close> of the
  missing run), nothing is written: there is no run and no listing afterwards, only the
  log entry.
\<close>

theorem listing_pass_promotes_or_marks_failed:
  assumes "jd_initialized s" "jd_is_running s" "jd_queue s = (i, fp) # rest"
    and "keyed run_id (role_profiles s)"
  shows
    "(\<forall>s1. jd_try sv i fp (s\<lparr>jd_queue := rest\<rparr>) = (Inr (), s1) \<longrightarrow>
        jd_process_queue sv s = s1
        \<and> get_role_profile (jd_process_queue sv s) i = None
        \<and> (\<exists>r paragraphs p new_role.
              get_role_profile s i = Some r \<and> jd_extract sv i fp = Inr paragraphs
              \<and> analyze_jd sv paragraphs = Inr (Some p)
              \<and> get_role_by_id (jd_process_queue sv s) (uuid4 sv) = Some new_role
              \<and> role_listings (jd_process_queue sv s)
                  = AList.update (uuid4 sv) new_role (role_listings s)
              \<and> listing_id new_role = uuid4 sv
              \<and> listing_benefits new_role = jd_benefits p
              \<and> listing_creator_id new_role = run_creator_id r
              \<and> listing_description new_role = jd_description p
              \<and> listing_employment_type new_role = jd_employment_type p
              \<and> listing_industry new_role = jd_industry p
              \<and> listing_job_id new_role = run_job_id r
              \<and> listing_level new_role = jd_level p
              \<and> jd_location p = Some (listing_location new_role)
              \<and> listing_organization_name new_role = jd_organization_name p
              \<and> listing_preferred_qualifications new_role = jd_preferred_qualifications p
              \<and> listing_requirements new_role = jd_requirements p
              \<and> listing_role_mode new_role = jd_role_mode p
              \<and> listing_salary new_role = jd_salary p
              \<and> listing_title new_role = jd_title p
              \<and> listing_url new_role = jd_url p
              \<and> listing_is_active new_role))
     \<and> (\<forall>e s1 r. jd_try sv i fp (s\<lparr>jd_queue := rest\<rparr>) = (Inl e, s1)
            \<and> as_RoleListingError e \<noteq> None \<and> get_role_profile s i = Some r \<longrightarrow>
          get_role_profile (jd_process_queue sv s) i
            = Some (r\<lparr>run_status := FAILED, run_status_comment := Some (str e),
                      run_updated_at := clock sv\<rparr>)
          \<and> role_listings (jd_process_queue sv s) = role_listings s
          \<and> error_log (jd_process_queue sv s) = error_log s @ [WorkerError i (str e)])
     \<and> (\<forall>e s1. jd_try sv i fp (s\<lparr>jd_queue := rest\<rparr>) = (Inl e, s1)
            \<and> as_RoleListingError e \<noteq> None \<and> get_role_profile s i = None \<longrightarrow>
          e = RoleListingError (''Role profile run '' @ i @ '' not found'') i
          \<and> role_profiles (jd_process_queue sv s) = role_profiles s
          \<and> role_listings (jd_process_queue sv s) = role_listings s
          \<and> error_log (jd_process_queue sv s) = error_log s @ [WorkerError i (str e)])"
proof -
  from jd_pass_outcomes [OF assms, of sv] show ?thesis
  proof (elim disjE exE conjE)
    assume "get_role_profile s i = None"
      and "jd_try sv i fp (s\<lparr>jd_queue := rest\<rparr>)
            = (Inl (RoleListingError (''Role profile run '' @ i @ '' not found'') i),
               s\<lparr>jd_queue := rest\<rparr>)"
      and "jd_process_queue sv s
            = s\<lparr>jd_queue := rest,
                error_log := error_log s
                  @ [WorkerError i (''Role profile run '' @ i @ '' not found'')]\<rparr>"
    then show ?thesis by simp
  next
    fix r e
    assume "get_role_profile s i = Some r" and "as_RoleListingError e = Some i"
      and "jd_try sv i fp (s\<lparr>jd_queue := rest\<rparr>)
                = (Inl e,
                   s\<lparr>jd_queue := rest,
                     role_profiles :=
                       AList.update i
                         (r\<lparr>run_status_comment := None, run_updated_at := clock sv\<rparr>)
                         (role_profiles s)\<rparr>)"
      and "jd_process_queue sv s
                = s\<lparr>jd_queue := rest,
                    role_profiles :=
                      AList.update i
                        (r\<lparr>run_status := FAILED, run_status_comment := Some (str e),
                           run_updated_at := clock sv\<rparr>)
                        (role_profiles s),
                    error_log := error_log s @ [WorkerError i (str e)]\<rparr>"
    then show ?thesis by (simp add: get_role_profile_def update_conv')
  next
    fix r e
    assume "get_role_profile s i = Some r" and "as_RoleListingError e = None"
      and "jd_try sv i fp (s\<lparr>jd_queue := rest\<rparr>)
                = (Inl e,
                   s\<lparr>jd_queue := rest,
                     role_profiles :=
                       AList.update i
                         (r\<lparr>run_status_comment := None, run_updated_at := clock sv\<rparr>)
                         (role_profiles s)\<rparr>)"
    then show ?thesis by simp
  next
    fix r paragraphs p new_role
    assume g: "get_role_profile s i = Some r" and x: "jd_extract sv i fp = Inr paragraphs"
      and a: "analyze_jd sv paragraphs = Inr (Some p)"
      and t: "jd_try sv i fp (s\<lparr>jd_queue := rest\<rparr>) = (Inr (), jd_process_queue sv s)"
      and p: "jd_process_queue sv s
                = s\<lparr>jd_queue := rest,
                    role_profiles := AList.delete i (role_profiles s),
                    role_listings := AList.update (uuid4 sv) new_role (role_listings s)\<rparr>"
      and l: "listing_id new_role = uuid4 sv"
        "listing_benefits new_role = jd_benefits p"
        "listing_creator_id new_role = run_creator_id r"
        "listing_description new_role = jd_description p"
        "listing_employment_type new_role = jd_employment_type p"
        "listing_industry new_role = jd_industry p"
        "listing_job_id new_role = run_job_id r"
        "listing_level new_role = jd_level p"
        "jd_location p = Some (listing_location new_role)"
        "listing_organization_name new_role = jd_organization_name p"
        "listing_preferred_qualifications new_role = jd_preferred_qualifications p"
        "listing_requirements new_role = jd_requirements p"
        "listing_role_mode new_role = jd_role_mode p"
        "listing_salary new_role = jd_salary p"
        "listing_title new_role = jd_title p"
        "listing_url new_role = jd_url p"
        "listing_is_active new_role"
    have gone: "get_role_profile (jd_process_queue sv s) i = None"
      by (simp add: p get_role_profile_def delete_conv')
    have there: "get_role_by_id (jd_process_queue sv s) (uuid4 sv) = Some new_role"
      by (simp add: p get_role_by_id_def update_conv')
    have ls: "role_listings (jd_process_queue sv s)
                = AList.update (uuid4 sv) new_role (role_listings s)"
      by (simp add: p)
    have "\<exists>r paragraphs p new_role.
              get_role_profile s i = Some r \<and> jd_extract sv i fp = Inr paragraphs
              \<and> analyze_jd sv paragraphs = Inr (Some p)
              \<and> get_role_by_id (jd_process_queue sv s) (uuid4 sv) = Some new_role
              \<and> role_listings (jd_process_queue sv s)
                  = AList.update (uuid4 sv) new_role (role_listings s)
              \<and> listing_id new_role = uuid4 sv
              \<and> listing_benefits new_role = jd_benefits p
              \<and> listing_creator_id new_role = run_creator_id r
              \<and> listing_description new_role = jd_description p
              \<and> listing_employment_type new_role = jd_employment_type p
              \<and> listing_industry new_role = jd_industry p
              \<and> listing_job_id new_role = run_job_id r
              \<and> listing_level new_role = jd_level p
              \<and> jd_location p = Some (listing_location new_role)
              \<and> listing_organization_name new_role = jd_organization_name p
              \<and> listing_preferred_qualifications new_role = jd_preferred_qualifications p
              \<and> listing_requirements new_role = jd_requirements p
              \<and> listing_role_mode new_role = jd_role_mode p
              \<and> listing_salary new_role = jd_salary p
              \<and> listing_title new_role = jd_title p
              \<and> listing_url new_role = jd_url p
              \<and> listing_is_active new_role"
      using g x a there ls l by blast
    then show ?thesis using t gone by simp
  qed
qed

theorem listing_pass_witness:
  "jd_queue jd_uploaded = [(''role-1'', ''backend/uploads/role-1/jd.pdf'')]
   \<and> fst (jd_try sample_services ''role-1'' ''backend/uploads/role-1/jd.pdf''
             (jd_uploaded\<lparr>jd_queue := []\<rparr>)) = Inr ()
   \<and> get_role_profile (jd_process_queue sample_services jd_uploaded) ''role-1'' = None
   \<and> map_option listing_title
        (get_role_by_id (jd_process_queue sample_services jd_uploaded) ''listing-1'')
       = Some (Some ''Engineer'')
   \<and> map_option listing_requirements
        (get_role_by_id (jd_process_queue sample_services jd_uploaded) ''listing-1'')
       = Some [''HOL'', ''Python'']
   \<and> map_option listing_creator_id
        (get_role_by_id (jd_process_queue sample_services jd_uploaded) ''listing-1'')
       = Some ''r1''
   \<and> jd_queue jd_txt_uploaded = [(''role-2'', ''backend/uploads/role-2/jd.txt'')]
   \<and> fst (jd_try sample_services ''role-2'' ''backend/uploads/role-2/jd.txt''
             (jd_txt_uploaded\<lparr>jd_queue := []\<rparr>))
       = Inl (JDFormatError ''Unsupported file type: backend/uploads/role-2/jd.txt''
               ''role-2'')
   \<and> map_option run_status
        (get_role_profile (jd_process_queue sample_services jd_txt_uploaded) ''role-2'')
       = Some FAILED
   \<and> map_option run_status_comment
        (get_role_profile (jd_process_queue sample_services jd_txt_uploaded) ''role-2'')
       = Some (Some ''Unsupported file type: backend/uploads/role-2/jd.txt'')
   \<and> role_listings (jd_process_queue sample_services jd_txt_uploaded)
       = role_listings jd_txt_uploaded
   \<and> jd_queue jd_withdrawn = [(''role-1'', ''backend/uploads/role-1/jd.pdf'')]
   \<and> get_role_profile jd_withdrawn ''role-1'' = None
   \<and> role_profiles (jd_process_queue sample_services jd_withdrawn)
       = role_profiles jd_withdrawn
   \<and> role_listings (jd_process_queue sample_services jd_withdrawn)
       = role_listings jd_withdrawn"
proof -
  note claim = listing_pass_promotes_or_marks_failed
  let ?fp = "''backend/uploads/role-1/jd.pdf''"
  let ?fq = "''backend/uploads/role-2/jd.txt''"
  let ?e = "JDFormatError ''Unsupported file type: backend/uploads/role-2/jd.txt'' ''role-2''"
  have a0: "jd_initialized jd_uploaded" "jd_is_running jd_uploaded"
    by code_simp+
  have a1: "jd_queue jd_uploaded = [(''role-1'', ?fp)]"
    by code_simp
  have a2: "keyed run_id (role_profiles jd_uploaded)"
    by code_simp
  have a3: "fst (jd_try sample_services ''role-1'' ?fp (jd_uploaded\<lparr>jd_queue := []\<rparr>))
              = Inr ()"
    by code_simp
  have a4: "jd_extract sample_services ''role-1'' ?fp = Inr [''Jane Doe'', ''Engineer'']"
    by code_simp
  have a5: "analyze_jd sample_services [''Jane Doe'', ''Engineer'']
              = Inr (Some sample_role_profile)"
    by code_simp
  have a6: "map_option run_creator_id (get_role_profile jd_uploaded ''role-1'') = Some ''r1''"
    by code_simp
  have a7: "uuid4 sample_services = ''listing-1''"
    by (simp add: sample_services_def)
  obtain s1 where a8: "jd_try sample_services ''role-1'' ?fp (jd_uploaded\<lparr>jd_queue := []\<rparr>)
                         = (Inr (), s1)"
    using a3 by (metis prod.collapse)
  note ok = claim [OF a0 a1 a2, of sample_services, THEN conjunct1, rule_format, OF a8]
  have a9: "get_role_profile (jd_process_queue sample_services jd_uploaded) ''role-1'' = None"
    using ok by blast
  obtain r paragraphs p new_role where
    b: "get_role_profile jd_uploaded ''role-1'' = Some r"
      "jd_extract sample_services ''role-1'' ?fp = Inr paragraphs"
      "analyze_jd sample_services paragraphs = Inr (Some p)"
      "get_role_by_id (jd_process_queue sample_services jd_uploaded)
         (uuid4 sample_services) = Some new_role"
      "listing_title new_role = jd_title p"
      "listing_requirements new_role = jd_requirements p"
      "listing_creator_id new_role = run_creator_id r"
    using ok by blast
  have p: "p = sample_role_profile"
    using b(2,3) a4 a5 by simp
  have b1: "map_option listing_title
        (get_role_by_id (jd_process_queue sample_services jd_uploaded) ''listing-1'')
       = Some (Some ''Engineer'')"
    using b(4,5) a7 p by (simp add: sample_role_profile_def)
  have b2: "map_option listing_requirements
        (get_role_by_id (jd_process_queue sample_services jd_uploaded) ''listing-1'')
       = Some [''HOL'', ''Python'']"
    using b(4,6) a7 p by (simp add: sample_role_profile_def)
  have b3: "map_option listing_creator_id
        (get_role_by_id (jd_process_queue sample_services jd_uploaded) ''listing-1'')
       = Some ''r1''"
    using b(1,4,7) a6 a7 by simp
  have c0: "jd_initialized jd_txt_uploaded" "jd_is_running jd_txt_uploaded"
    by code_simp+
  have c1: "jd_queue jd_txt_uploaded = [(''role-2'', ?fq)]"
    by code_simp
  have c2: "keyed run_id (role_profiles jd_txt_uploaded)"
    by code_simp
  have c3: "fst (jd_try sample_services ''role-2'' ?fq (jd_txt_uploaded\<lparr>jd_queue := []\<rparr>))
              = Inl ?e"
    by code_simp
  have c4: "get_role_profile jd_txt_uploaded ''role-2'' \<noteq> None"
    by code_simp
  obtain s2 where c5: "jd_try sample_services ''role-2'' ?fq
                         (jd_txt_uploaded\<lparr>jd_queue := []\<rparr>) = (Inl ?e, s2)"
    using c3 by (metis prod.collapse)
  obtain r2 where c6: "get_role_profile jd_txt_uploaded ''role-2'' = Some r2"
    using c4 by blast
  have c7: "as_RoleListingError ?e \<noteq> None"
    by simp
  note failed = claim [OF c0 c1 c2, of sample_services, THEN conjunct2, THEN conjunct1,
      rule_format, of ?e s2 r2]
  have c8: "get_role_profile (jd_process_queue sample_services jd_txt_uploaded) ''role-2''
              = Some (r2\<lparr>run_status := FAILED, run_status_comment := Some (str ?e),
                         run_updated_at := clock sample_services\<rparr>)"
    and c9: "role_listings (jd_process_queue sample_services jd_txt_uploaded)
              = role_listings jd_txt_uploaded"
    using failed c5 c6 c7 by blast+
  have d1: "map_option run_status
        (get_role_profile (jd_process_queue sample_services jd_txt_uploaded) ''role-2'')
       = Some FAILED"
    by (simp add: c8)
  have d2: "map_option run_status_comment
        (get_role_profile (jd_process_queue sample_services jd_txt_uploaded) ''role-2'')
       = Some (Some ''Unsupported file type: backend/uploads/role-2/jd.txt'')"
    by (simp add: c8)
  let ?n = "RoleListingError ''Role profile run role-1 not found'' ''role-1''"
  have e0: "jd_initialized jd_withdrawn" "jd_is_running jd_withdrawn"
    by code_simp+
  have e1: "jd_queue jd_withdrawn = [(''role-1'', ?fp)]"
    by code_simp
  have e2: "keyed run_id (role_profiles jd_withdrawn)"
    by code_simp
  have e3: "fst (jd_try sample_services ''role-1'' ?fp (jd_withdrawn\<lparr>jd_queue := []\<rparr>))
              = Inl ?n"
    by code_simp
  have e4: "get_role_profile jd_withdrawn ''role-1'' = None"
    by code_simp
  obtain s3 where e5: "jd_try sample_services ''role-1'' ?fp (jd_withdrawn\<lparr>jd_queue := []\<rparr>)
                         = (Inl ?n, s3)"
    using e3 by (metis prod.collapse)
  have e6: "as_RoleListingError ?n \<noteq> None"
    by simp
  note missing = claim [OF e0 e1 e2, of sample_services, THEN conjunct2, THEN conjunct2,
      rule_format, of ?n s3]
  have e7: "role_profiles (jd_process_queue sample_services jd_withdrawn)
              = role_profiles jd_withdrawn"
    and e8: "role_listings (jd_process_queue sample_services jd_withdrawn)
              = role_listings jd_withdrawn"
    using missing e4 e5 e6 by blast+
  show ?thesis
    using a1 a3 a9 b1 b2 b3 c1 c3 d1 d2 c9 e1 e4 e7 e8 by blast
qed

text \<open>
  Where C2 as it is stated fails: a domain error after which no run is left.  The
  recruiter withdraws the job description before the Listing worker comes to it; the
  worker finds no run for the id, raises \<open>RoleListingError\<close> for it, and the handler,
  which finds no run either, writes nothing.
\<close>

theorem domain_error_without_run_left:
  "reachable jd_withdrawn
   \<and> jd_queue jd_withdrawn = [(''role-1'', ''backend/uploads/role-1/jd.pdf'')]
   \<and> fst (jd_try sample_services ''role-1'' ''backend/uploads/role-1/jd.pdf''
             (jd_withdrawn\<lparr>jd_queue := []\<rparr>))
       = Inl (RoleListingError ''Role profile run role-1 not found'' ''role-1'')
   \<and> as_RoleListingError
        (RoleListingError ''Role profile run role-1 not found'' ''role-1'')
       = Some ''role-1''
   \<and> get_role_profile (jd_process_queue sample_services jd_withdrawn) ''role-1'' = None
   \<and> role_profiles (jd_process_queue sample_services jd_withdrawn) = []
   \<and> role_listings (jd_process_queue sample_services jd_withdrawn) = []
   \<and> error_log (jd_process_queue sample_services jd_withdrawn)
       = [WorkerError ''role-1'' ''Role profile run role-1 not found'']"
proof -
  have "reachable jd_uploaded"
    unfolding jd_uploaded_def by (rule reachable_run) (rule reachable.start)
  then have r: "reachable jd_withdrawn"
    unfolding jd_withdrawn_def by (rule reachable.step)
  have q: "jd_queue jd_withdrawn = [(''role-1'', ''backend/uploads/role-1/jd.pdf'')]"
    by code_simp
  have t: "fst (jd_try sample_services ''role-1'' ''backend/uploads/role-1/jd.pdf''
             (jd_withdrawn\<lparr>jd_queue := []\<rparr>))
       = Inl (RoleListingError ''Role profile run role-1 not found'' ''role-1'')"
    by code_simp
  have a: "as_RoleListingError
        (RoleListingError ''Role profile run role-1 not found'' ''role-1'')
       = Some ''role-1''"
    by simp
  have g: "get_role_profile (jd_process_queue sample_services jd_withdrawn) ''role-1'' = None"
    by code_simp
  have p: "role_profiles (jd_process_queue sample_services jd_withdrawn) = []"
    by code_simp
  have l: "role_listings (jd_process_queue sample_services jd_withdrawn) = []"
    by code_simp
  have e: "error_log (jd_process_queue sample_services jd_withdrawn)
       = [WorkerError ''role-1'' ''Role profile run role-1 not found'']"
    by code_simp
  show ?thesis using r q t a g p l e by blast
qed


section \<open>The status of a run along the steps of the pipeline\<close>

lemma run_Cons: "run (e # events) s = run events (apply_event e s)"
  by (simp add: run_def)

lemma store_keyed_run: "store_keyed s \<Longrightarrow> store_keyed (run events s)"
  by (induction events arbitrary: s) (simp_all add: run_def store_keyed_step)

lemma cv_run_step:
  assumes k: "store_keyed s" and g: "get_cv_profile s i = Some c"
  shows "\<exists>c'. get_cv_profile (apply_event e s) i = Some c'
              \<and> (cv_status c \<noteq> PENDING \<and> \<not> resubmits_cv e i \<longrightarrow> cv_status c' \<noteq> PENDING)"
proof (cases e)
  case (CreateUser u)
  then show ?thesis using g by (simp add: get_cv_profile_def add_user_def)
next
  case (UploadCV sv u ext)
  show ?thesis
    using upload_cv_runs(2) [of sv u ext s] g UploadCV
    by (auto simp: get_cv_profile_def update_conv')
next
  case (UploadJD sv u ext)
  then show ?thesis using g upload_jd_runs(1) [of sv u ext s] by (simp add: get_cv_profile_def)
next
  case (DeleteRole j u)
  then show ?thesis using g delete_role_route_runs(1) [of j u s] by (simp add: get_cv_profile_def)
next
  case (CVWorker sv)
  then show ?thesis using g cv_process_queue_frame(2) [of sv s] by (simp add: get_cv_profile_def)
next
  case (JDWorker sv)
  have "cv_profiles (jd_process_queue sv s) = cv_profiles s"
    using jd_process_queue_runs [of s sv] k by (simp add: store_keyed_def)
  then show ?thesis using g JDWorker by (simp add: get_cv_profile_def)
next
  case (Profiler sv)
  have "cv_profiles (profiler_process_queue sv s) = cv_profiles s
      \<or> (\<exists>j r r'. get_cv_profile s j = Some r
            \<and> cv_profiles (profiler_process_queue sv s) = AList.update j r' (cv_profiles s)
            \<and> cv_status r' = COMPLETED \<and> cv_id r' = j)"
    using profiler_process_queue_runs [of sv s] by blast
  then show ?thesis
  proof
    assume "cv_profiles (profiler_process_queue sv s) = cv_profiles s"
    then show ?thesis using g Profiler by (simp add: get_cv_profile_def)
  next
    assume "\<exists>j r r'. get_cv_profile s j = Some r
            \<and> cv_profiles (profiler_process_queue sv s) = AList.update j r' (cv_profiles s)
            \<and> cv_status r' = COMPLETED \<and> cv_id r' = j"
    then obtain j r' where
      u: "cv_profiles (profiler_process_queue sv s) = AList.update j r' (cv_profiles s)"
      and st: "cv_status r' = COMPLETED"
      by blast
    show ?thesis
    proof (cases "i = j")
      case True
      then have "get_cv_profile (apply_event e s) i = Some r'"
        using Profiler u by (simp add: get_cv_profile_def update_conv')
      then show ?thesis using st by simp
    next
      case False
      then have "get_cv_profile (apply_event e s) i = Some c"
        using Profiler u g by (simp add: get_cv_profile_def update_conv')
      then show ?thesis by simp
    qed
  qed
next
  case Restart
  then show ?thesis using g by (simp add: get_cv_profile_def restart_frame)
qed

lemma cv_run_trace:
  assumes "store_keyed s" "get_cv_profile s i = Some c"
  shows "\<exists>c'. get_cv_profile (run events s) i = Some c'
              \<and> (cv_status c \<noteq> PENDING \<and> (\<forall>e \<in> set events. \<not> resubmits_cv e i)
                   \<longrightarrow> cv_status c' \<noteq> PENDING)"
  using assms
proof (induction events arbitrary: s c)
  case Nil
  then show ?case by (simp add: run_def)
next
  case (Cons e events)
  obtain c1 where c1: "get_cv_profile (apply_event e s) i = Some c1"
    and n1: "cv_status c \<noteq> PENDING \<and> \<not> resubmits_cv e i \<longrightarrow> cv_status c1 \<noteq> PENDING"
    using cv_run_step [OF Cons.prems, of e] by blast
  obtain c' where c': "get_cv_profile (run events (apply_event e s)) i = Some c'"
    and n': "cv_status c1 \<noteq> PENDING \<and> (\<forall>e \<in> set events. \<not> resubmits_cv e i)
               \<longrightarrow> cv_status c' \<noteq> PENDING"
    using Cons.IH [OF store_keyed_step [OF Cons.prems(1)] c1] by blast
  have "get_cv_profile (run (e # events) s) i = Some c'"
    using c' by (simp add: run_Cons)
  moreover have "cv_status c \<noteq> PENDING \<and> (\<forall>e \<in> set (e # events). \<not> resubmits_cv e i)
                   \<longrightarrow> cv_status c' \<noteq> PENDING"
    using n1 n' by simp
  ultimately show ?case by blast
qed

text \<open>
  A Listing run can disappear: the step relation keeps "absent or terminal" rather than
  "terminal".
\<close>

lemma role_run_step:
  assumes k: "store_keyed s"
    and t: "\<forall>r. get_role_profile s i = Some r \<longrightarrow> run_status r \<noteq> PENDING"
    and n: "\<not> resubmits_jd e i"
  shows "\<forall>r'. get_role_profile (apply_event e s) i = Some r' \<longrightarrow> run_status r' \<noteq> PENDING"
proof (cases e)
  case (CreateUser u)
  then show ?thesis using t by (simp add: get_role_profile_def add_user_def)
next
  case (UploadCV sv u ext)
  then show ?thesis using t upload_cv_runs(1) [of sv u ext s] by (simp add: get_role_profile_def)
next
  case (UploadJD sv u ext)
  then have "uuid4 sv \<noteq> i" using n by simp
  then show ?thesis
    using upload_jd_runs(2) [of sv u ext s] t UploadJD
    by (auto simp: get_role_profile_def update_conv')
next
  case (DeleteRole j u)
  then show ?thesis
    using delete_role_route_runs(2) [of j u s] t
    by (auto simp: get_role_profile_def delete_conv' split: if_splits)
next
  case (CVWorker sv)
  then show ?thesis
    using t cv_process_queue_frame(3) [of sv s] by (simp add: get_role_profile_def)
next
  case (JDWorker sv)
  have "role_profiles (jd_process_queue sv s) = role_profiles s
          \<or> (\<exists>j r r'. get_role_profile s j = Some r
                \<and> role_profiles (jd_process_queue sv s) = AList.update j r' (role_profiles s)
                \<and> run_id r' = j
                \<and> (run_status r' = FAILED \<or> run_status r' = run_status r))
          \<or> (\<exists>j. role_profiles (jd_process_queue sv s) = AList.delete j (role_profiles s))"
    using jd_process_queue_runs [of s sv] k by (simp add: store_keyed_def)
  then show ?thesis
  proof (elim disjE exE conjE)
    assume "role_profiles (jd_process_queue sv s) = role_profiles s"
    then show ?thesis using t JDWorker by (simp add: get_role_profile_def)
  next
    fix j r r'
    assume g: "get_role_profile s j = Some r"
      and u: "role_profiles (jd_process_queue sv s) = AList.update j r' (role_profiles s)"
      and st: "run_status r' = FAILED"
    show ?thesis
      using t g u st JDWorker by (simp add: get_role_profile_def update_conv')
  next
    fix j r r'
    assume g: "get_role_profile s j = Some r"
      and u: "role_profiles (jd_process_queue sv s) = AList.update j r' (role_profiles s)"
      and st: "run_status r' = run_status r"
    show ?thesis
      using t g u st JDWorker by (simp add: get_role_profile_def update_conv')
  next
    fix j
    assume "role_profiles (jd_process_queue sv s) = AList.delete j (role_profiles s)"
    then show ?thesis
      using t JDWorker by (simp add: get_role_profile_def delete_conv')
  qed
next
  case (Profiler sv)
  then show ?thesis
    using t profiler_process_queue_runs [of sv s] by (simp add: get_role_profile_def)
next
  case Restart
  then show ?thesis using t by (simp add: get_role_profile_def restart_frame)
qed

lemma role_run_trace:
  assumes "store_keyed s"
    and "\<forall>r. get_role_profile s i = Some r \<longrightarrow> run_status r \<noteq> PENDING"
    and "\<forall>e \<in> set events. \<not> resubmits_jd e i"
  shows "\<forall>r'. get_role_profile (run events s) i = Some r' \<longrightarrow> run_status r' \<noteq> PENDING"
  using assms
proof (induction events arbitrary: s)
  case Nil
  then show ?case by (simp add: run_def)
next
  case (Cons e events)
  have "\<forall>r'. get_role_profile (apply_event e s) i = Some r' \<longrightarrow> run_status r' \<noteq> PENDING"
    using role_run_step [OF Cons.prems(1,2), of e] Cons.prems(3) by simp
  then have "\<forall>r'. get_role_profile (run events (apply_event e s)) i = Some r'
                \<longrightarrow> run_status r' \<noteq> PENDING"
    using Cons.IH [OF store_keyed_step [OF Cons.prems(1)]] Cons.prems(3) by simp
  then show ?case by (simp add: run_Cons)
qed

lemma role_run_removed:
  assumes k: "store_keyed s" and g: "get_role_profile s i = Some r"
    and a: "get_role_profile (apply_event e s) i = None"
  shows "(\<exists>sv. e = JDWorker sv) \<or> (\<exists>u. e = DeleteRole i u)"
proof (cases e)
  case (CreateUser u)
  then show ?thesis using g a by (simp add: get_role_profile_def add_user_def)
next
  case (UploadCV sv u ext)
  then show ?thesis
    using g a upload_cv_runs(1) [of sv u ext s] by (simp add: get_role_profile_def)
next
  case (UploadJD sv u ext)
  then show ?thesis
    using upload_jd_runs(2) [of sv u ext s] g a
    by (auto simp: get_role_profile_def update_conv' split: if_splits)
next
  case (DeleteRole j u)
  then show ?thesis
    using delete_role_route_runs(2) [of j u s] g a
    by (auto simp: get_role_profile_def delete_conv' split: if_splits)
next
  case (CVWorker sv)
  then show ?thesis
    using g a cv_process_queue_frame(3) [of sv s] by (simp add: get_role_profile_def)
next
  case (JDWorker sv)
  then show ?thesis by simp
next
  case (Profiler sv)
  then show ?thesis
    using g a profiler_process_queue_runs [of sv s] by (simp add: get_role_profile_def)
next
  case Restart
  then show ?thesis using g a by (simp add: get_role_profile_def restart_frame)
qed

lemma RunStatus_cases: "st \<in> {PENDING, COMPLETED, FAILED}"
  by (cases st) simp_all

lemma upload_cv_pending:
  assumes "get_user_by_id s u \<noteq> None" "u \<noteq> []"
  shows "map_option cv_status (get_cv_profile (upload_cv sv u ext s) u) = Some PENDING"
  using assms
  by (auto simp: upload_cv_def add_cv_profile_def add_cv_to_queue_def Let_def
        new_CVProfileRun_def get_cv_profile_def update_conv')

lemma upload_jd_pending:
  assumes "get_user_by_id s u = Some usr" "user_role usr = Some RECRUITER"
  shows "map_option run_status (get_role_profile (upload_jd sv u ext s) (uuid4 sv))
           = Some PENDING"
  using assms
  by (auto simp: upload_jd_def add_role_profile_def add_jd_to_queue_def Let_def
        new_RoleProfileRun_def get_role_profile_def update_conv')

text \<open>
  C1, amended.  In a store keyed by id, as the store of every reachable state is, and
  along any sequence of steps of the pipeline (requests, passes of the three workers,
  restarts): the status of a run is PENDING, COMPLETED or FAILED; the run of a resume,
  once created, exists after every step, and if it is COMPLETED or FAILED it is not
  PENDING again unless one of the steps uploads a resume for the same user; the run of a
  job description that is COMPLETED or FAILED is, as long as it exists, not PENDING again
  unless one of the steps creates the run of that id anew; a run of a job description
  ceases to exist only by a pass of the Listing worker or by the deletion request of that
  id; and an upload leaves the run of its id PENDING, whatever it was.
\<close>

theorem run_status_never_regresses:
  assumes "store_keyed s"
  shows
    "(\<forall>i c. get_cv_profile s i = Some c \<longrightarrow>
        cv_status c \<in> {PENDING, COMPLETED, FAILED}
        \<and> (\<exists>c'. get_cv_profile (run events s) i = Some c'
              \<and> cv_status c' \<in> {PENDING, COMPLETED, FAILED}
              \<and> (cv_status c \<noteq> PENDING \<and> (\<forall>e \<in> set events. \<not> resubmits_cv e i)
                   \<longrightarrow> cv_status c' \<noteq> PENDING)))
     \<and> (\<forall>i r. get_role_profile s i = Some r \<longrightarrow>
          run_status r \<in> {PENDING, COMPLETED, FAILED}
          \<and> (\<forall>r'. get_role_profile (run events s) i = Some r' \<and> run_status r \<noteq> PENDING
                  \<and> (\<forall>e \<in> set events. \<not> resubmits_jd e i)
                \<longrightarrow> run_status r' \<noteq> PENDING))
     \<and> (\<forall>i r e. get_role_profile s i = Some r \<and> get_role_profile (apply_event e s) i = None
           \<longrightarrow> (\<exists>sv. e = JDWorker sv) \<or> (\<exists>u. e = DeleteRole i u))
     \<and> (\<forall>sv u ext. get_user_by_id s u \<noteq> None \<and> u \<noteq> [] \<longrightarrow>
           map_option cv_status (get_cv_profile (apply_event (UploadCV sv u ext) s) u)
             = Some PENDING)
     \<and> (\<forall>sv u ext usr. get_user_by_id s u = Some usr \<and> user_role usr = Some RECRUITER \<longrightarrow>
           map_option run_status
             (get_role_profile (apply_event (UploadJD sv u ext) s) (uuid4 sv))
             = Some PENDING)"
proof (intro conjI allI impI)
  fix i c
  assume g: "get_cv_profile s i = Some c"
  show "cv_status c \<in> {PENDING, COMPLETED, FAILED}" by (rule RunStatus_cases)
  obtain c' where "get_cv_profile (run events s) i = Some c'"
    and "cv_status c \<noteq> PENDING \<and> (\<forall>e \<in> set events. \<not> resubmits_cv e i)
           \<longrightarrow> cv_status c' \<noteq> PENDING"
    using cv_run_trace [OF assms g, of events] by blast
  moreover have "cv_status c' \<in> {PENDING, COMPLETED, FAILED}" by (rule RunStatus_cases)
  ultimately show "\<exists>c'. get_cv_profile (run events s) i = Some c'
              \<and> cv_status c' \<in> {PENDING, COMPLETED, FAILED}
              \<and> (cv_status c \<noteq> PENDING \<and> (\<forall>e \<in> set events. \<not> resubmits_cv e i)
                   \<longrightarrow> cv_status c' \<noteq> PENDING)"
    by blast
next
  fix i r
  assume "get_role_profile s i = Some r"
  show "run_status r \<in> {PENDING, COMPLETED, FAILED}" by (rule RunStatus_cases)
next
  fix i r r'
  assume g: "get_role_profile s i = Some r"
    and a: "get_role_profile (run events s) i = Some r' \<and> run_status r \<noteq> PENDING
              \<and> (\<forall>e \<in> set events. \<not> resubmits_jd e i)"
  have "\<forall>r. get_role_profile s i = Some r \<longrightarrow> run_status r \<noteq> PENDING"
    using g a by simp
  then show "run_status r' \<noteq> PENDING"
    using role_run_trace [OF assms, of i events] a by blast
next
  fix i r e
  assume "get_role_profile s i = Some r \<and> get_role_profile (apply_event e s) i = None"
  then show "(\<exists>sv. e = JDWorker sv) \<or> (\<exists>u. e = DeleteRole i u)"
    using role_run_removed [OF assms, of i r e] by blast
next
  fix sv u ext
  assume "get_user_by_id s u \<noteq> None \<and> u \<noteq> []"
  then show "map_option cv_status (get_cv_profile (apply_event (UploadCV sv u ext) s) u)
               = Some PENDING"
    using upload_cv_pending [of s u sv ext] by simp
next
  fix sv u ext usr
  assume "get_user_by_id s u = Some usr \<and> user_role usr = Some RECRUITER"
  then show "map_option run_status
               (get_role_profile (apply_event (UploadJD sv u ext) s) (uuid4 sv))
             = Some PENDING"
    using upload_jd_pending [of s u usr sv ext] by simp
qed

theorem run_status_witness:
  "store_keyed after_crash
   \<and> map_option cv_status (get_cv_profile after_crash ''u2'') = Some COMPLETED
   \<and> (\<exists>c'. get_cv_profile
              (run [Restart, CVWorker sample_services, Profiler sample_services,
                    JDWorker sample_services] after_crash) ''u2'' = Some c'
          \<and> cv_status c' \<noteq> PENDING)
   \<and> map_option run_status (get_role_profile after_crash ''role-2'') = Some FAILED
   \<and> map_option run_status
        (get_role_profile
           (run [Restart, CVWorker sample_services, Profiler sample_services,
                 JDWorker sample_services] after_crash) ''role-2'')
       \<noteq> Some PENDING
   \<and> get_role_profile jd_uploaded ''role-1'' \<noteq> None
   \<and> get_role_profile (apply_event (JDWorker sample_services) jd_uploaded) ''role-1'' = None
   \<and> map_option cv_status
        (get_cv_profile (apply_event (CreateUser (sample_user ''u4'' JOB_SEEKER)) after_crash)
           ''u4'')
       = Some FAILED
   \<and> map_option cv_status
        (get_cv_profile
           (apply_event (UploadCV sample_services ''u4'' ''.pdf'')
              (apply_event (CreateUser (sample_user ''u4'' JOB_SEEKER)) after_crash))
           ''u4'')
       = Some PENDING
   \<and> map_option run_status
        (get_role_profile
           (apply_event (UploadJD sample_services ''r1'' ''.pdf'')
              (apply_event (CreateUser (sample_user ''r1'' RECRUITER)) after_crash))
           ''listing-1'')
       = Some PENDING"
proof -
  note claim = run_status_never_regresses
  let ?events = "[Restart, CVWorker sample_services, Profiler sample_services,
                  JDWorker sample_services]"
  let ?s4 = "apply_event (CreateUser (sample_user ''u4'' JOB_SEEKER)) after_crash"
  let ?s5 = "apply_event (CreateUser (sample_user ''r1'' RECRUITER)) after_crash"
  have k: "store_keyed after_crash" by code_simp
  have a1: "map_option cv_status (get_cv_profile after_crash ''u2'') = Some COMPLETED"
    by code_simp
  then obtain c where a2: "get_cv_profile after_crash ''u2'' = Some c"
    and a3: "cv_status c = COMPLETED"
    by blast
  have a4: "\<forall>e \<in> set ?events. \<not> resubmits_cv e ''u2''"
    by simp
  have a5: "\<exists>c'. get_cv_profile (run ?events after_crash) ''u2'' = Some c'
              \<and> cv_status c' \<noteq> PENDING"
    using claim [OF k, of ?events, THEN conjunct1, rule_format, OF a2] a3 a4 by auto
  have b1: "map_option run_status (get_role_profile after_crash ''role-2'') = Some FAILED"
    by code_simp
  then obtain r where b2: "get_role_profile after_crash ''role-2'' = Some r"
    and b3: "run_status r = FAILED"
    by blast
  have b4: "\<forall>e \<in> set ?events. \<not> resubmits_jd e ''role-2''"
    by simp
  note b5 = claim [OF k, of ?events, THEN conjunct2, THEN conjunct1, rule_format, OF b2,
      THEN conjunct2, rule_format]
  have b6: "map_option run_status (get_role_profile (run ?events after_crash) ''role-2'')
              \<noteq> Some PENDING"
  proof (cases "get_role_profile (run ?events after_crash) ''role-2''")
    case None
    then show ?thesis by simp
  next
    case (Some r')
    then have "run_status r' \<noteq> PENDING"
      using b5 [of r'] b3 b4 by simp
    then show ?thesis using Some by simp
  qed
  have "reachable jd_uploaded"
    unfolding jd_uploaded_def by (rule reachable_run) (rule reachable.start)
  then have kj: "store_keyed jd_uploaded"
    by (rule reachable_store_keyed)
  have d1: "get_role_profile jd_uploaded ''role-1'' \<noteq> None"
    by code_simp
  then obtain rj where d2: "get_role_profile jd_uploaded ''role-1'' = Some rj"
    by blast
  have d3: "get_role_profile (apply_event (JDWorker sample_services) jd_uploaded) ''role-1''
              = None"
    by code_simp
  have d4: "(\<exists>sv. JDWorker sample_services = JDWorker sv)
              \<or> (\<exists>u. JDWorker sample_services = DeleteRole ''role-1'' u)"
    using claim [OF kj, of "[]", THEN conjunct2, THEN conjunct2, THEN conjunct1, rule_format,
        of "''role-1''" rj "JDWorker sample_services"] d2 d3
    by blast
  have k4: "store_keyed ?s4" using k by (rule store_keyed_step)
  have e1: "get_user_by_id ?s4 ''u4'' \<noteq> None"
    by (simp add: get_user_by_id_def add_user_def update_conv' sample_user_def)
  have e2: "map_option cv_status (get_cv_profile ?s4 ''u4'') = Some FAILED"
    by code_simp
  have e3: "map_option cv_status
              (get_cv_profile (apply_event (UploadCV sample_services ''u4'' ''.pdf'') ?s4) ''u4'')
            = Some PENDING"
    using claim [OF k4, of "[]", THEN conjunct2, THEN conjunct2, THEN conjunct2,
        THEN conjunct1, rule_format, of "''u4''" sample_services "''.pdf''"] e1
    by simp
  have k5: "store_keyed ?s5" using k by (rule store_keyed_step)
  have f1: "get_user_by_id ?s5 ''r1'' = Some (sample_user ''r1'' RECRUITER)"
    by (simp add: get_user_by_id_def add_user_def update_conv' sample_user_def)
  have f2: "user_role (sample_user ''r1'' RECRUITER) = Some RECRUITER"
    by (simp add: sample_user_def)
  have f3: "uuid4 sample_services = ''listing-1''"
    by (simp add: sample_services_def)
  have f4: "map_option run_status
              (get_role_profile (apply_event (UploadJD sample_services ''r1'' ''.pdf'') ?s5)
                 (uuid4 sample_services))
            = Some PENDING"
    using claim [OF k5, of "[]", THEN conjunct2, THEN conjunct2, THEN conjunct2,
        THEN conjunct2, rule_format, of "''r1''" "sample_user ''r1'' RECRUITER"
        sample_services "''.pdf''"] f1 f2
    by simp
  show ?thesis
    using k a1 a5 b1 b6 d1 d3 e2 e3 f4 [unfolded f3] by blast
qed

text \<open>
  Where C1 as it is stated fails: a submitted item without a run record.  The job
  description is uploaded, its run is PENDING; the Listing worker processes it to the
  end, stores the listing under a new id and deletes the run.
\<close>

theorem promoted_listing_has_no_run:
  "reachable jd_uploaded
   \<and> jd_queue jd_uploaded = [(''role-1'', ''backend/uploads/role-1/jd.pdf'')]
   \<and> map_option run_status (get_role_profile jd_uploaded ''role-1'') = Some PENDING
   \<and> reachable (apply_event (JDWorker sample_services) jd_uploaded)
   \<and> get_role_profile (apply_event (JDWorker sample_services) jd_uploaded) ''role-1'' = None
   \<and> role_profiles (apply_event (JDWorker sample_services) jd_uploaded) = []
   \<and> map_option listing_creator_id
        (get_role_by_id (apply_event (JDWorker sample_services) jd_uploaded) ''listing-1'')
       = Some ''r1''"
proof -
  have r: "reachable jd_uploaded"
    unfolding jd_uploaded_def by (rule reachable_run) (rule reachable.start)
  then have r': "reachable (apply_event (JDWorker sample_services) jd_uploaded)"
    by (rule reachable.step)
  have q: "jd_queue jd_uploaded = [(''role-1'', ''backend/uploads/role-1/jd.pdf'')]"
    by code_simp
  have p: "map_option run_status (get_role_profile jd_uploaded ''role-1'') = Some PENDING"
    by code_simp
  have g: "get_role_profile (apply_event (JDWorker sample_services) jd_uploaded) ''role-1''
             = None"
    by code_simp
  have e: "role_profiles (apply_event (JDWorker sample_services) jd_uploaded) = []"
    by code_simp
  have l: "map_option listing_creator_id
        (get_role_by_id (apply_event (JDWorker sample_services) jd_uploaded) ''listing-1'')
       = Some ''r1''"
    by code_simp
  show ?thesis using r r' q p g e l by blast
qed


section \<open>Failures that are not domain errors\<close>

lemma at_store_calm: "at_store calm c returned = returned"
  by (simp add: at_store_def calm_def)

lemma meanwhile_calm: "run (meanwhile calm) s = s"
  by (simp add: calm_def run_def)

lemma at_store_Inr: "at_store cd c returned = Inr x \<Longrightarrow> returned = Inr x"
  by (simp add: at_store_def split: option.splits)

lemma at_store_Inl:
  "at_store cd c returned = Inl e \<Longrightarrow>
     (\<exists>m. store_error cd c = Some m \<and> e = ServiceFailure m) \<or> returned = Inl e"
  by (simp add: at_store_def split: option.splits)

text \<open>Under calm conditions the stage functions are the ones of the step relation.\<close>

lemma cv_process_queue_calm: "cv_process_queue_under calm sv s = cv_process_queue sv s"
proof -
  have t: "cv_try_under calm sv i fp s' = cv_try sv i fp s'" for i fp s'
    by (simp add: cv_try_under_def cv_try_def at_store_calm meanwhile_calm
          split: sum.splits option.splits prod.splits)
  have h: "cv_except_CVError_under calm sv e i s' = cv_except_CVError sv e i s'" for e i s'
    by (simp add: cv_except_CVError_under_def at_store_calm)
  show ?thesis
    by (simp add: cv_process_queue_under_def cv_process_queue_def t h
          cong: list.case_cong prod.case_cong sum.case_cong option.case_cong)
qed

lemma profiler_process_queue_calm:
  "profiler_process_queue_under calm sv s = profiler_process_queue sv s"
proof -
  have m: "merge_into_user_under calm i s' = merge_into_user i s'" for i s'
    by (simp add: merge_into_user_under_def merge_into_user_def at_store_calm
          split: sum.splits option.splits prod.splits)
  have t: "profiler_try_under calm sv i ps ca s' = profiler_try sv i ps ca s'" for i ps ca s'
    by (simp add: profiler_try_under_def profiler_try_def at_store_calm m meanwhile_calm
          split: sum.splits option.splits prod.splits)
  show ?thesis
    by (simp add: profiler_process_queue_under_def profiler_process_queue_def t
          cong: list.case_cong prod.case_cong sum.case_cong)
qed

lemma jd_process_queue_calm: "jd_process_queue_under calm sv s = jd_process_queue sv s"
proof -
  have t: "jd_try_under calm sv i fp s' = jd_try sv i fp s'" for i fp s'
    by (simp add: jd_try_under_def jd_try_def at_store_calm meanwhile_calm Let_def
          cong: sum.case_cong option.case_cong prod.case_cong)
  have h: "jd_except_RoleListingError_under calm sv e i s'
             = jd_except_RoleListingError sv e i s'" for e i s'
    by (simp add: jd_except_RoleListingError_under_def jd_except_RoleListingError_def
          at_store_calm Let_def cong: sum.case_cong option.case_cong prod.case_cong)
  show ?thesis
    by (simp add: jd_process_queue_under_def jd_process_queue_def t h
          cong: list.case_cong prod.case_cong sum.case_cong option.case_cong)
qed

text \<open>What the stage functions leave behind when they raise.\<close>

lemma cv_try_under_raises: "\<exists>e. cv_try_under cd sv i fp s = (Inl e, run (meanwhile cd) s)"
  by (simp add: cv_try_under_def Let_def cv_write_back_call_raises
        split: sum.splits option.splits prod.splits)

lemma merge_into_user_under_frame:
  assumes "merge_into_user_under cd i s = (res, s')"
  shows "s' = s\<lparr>users := users s'\<rparr>"
proof (cases "at_store cd Profiler_get_user (Inr (get_user_by_id s i))")
  case (Inl e)
  then show ?thesis using assms by (simp add: merge_into_user_under_def)
next
  case (Inr found_user)
  note gu = this
  show ?thesis
  proof (cases found_user)
    case None
    then show ?thesis using assms gu by (simp add: merge_into_user_under_def)
  next
    case (Some u0)
    note u0 = this
    show ?thesis
    proof (cases "at_store cd Profiler_get_run (Inr (get_cv_profile s i))")
      case (Inl e)
      then show ?thesis using assms gu u0 by (simp add: merge_into_user_under_def)
    next
      case (Inr found_run)
      note gr = this
      show ?thesis
      proof (cases found_run)
        case None
        then show ?thesis using assms gu u0 gr by (simp add: merge_into_user_under_def)
      next
        case (Some r)
        note r = this
        show ?thesis
        proof (cases "at_store cd Profiler_merge_user (update_user_from_cv_profile i r s)")
          case (Inl e)
          then show ?thesis using assms gu u0 gr r by (simp add: merge_into_user_under_def)
        next
          case (Inr us1)
          obtain u1 s1 where us1: "us1 = (u1, s1)" by (cases us1)
          have m: "at_store cd Profiler_merge_user (update_user_from_cv_profile i r s)
                     = Inr (u1, s1)"
            using Inr us1 by simp
          have s1: "s1 = s\<lparr>users := users s1\<rparr>"
            using at_store_Inr [OF m] by (rule update_user_from_cv_profile_frame)
          show ?thesis
          proof (cases "user_is_onboarded u1")
            case True
            then have "s' = s1"
              using assms gu u0 gr r m by (simp add: merge_into_user_under_def)
            then show ?thesis using s1 by simp
          next
            case False
            note nb = this
            show ?thesis
            proof (cases "at_store cd Profiler_onboard_user
                            (update_user i (u1\<lparr>user_is_onboarded := True\<rparr>) s1)")
              case (Inl e)
              then have "s' = s1"
                using assms gu u0 gr r m nb by (simp add: merge_into_user_under_def)
              then show ?thesis using s1 by simp
            next
              case (Inr s2)
              then have "s' = s2"
                using assms gu u0 gr r m nb by (simp add: merge_into_user_under_def)
              moreover have "s2 = s1\<lparr>users := AList.update i
                                 (u1\<lparr>user_is_onboarded := True, user_id := i\<rparr>) (users s1)\<rparr>"
                using update_user_frame [OF at_store_Inr [OF Inr]] by simp
              ultimately show ?thesis using s1 users_only(2) by blast
            qed
          qed
        qed
      qed
    qed
  qed
qed

lemma profiler_try_under_cases:
  assumes "profiler_try_under cd sv i ps ca s = (res, s')"
  shows "(s' = run (meanwhile cd) s \<and> (\<exists>e. res = Inl e))
       \<or> (\<exists>d p avg ye s1. ca = Some d \<and> analyze_cv sv ps ca = Inr p
             \<and> update_cv_profile (clock sv) i p avg (Some (creativity_score d))
                  (Some (formatting_score d)) (Some (grammar_score d)) COMPLETED None ye
                  (run (meanwhile cd) s)
                 = Inr s1
             \<and> merge_into_user_under cd i s1 = (res, s'))"
proof (cases "analyze_cv sv ps ca")
  case (Inl e)
  then have "profiler_try_under cd sv i ps ca s = (Inl e, run (meanwhile cd) s)"
    by (simp add: profiler_try_under_def Let_def)
  then have "s' = run (meanwhile cd) s" "res = Inl e" using assms by simp_all
  then show ?thesis by blast
next
  case (Inr p)
  note p = this
  define ya :: "rat option \<times> rat option" where
    "ya = (case p of
             None \<Rightarrow> (None, None)
           | Some p \<Rightarrow>
               if employment_history p = [] then (None, None)
               else (Some (calculate_years_experience (today sv) (employment_history p)),
                     Some (of_int (calculate_average_tenure (today sv)
                                     (employment_history p)))))"
  show ?thesis
  proof (cases ca)
    case None
    then have "profiler_try_under cd sv i ps ca s
                 = (Inl (AttributeError ''NoneType object has no attribute creativity_score''),
                    run (meanwhile cd) s)"
      using p by (simp add: profiler_try_under_def Let_def split_beta)
    then have "s' = run (meanwhile cd) s"
      "res = Inl (AttributeError ''NoneType object has no attribute creativity_score'')"
      using assms by simp_all
    then show ?thesis by blast
  next
    case (Some d)
    let ?w = "update_cv_profile (clock sv) i p (snd ya) (Some (creativity_score d))
                (Some (formatting_score d)) (Some (grammar_score d)) COMPLETED None (fst ya)
                (run (meanwhile cd) s)"
    have body: "profiler_try_under cd sv i ps ca s =
        (case at_store cd Profiler_write_run ?w of
           Inl e \<Rightarrow> (Inl e, run (meanwhile cd) s)
         | Inr s1 \<Rightarrow> merge_into_user_under cd i s1)"
      using p Some
      by (simp add: profiler_try_under_def Let_def split_beta profiler_call_binds ya_def)
    show ?thesis
    proof (cases "at_store cd Profiler_write_run ?w")
      case (Inl e)
      then have "s' = run (meanwhile cd) s" "res = Inl e" using assms body by simp_all
      then show ?thesis by blast
    next
      case (Inr s1)
      then have "merge_into_user_under cd i s1 = (res, s')" using assms body by simp
      then show ?thesis using Some p at_store_Inr [OF Inr] by blast
    qed
  qed
qed

lemma update_role_profile_found:
  assumes "update_role_profile now i p c st cm s = Inr (u, s')"
  shows "\<exists>ex. get_role_profile s i = Some ex
           \<and> create_role_profile_run_from_profile now p (run_file_path ex) c ex st cm = Inr u
           \<and> s' = s\<lparr>role_profiles := AList.update (run_id ex) u (role_profiles s)\<rparr>"
proof (cases "get_role_profile s i")
  case None
  then show ?thesis using assms by (simp add: update_role_profile_def)
next
  case (Some ex)
  then show ?thesis
    using assms by (simp add: update_role_profile_unfold [OF Some] split: sum.splits)
qed

lemma jd_try_under_outcomes:
  assumes k: "store_keyed s"
    and t: "jd_try_under cd sv i fp s = (Inl e, s1)"
    and n: "as_RoleListingError e = None"
  shows "s1 = s
       \<or> (\<exists>r. get_role_profile s i = Some r
              \<and> s1 = run (meanwhile cd)
                        (s\<lparr>role_profiles :=
                             AList.update i
                               (r\<lparr>run_status_comment := None, run_updated_at := clock sv\<rparr>)
                               (role_profiles s)\<rparr>))
       \<or> (\<exists>r paragraphs p r2 msg m.
              get_role_profile s i = Some r \<and> jd_extract sv i fp = Inr paragraphs
              \<and> analyze_jd sv paragraphs = Inr (Some p)
              \<and> m = run (meanwhile cd)
                        (s\<lparr>role_profiles :=
                             AList.update i
                               (r\<lparr>run_status_comment := None, run_updated_at := clock sv\<rparr>)
                               (role_profiles s)\<rparr>)
              \<and> run_status r2 = COMPLETED \<and> run_id r2 = i \<and> e = ServiceFailure msg
              \<and> ((store_error cd JD_add_listing = Some msg
                    \<and> s1 = m\<lparr>role_profiles := AList.update i r2 (role_profiles m)\<rparr>)
                   \<or> (\<exists>new_role.
                         store_error cd JD_delete_run = Some msg
                         \<and> s1 = m\<lparr>role_profiles := AList.update i r2 (role_profiles m),
                                  role_listings :=
                                    AList.update (uuid4 sv) new_role (role_listings m)\<rparr>)))"
proof (cases "at_store cd JD_get_run (Inr (get_role_profile s i))")
  case (Inl e0)
  then have "jd_try_under cd sv i fp s = (Inl e0, s)" by (simp add: jd_try_under_def)
  then show ?thesis using t by simp
next
  case (Inr found)
  note got = this
  have found: "found = get_role_profile s i" using at_store_Inr [OF Inr] by simp
  show ?thesis
  proof (cases found)
    case None
    then have "jd_try_under cd sv i fp s
                 = (Inl (RoleListingError (''Role profile run '' @ i @ '' not found'') i), s)"
      using got by (simp add: jd_try_under_def)
    then show ?thesis using t n by simp
  next
    case (Some r)
    then have g: "get_role_profile s i = Some r" using found by simp
    define r1 where "r1 = r\<lparr>run_status_comment := None, run_updated_at := clock sv\<rparr>"
    define st where "st = s\<lparr>role_profiles := AList.update i r1 (role_profiles s)\<rparr>"
    define m where "m = run (meanwhile cd) st"
    have rid: "run_id r = i"
      using keyed_lookup [of run_id "role_profiles s" i r] k g
      by (simp add: store_keyed_def get_role_profile_def)
    have touch: "update_role_profile (clock sv) i
                   (Some (as_RoleProfile (r\<lparr>run_updated_at := clock sv\<rparr>))) (run_creator_id r)
                   (run_status r) None s
                 = Inr (r1, st)"
      by (simp add: update_role_profile_unfold [OF g] rewrite_run(2) r1_def st_def rid)
    have kst: "store_keyed st"
      using k keyed_update [of run_id "role_profiles s" r1 i]
      by (simp add: store_keyed_def st_def r1_def rid)
    have km: "store_keyed m" unfolding m_def using kst by (rule store_keyed_run)
    let ?touch = "at_store cd JD_touch_run
                    (update_role_profile (clock sv) i
                       (Some (as_RoleProfile (r\<lparr>run_updated_at := clock sv\<rparr>)))
                       (run_creator_id r) (run_status r) None s)"
    have head: "jd_try_under cd sv i fp s =
        (case ?touch of
           Inl e \<Rightarrow> (Inl e, s)
         | Inr (role_profile_run, s1) \<Rightarrow>
             (case jd_extract sv i fp of
                Inl e \<Rightarrow> (Inl e, run (meanwhile cd) s1)
              | Inr paragraphs \<Rightarrow>
                  (case analyze_jd sv paragraphs of
                     Inl e \<Rightarrow> (Inl e, run (meanwhile cd) s1)
                   | Inr jd_analysis \<Rightarrow>
                       (case at_store cd JD_write_run
                               (update_role_profile (clock sv) i jd_analysis
                                  (run_creator_id role_profile_run) COMPLETED None
                                  (run (meanwhile cd) s1)) of
                          Inl e \<Rightarrow> (Inl e, run (meanwhile cd) s1)
                        | Inr (role_profile_run, s2) \<Rightarrow>
                            (case at_store cd JD_add_listing
                                    (add_role_from_profile sv role_profile_run s2) of
                               Inl e \<Rightarrow> (Inl e, s2)
                             | Inr (new_role, s3) \<Rightarrow>
                                 (case at_store cd JD_delete_run
                                         (Inr (delete_role_profile (run_id role_profile_run)
                                                 s3)) of
                                    Inl e \<Rightarrow> (Inl e, s3)
                                  | Inr s4 \<Rightarrow> (Inr (), s4)))))))"
      using got Some
      by (simp add: jd_try_under_def Let_def jd_touch_call_binds
            cong: sum.case_cong option.case_cong prod.case_cong)
    show ?thesis
    proof (cases ?touch)
      case (Inl e0)
      then have "jd_try_under cd sv i fp s = (Inl e0, s)" using head by simp
      then show ?thesis using t by simp
    next
      case (Inr touched)
      then have tr: "?touch = Inr (r1, st)" using at_store_Inr [OF Inr] touch by simp
      have atm: "s1 = m \<Longrightarrow> ?thesis"
        using g unfolding m_def st_def r1_def by blast
      show ?thesis
      proof (cases "jd_extract sv i fp")
        case (Inl e0)
        then have "s1 = m" using head tr t by (simp add: m_def)
        then show ?thesis by (rule atm)
      next
        case (Inr paragraphs)
        note ex = this
        show ?thesis
        proof (cases "analyze_jd sv paragraphs")
          case (Inl e0)
          then have "s1 = m" using head tr ex t by (simp add: m_def)
          then show ?thesis by (rule atm)
        next
          case (Inr jd_analysis)
          note an = this
          let ?completion = "at_store cd JD_write_run
                          (update_role_profile (clock sv) i jd_analysis (run_creator_id r1)
                             COMPLETED None m)"
          show ?thesis
          proof (cases ?completion)
            case (Inl e0)
            then have "s1 = m" using head tr ex an t by (simp add: m_def)
            then show ?thesis by (rule atm)
          next
            case (Inr written)
            obtain r2 s2 where w: "written = (r2, s2)" by (cases written)
            have wr: "?completion = Inr (r2, s2)" using Inr w by simp
            obtain ex2 where gm: "get_role_profile m i = Some ex2"
              and cr: "create_role_profile_run_from_profile (clock sv) jd_analysis
                         (run_file_path ex2) (run_creator_id r1) ex2 COMPLETED None = Inr r2"
              and s2: "s2 = m\<lparr>role_profiles := AList.update (run_id ex2) r2 (role_profiles m)\<rparr>"
              using update_role_profile_found [OF at_store_Inr [OF wr]] by blast
            have rid2: "run_id ex2 = i"
              using keyed_lookup [of run_id "role_profiles m" i ex2] km gm
              by (simp add: store_keyed_def get_role_profile_def)
            obtain p where p: "jd_analysis = Some p"
              using cr by (cases jd_analysis) (simp_all add: create_role_profile_run_none)
            note f = create_role_profile_run_fields [OF cr [unfolded p]]
            have c2: "run_status r2 = COMPLETED" by (rule f(2))
            have i2: "run_id r2 = i" using f(1) rid2 by simp
            have s2': "s2 = m\<lparr>role_profiles := AList.update i r2 (role_profiles m)\<rparr>"
              using s2 rid2 by simp
            have tail: "jd_try_under cd sv i fp s =
                (case at_store cd JD_add_listing (add_role_from_profile sv r2 s2) of
                   Inl e \<Rightarrow> (Inl e, s2)
                 | Inr (new_role, s3) \<Rightarrow>
                     (case at_store cd JD_delete_run (Inr (delete_role_profile i s3)) of
                        Inl e \<Rightarrow> (Inl e, s3)
                      | Inr s4 \<Rightarrow> (Inr (), s4)))"
              using head tr ex an wr i2
              by (simp add: m_def cong: sum.case_cong prod.case_cong)
            obtain new_role where a: "add_role_from_profile sv r2 s2
                 = Inr (new_role,
                        s2\<lparr>role_listings := AList.update (uuid4 sv) new_role (role_listings s2)\<rparr>)"
              using add_role_from_profile_completed [OF c2, of sv s2] by blast
            show ?thesis
            proof (cases "store_error cd JD_add_listing")
              case (Some msg)
              then have "e = ServiceFailure msg" "s1 = s2"
                using tail t by (simp_all add: at_store_def)
              then have "store_error cd JD_add_listing = Some msg
                    \<and> s1 = m\<lparr>role_profiles := AList.update i r2 (role_profiles m)\<rparr>"
                using Some s2' by simp
              then show ?thesis
                using g ex an [unfolded p] c2 i2 \<open>e = ServiceFailure msg\<close>
                unfolding m_def st_def r1_def by blast
            next
              case None
              then have l: "at_store cd JD_add_listing (add_role_from_profile sv r2 s2)
                   = Inr (new_role,
                          s2\<lparr>role_listings :=
                               AList.update (uuid4 sv) new_role (role_listings s2)\<rparr>)"
                using a by (simp add: at_store_def)
              show ?thesis
              proof (cases "store_error cd JD_delete_run")
                case None
                then have "fst (jd_try_under cd sv i fp s) = Inr ()"
                  using tail l by (simp add: at_store_def)
                then show ?thesis using t by simp
              next
                case (Some msg)
                then have "e = ServiceFailure msg"
                  "s1 = s2\<lparr>role_listings :=
                            AList.update (uuid4 sv) new_role (role_listings s2)\<rparr>"
                  using tail l t by (simp_all add: at_store_def)
                then have "store_error cd JD_delete_run = Some msg
                    \<and> s1 = m\<lparr>role_profiles := AList.update i r2 (role_profiles m),
                             role_listings :=
                               AList.update (uuid4 sv) new_role (role_listings m)\<rparr>"
                  using Some s2' by simp
                then show ?thesis
                  using g ex an [unfolded p] c2 i2 \<open>e = ServiceFailure msg\<close>
                  unfolding m_def st_def r1_def by blast
              qed
            qed
          qed
        qed
      qed
    qed
  qed
qed

text \<open>
  C3, amended.  One pass of a worker, under any conditions of the store and of the
  meantime, in which the stage function raises an exception that is not a domain error
  (an \<open>LLMInferenceError\<close>, a failure of a collaborator or of the store, any other
  exception).  The exception is caught at the loop boundary and logged with the id of the
  item, and the handler writes nothing: the state after the pass is the state at the raise
  with one more log entry; nothing is marked FAILED, the item is not put back on the
  queue, and the pool keeps running.  What the stage function has written by the raise:
  the Resume worker nothing; the Profiler nothing, unless the exception comes from the
  merge into the user, after the run has been written COMPLETED; the Listing worker
  nothing, or the write that opens the stage function (\<open>updated_at\<close> refreshed, status
  comment cleared, status kept) when the exception comes from the extraction, from the
  analysis or from the completion write, or also the run written COMPLETED when the
  store fails at the upsert of the listing or at the deletion of the run.
\<close>

theorem uncaught_failure_is_logged_and_handler_writes_nothing:
  "(\<forall>s i fp rest e s1.
      cv_initialized s \<and> cv_is_running s \<and> cv_queue s = (i, fp) # rest
      \<and> cv_try_under cd sv i fp (s\<lparr>cv_queue := rest\<rparr>) = (Inl e, s1)
      \<and> as_CVError e = None
      \<longrightarrow> cv_process_queue_under cd sv s
            = s1\<lparr>error_log := error_log s1 @ [WorkerError i (str e)]\<rparr>
          \<and> s1 = run (meanwhile cd) (s\<lparr>cv_queue := rest\<rparr>))
   \<and> (\<forall>s i ps ca rest e s1.
        profiler_initialized s \<and> profiler_is_running s
        \<and> profile_queue s = (i, ps, ca) # rest
        \<and> profiler_try_under cd sv i ps ca (s\<lparr>profile_queue := rest\<rparr>) = (Inl e, s1)
        \<longrightarrow> profiler_process_queue_under cd sv s
              = s1\<lparr>error_log := error_log s1 @ [WorkerError i (str e)]\<rparr>
            \<and> (s1 = run (meanwhile cd) (s\<lparr>profile_queue := rest\<rparr>)
                \<or> (\<exists>d p c m.
                      ca = Some d \<and> analyze_cv sv ps ca = Inr p
                      \<and> m = run (meanwhile cd) (s\<lparr>profile_queue := rest\<rparr>)
                      \<and> cv_status c = COMPLETED \<and> cv_id c = i
                      \<and> s1 = m\<lparr>cv_profiles := AList.update i c (cv_profiles m),
                               users := users s1\<rparr>)))
   \<and> (\<forall>s i fp rest e s1.
        jd_initialized s \<and> jd_is_running s \<and> jd_queue s = (i, fp) # rest
        \<and> store_keyed s
        \<and> jd_try_under cd sv i fp (s\<lparr>jd_queue := rest\<rparr>) = (Inl e, s1)
        \<and> as_RoleListingError e = None
        \<longrightarrow> jd_process_queue_under cd sv s
              = s1\<lparr>error_log := error_log s1 @ [WorkerError i (str e)]\<rparr>
            \<and> (s1 = s\<lparr>jd_queue := rest\<rparr>
                \<or> (\<exists>r. get_role_profile s i = Some r
                       \<and> s1 = run (meanwhile cd)
                                 (s\<lparr>jd_queue := rest,
                                    role_profiles :=
                                      AList.update i
                                        (r\<lparr>run_status_comment := None,
                                           run_updated_at := clock sv\<rparr>)
                                        (role_profiles s)\<rparr>))
                \<or> (\<exists>r paragraphs p r2 msg m.
                       get_role_profile s i = Some r \<and> jd_extract sv i fp = Inr paragraphs
                       \<and> analyze_jd sv paragraphs = Inr (Some p)
                       \<and> m = run (meanwhile cd)
                                (s\<lparr>jd_queue := rest,
                                   role_profiles :=
                                     AList.update i
                                       (r\<lparr>run_status_comment := None,
                                          run_updated_at := clock sv\<rparr>)
                                       (role_profiles s)\<rparr>)
                       \<and> run_status r2 = COMPLETED \<and> run_id r2 = i
                       \<and> e = ServiceFailure msg
                       \<and> ((store_error cd JD_add_listing = Some msg
                             \<and> s1 = m\<lparr>role_profiles :=
                                        AList.update i r2 (role_profiles m)\<rparr>)
                            \<or> (\<exists>new_role.
                                  store_error cd JD_delete_run = Some msg
                                  \<and> s1 = m\<lparr>role_profiles :=
                                             AList.update i r2 (role_profiles m),
                                           role_listings :=
                                             AList.update (uuid4 sv) new_role
                                               (role_listings m)\<rparr>)))))"
proof (intro conjI allI impI)
  fix s i fp rest e s1
  assume a: "cv_initialized s \<and> cv_is_running s \<and> cv_queue s = (i, fp) # rest
      \<and> cv_try_under cd sv i fp (s\<lparr>cv_queue := rest\<rparr>) = (Inl e, s1)
      \<and> as_CVError e = None"
  show "cv_process_queue_under cd sv s
          = s1\<lparr>error_log := error_log s1 @ [WorkerError i (str e)]\<rparr>"
    using a by (simp add: cv_process_queue_under_def log_worker_error_def)
  show "s1 = run (meanwhile cd) (s\<lparr>cv_queue := rest\<rparr>)"
    using a cv_try_under_raises [of cd sv i fp "s\<lparr>cv_queue := rest\<rparr>"] by auto
next
  fix s i ps ca rest e s1
  assume a: "profiler_initialized s \<and> profiler_is_running s
        \<and> profile_queue s = (i, ps, ca) # rest
        \<and> profiler_try_under cd sv i ps ca (s\<lparr>profile_queue := rest\<rparr>) = (Inl e, s1)"
  then have t: "profiler_try_under cd sv i ps ca (s\<lparr>profile_queue := rest\<rparr>) = (Inl e, s1)"
    by simp
  define m where "m = run (meanwhile cd) (s\<lparr>profile_queue := rest\<rparr>)"
  show "profiler_process_queue_under cd sv s
          = s1\<lparr>error_log := error_log s1 @ [WorkerError i (str e)]\<rparr>"
    using a by (simp add: profiler_process_queue_under_def log_worker_error_def)
  from profiler_try_under_cases [OF t]
  show "s1 = run (meanwhile cd) (s\<lparr>profile_queue := rest\<rparr>)
          \<or> (\<exists>d p c m.
                ca = Some d \<and> analyze_cv sv ps ca = Inr p
                \<and> m = run (meanwhile cd) (s\<lparr>profile_queue := rest\<rparr>)
                \<and> cv_status c = COMPLETED \<and> cv_id c = i
                \<and> s1 = m\<lparr>cv_profiles := AList.update i c (cv_profiles m),
                         users := users s1\<rparr>)"
  proof
    assume "s1 = run (meanwhile cd) (s\<lparr>profile_queue := rest\<rparr>) \<and> (\<exists>e'. Inl e = Inl e')"
    then show ?thesis by simp
  next
    assume "\<exists>d p avg ye s2. ca = Some d \<and> analyze_cv sv ps ca = Inr p
             \<and> update_cv_profile (clock sv) i p avg (Some (creativity_score d))
                  (Some (formatting_score d)) (Some (grammar_score d)) COMPLETED None ye
                  (run (meanwhile cd) (s\<lparr>profile_queue := rest\<rparr>))
                 = Inr s2
             \<and> merge_into_user_under cd i s2 = (Inl e, s1)"
    then obtain d :: CVDescription and p avg ye s2 where ca: "ca = Some d"
      and an: "analyze_cv sv ps ca = Inr p"
      and w: "update_cv_profile (clock sv) i p avg (Some (creativity_score d))
                (Some (formatting_score d)) (Some (grammar_score d)) COMPLETED None ye m
              = Inr s2"
      and mg: "merge_into_user_under cd i s2 = (Inl e, s1)"
      unfolding m_def by blast
    obtain c where c: "cv_status c = COMPLETED" "cv_id c = i"
      and s2: "s2 = m\<lparr>cv_profiles := AList.update i c (cv_profiles m)\<rparr>"
      using update_cv_profile_result [OF w] by blast
    have "s1 = s2\<lparr>users := users s1\<rparr>"
      using mg by (rule merge_into_user_under_frame)
    then have "s1 = m\<lparr>cv_profiles := AList.update i c (cv_profiles m), users := users s1\<rparr>"
      using s2 by simp
    then show ?thesis using ca an c unfolding m_def by blast
  qed
next
  fix s i fp rest e s1
  assume a: "jd_initialized s \<and> jd_is_running s \<and> jd_queue s = (i, fp) # rest
        \<and> store_keyed s
        \<and> jd_try_under cd sv i fp (s\<lparr>jd_queue := rest\<rparr>) = (Inl e, s1)
        \<and> as_RoleListingError e = None"
  then have t: "jd_try_under cd sv i fp (s\<lparr>jd_queue := rest\<rparr>) = (Inl e, s1)"
    and n: "as_RoleListingError e = None"
    and k: "store_keyed (s\<lparr>jd_queue := rest\<rparr>)"
    by (simp_all add: store_keyed_def)
  show "jd_process_queue_under cd sv s
          = s1\<lparr>error_log := error_log s1 @ [WorkerError i (str e)]\<rparr>"
    using a by (simp add: jd_process_queue_under_def log_worker_error_def)
  show "s1 = s\<lparr>jd_queue := rest\<rparr>
          \<or> (\<exists>r. get_role_profile s i = Some r
                 \<and> s1 = run (meanwhile cd)
                           (s\<lparr>jd_queue := rest,
                              role_profiles :=
                                AList.update i
                                  (r\<lparr>run_status_comment := None,
                                     run_updated_at := clock sv\<rparr>)
                                  (role_profiles s)\<rparr>))
          \<or> (\<exists>r paragraphs p r2 msg m.
                 get_role_profile s i = Some r \<and> jd_extract sv i fp = Inr paragraphs
                 \<and> analyze_jd sv paragraphs = Inr (Some p)
                 \<and> m = run (meanwhile cd)
                          (s\<lparr>jd_queue := rest,
                             role_profiles :=
                               AList.update i
                                 (r\<lparr>run_status_comment := None,
                                    run_updated_at := clock sv\<rparr>)
                                 (role_profiles s)\<rparr>)
                 \<and> run_status r2 = COMPLETED \<and> run_id r2 = i
                 \<and> e = ServiceFailure msg
                 \<and> ((store_error cd JD_add_listing = Some msg
                       \<and> s1 = m\<lparr>role_profiles :=
                                  AList.update i r2 (role_profiles m)\<rparr>)
                      \<or> (\<exists>new_role.
                            store_error cd JD_delete_run = Some msg
                            \<and> s1 = m\<lparr>role_profiles :=
                                       AList.update i r2 (role_profiles m),
                                     role_listings :=
                                       AList.update (uuid4 sv) new_role
                                         (role_listings m)\<rparr>)))"
    using jd_try_under_outcomes [OF k t n] by (simp add: get_role_profile_def)
qed

theorem uncaught_failure_witness:
  "cv_queue cv_uploaded = [(''u1'', ''backend/uploads/u1/cv.pdf'')]
   \<and> fst (cv_try_under calm failing_analysis ''u1'' ''backend/uploads/u1/cv.pdf''
             (cv_uploaded\<lparr>cv_queue := []\<rparr>))
       = Inl (ServiceFailure ''503 Service Unavailable'')
   \<and> cv_process_queue_under calm failing_analysis cv_uploaded
       = cv_uploaded\<lparr>cv_queue := [],
           error_log := error_log cv_uploaded
             @ [WorkerError ''u1'' ''503 Service Unavailable'']\<rparr>
   \<and> map_option cv_status (get_cv_profile cv_uploaded ''u1'') = Some PENDING
   \<and> profile_queue (handed_off (Some sample_assessment))
       = [(''u1'', [''Jane Doe'', ''Engineer''], Some sample_assessment)]
   \<and> fst (profiler_try_under calm failing_llm ''u1'' [''Jane Doe'', ''Engineer'']
             (Some sample_assessment)
             (handed_off (Some sample_assessment)\<lparr>profile_queue := []\<rparr>))
       = Inl (LLMInferenceError ''Failed to analyze CV: 429 Too Many Requests'')
   \<and> profiler_process_queue_under calm failing_llm (handed_off (Some sample_assessment))
       = handed_off (Some sample_assessment)
           \<lparr>profile_queue := [],
            error_log := error_log (handed_off (Some sample_assessment))
              @ [WorkerError ''u1'' ''Failed to analyze CV: 429 Too Many Requests'']\<rparr>
   \<and> jd_queue jd_uploaded = [(''role-1'', ''backend/uploads/role-1/jd.pdf'')]
   \<and> map_option run_status (get_role_profile jd_uploaded ''role-1'') = Some PENDING
   \<and> fst (jd_try_under calm failing_llm ''role-1'' ''backend/uploads/role-1/jd.pdf''
             (jd_uploaded\<lparr>jd_queue := []\<rparr>))
       = Inl (LLMInferenceError ''Failed to analyze CV: 429 Too Many Requests'')
   \<and> map_option run_status
        (get_role_profile (jd_process_queue_under calm failing_llm jd_uploaded) ''role-1'')
       = Some PENDING
   \<and> error_log (jd_process_queue_under calm failing_llm jd_uploaded)
       = error_log jd_uploaded
           @ [WorkerError ''role-1'' ''Failed to analyze CV: 429 Too Many Requests'']
   \<and> role_listings (jd_process_queue_under calm failing_llm jd_uploaded)
       = role_listings jd_uploaded"
proof -
  note claim = uncaught_failure_is_logged_and_handler_writes_nothing
  let ?h = "handed_off (Some sample_assessment)"
  let ?m = "''Failed to analyze CV: 429 Too Many Requests''"
  let ?fp = "''backend/uploads/role-1/jd.pdf''"
  have c0: "cv_initialized cv_uploaded" "cv_is_running cv_uploaded"
    by code_simp+
  have c1: "cv_queue cv_uploaded = [(''u1'', ''backend/uploads/u1/cv.pdf'')]"
    by code_simp
  have c2: "fst (cv_try_under calm failing_analysis ''u1'' ''backend/uploads/u1/cv.pdf''
                   (cv_uploaded\<lparr>cv_queue := []\<rparr>))
            = Inl (ServiceFailure ''503 Service Unavailable'')"
    by code_simp
  have c3: "map_option cv_status (get_cv_profile cv_uploaded ''u1'') = Some PENDING"
    by code_simp
  obtain s1 where c4: "cv_try_under calm failing_analysis ''u1'' ''backend/uploads/u1/cv.pdf''
                         (cv_uploaded\<lparr>cv_queue := []\<rparr>)
                       = (Inl (ServiceFailure ''503 Service Unavailable''), s1)"
    using c2 by (metis prod.collapse)
  have c5: "as_CVError (ServiceFailure ''503 Service Unavailable'') = None"
    by simp
  have c6: "cv_process_queue_under calm failing_analysis cv_uploaded
              = s1\<lparr>error_log := error_log s1
                     @ [WorkerError ''u1'' (str (ServiceFailure ''503 Service Unavailable''))]\<rparr>
            \<and> s1 = run (meanwhile calm) (cv_uploaded\<lparr>cv_queue := []\<rparr>)"
    using claim [of calm failing_analysis, THEN conjunct1, rule_format,
        of cv_uploaded "''u1''" "''backend/uploads/u1/cv.pdf''" "[]"
          "ServiceFailure ''503 Service Unavailable''" s1]
      c0 c1 c4 c5
    by blast
  have c7: "cv_process_queue_under calm failing_analysis cv_uploaded
       = cv_uploaded\<lparr>cv_queue := [],
           error_log := error_log cv_uploaded
             @ [WorkerError ''u1'' ''503 Service Unavailable'']\<rparr>"
    using c6 by (simp add: meanwhile_calm)
  have p0: "profiler_initialized ?h" "profiler_is_running ?h"
    by code_simp+
  have p1: "profile_queue ?h = [(''u1'', [''Jane Doe'', ''Engineer''], Some sample_assessment)]"
    by code_simp
  have p2: "fst (profiler_try_under calm failing_llm ''u1'' [''Jane Doe'', ''Engineer'']
                   (Some sample_assessment) (?h\<lparr>profile_queue := []\<rparr>))
            = Inl (LLMInferenceError ?m)"
    by code_simp
  have p3: "analyze_cv failing_llm [''Jane Doe'', ''Engineer''] (Some sample_assessment)
              = Inl (LLMInferenceError ?m)"
    by code_simp
  obtain u1 where p4: "profiler_try_under calm failing_llm ''u1'' [''Jane Doe'', ''Engineer'']
                         (Some sample_assessment) (?h\<lparr>profile_queue := []\<rparr>)
                       = (Inl (LLMInferenceError ?m), u1)"
    using p2 by (metis prod.collapse)
  have p5: "profiler_process_queue_under calm failing_llm ?h
              = u1\<lparr>error_log := error_log u1
                     @ [WorkerError ''u1'' (str (LLMInferenceError ?m))]\<rparr>
            \<and> (u1 = run (meanwhile calm) (?h\<lparr>profile_queue := []\<rparr>)
                \<or> (\<exists>d p c m.
                      Some sample_assessment = Some d
                      \<and> analyze_cv failing_llm [''Jane Doe'', ''Engineer'']
                            (Some sample_assessment) = Inr p
                      \<and> m = run (meanwhile calm) (?h\<lparr>profile_queue := []\<rparr>)
                      \<and> cv_status c = COMPLETED \<and> cv_id c = ''u1''
                      \<and> u1 = m\<lparr>cv_profiles := AList.update ''u1'' c (cv_profiles m),
                               users := users u1\<rparr>))"
    using claim [of calm failing_llm, THEN conjunct2, THEN conjunct1, rule_format,
        of ?h "''u1''" "[''Jane Doe'', ''Engineer'']" "Some sample_assessment" "[]"
          "LLMInferenceError ?m" u1]
      p0 p1 p4
    by blast
  have p6: "u1 = ?h\<lparr>profile_queue := []\<rparr>"
    using p5 p3 by (simp add: meanwhile_calm)
  have p7: "profiler_process_queue_under calm failing_llm ?h
       = ?h\<lparr>profile_queue := [],
            error_log := error_log ?h @ [WorkerError ''u1'' ?m]\<rparr>"
    using p5 p6 by simp
  have "reachable jd_uploaded"
    unfolding jd_uploaded_def by (rule reachable_run) (rule reachable.start)
  then have j0: "store_keyed jd_uploaded"
    by (rule reachable_store_keyed)
  have j1: "jd_initialized jd_uploaded" "jd_is_running jd_uploaded"
    by code_simp+
  have j2: "jd_queue jd_uploaded = [(''role-1'', ?fp)]"
    by code_simp
  have j3: "map_option run_status (get_role_profile jd_uploaded ''role-1'') = Some PENDING"
    by code_simp
  have j4: "fst (jd_try_under calm failing_llm ''role-1'' ?fp (jd_uploaded\<lparr>jd_queue := []\<rparr>))
              = Inl (LLMInferenceError ?m)"
    by code_simp
  obtain t1 where j5: "jd_try_under calm failing_llm ''role-1'' ?fp
                         (jd_uploaded\<lparr>jd_queue := []\<rparr>)
                       = (Inl (LLMInferenceError ?m), t1)"
    using j4 by (metis prod.collapse)
  have j6: "as_RoleListingError (LLMInferenceError ?m) = None"
    by simp
  note j7 = claim [of calm failing_llm, THEN conjunct2, THEN conjunct2, rule_format,
      of jd_uploaded "''role-1''" ?fp "[]" "LLMInferenceError ?m" t1]
  have j8: "jd_process_queue_under calm failing_llm jd_uploaded
              = t1\<lparr>error_log := error_log t1
                     @ [WorkerError ''role-1'' (str (LLMInferenceError ?m))]\<rparr>"
    using j7 j0 j1 j2 j5 j6 by blast
  have j9: "t1 = jd_uploaded\<lparr>jd_queue := []\<rparr>
            \<or> (\<exists>r. get_role_profile jd_uploaded ''role-1'' = Some r
                   \<and> t1 = run (meanwhile calm)
                             (jd_uploaded\<lparr>jd_queue := [],
                                role_profiles :=
                                  AList.update ''role-1''
                                    (r\<lparr>run_status_comment := None,
                                       run_updated_at := clock failing_llm\<rparr>)
                                    (role_profiles jd_uploaded)\<rparr>))"
    using j7 j0 j1 j2 j5 j6 by blast
  have j10: "map_option run_status (get_role_profile t1 ''role-1'') = Some PENDING
             \<and> error_log t1 = error_log jd_uploaded
             \<and> role_listings t1 = role_listings jd_uploaded"
    using j9 j3 by (auto simp: meanwhile_calm get_role_profile_def update_conv')
  have j11: "map_option run_status
               (get_role_profile (jd_process_queue_under calm failing_llm jd_uploaded)
                  ''role-1'')
             = Some PENDING"
    using j10 by (simp add: j8 get_role_profile_def)
  have j12: "error_log (jd_process_queue_under calm failing_llm jd_uploaded)
       = error_log jd_uploaded @ [WorkerError ''role-1'' ?m]"
    using j10 by (simp add: j8)
  have j13: "role_listings (jd_process_queue_under calm failing_llm jd_uploaded)
       = role_listings jd_uploaded"
    using j10 by (simp add: j8)
  show ?thesis
    using c1 c2 c7 c3 p1 p2 p7 j2 j3 j4 j11 j12 j13 by blast
qed

text \<open>
  Where C3 as it is stated fails: an exception that is not a domain error, after which
  the run is not PENDING.  The store refuses the upsert of the new listing: the run has
  been written COMPLETED by then, the exception is logged, and the run stays COMPLETED in
  the store, with no listing.  The recruiter withdraws the job description while it is
  analysed: the completion write finds no run and raises \<open>ValueError\<close>, which is logged,
  and there is no run afterwards.
\<close>

theorem store_failure_leaves_run_completed:
  "jd_queue jd_uploaded = [(''role-1'', ''backend/uploads/role-1/jd.pdf'')]
   \<and> map_option run_status (get_role_profile jd_uploaded ''role-1'') = Some PENDING
   \<and> fst (jd_try_under listing_store_down sample_services ''role-1''
             ''backend/uploads/role-1/jd.pdf'' (jd_uploaded\<lparr>jd_queue := []\<rparr>))
       = Inl (ServiceFailure ''503 Service Unavailable'')
   \<and> as_RoleListingError (ServiceFailure ''503 Service Unavailable'') = None
   \<and> map_option run_status
        (get_role_profile
           (jd_process_queue_under listing_store_down sample_services jd_uploaded) ''role-1'')
       = Some COMPLETED
   \<and> role_listings (jd_process_queue_under listing_store_down sample_services jd_uploaded)
       = []
   \<and> error_log (jd_process_queue_under listing_store_down sample_services jd_uploaded)
       = [WorkerError ''role-1'' ''503 Service Unavailable'']
   \<and> fst (jd_try_under withdrawn_meanwhile sample_services ''role-1''
             ''backend/uploads/role-1/jd.pdf'' (jd_uploaded\<lparr>jd_queue := []\<rparr>))
       = Inl (ValueError ''No role profile found with ID role-1'')
   \<and> as_RoleListingError (ValueError ''No role profile found with ID role-1'') = None
   \<and> get_role_profile
        (jd_process_queue_under withdrawn_meanwhile sample_services jd_uploaded) ''role-1''
       = None
   \<and> error_log (jd_process_queue_under withdrawn_meanwhile sample_services jd_uploaded)
       = [WorkerError ''role-1'' ''No role profile found with ID role-1'']"
proof -
  have a: "jd_queue jd_uploaded = [(''role-1'', ''backend/uploads/role-1/jd.pdf'')]"
    by code_simp
  have b: "map_option run_status (get_role_profile jd_uploaded ''role-1'') = Some PENDING"
    by code_simp
  have c: "fst (jd_try_under listing_store_down sample_services ''role-1''
             ''backend/uploads/role-1/jd.pdf'' (jd_uploaded\<lparr>jd_queue := []\<rparr>))
       = Inl (ServiceFailure ''503 Service Unavailable'')"
    by code_simp
  have d: "as_RoleListingError (ServiceFailure ''503 Service Unavailable'') = None"
    by simp
  have e: "map_option run_status
        (get_role_profile
           (jd_process_queue_under listing_store_down sample_services jd_uploaded) ''role-1'')
       = Some COMPLETED"
    by code_simp
  have f: "role_listings (jd_process_queue_under listing_store_down sample_services
                            jd_uploaded) = []"
    by code_simp
  have g: "error_log (jd_process_queue_under listing_store_down sample_services jd_uploaded)
       = [WorkerError ''role-1'' ''503 Service Unavailable'']"
    by code_simp
  have h: "fst (jd_try_under withdrawn_meanwhile sample_services ''role-1''
             ''backend/uploads/role-1/jd.pdf'' (jd_uploaded\<lparr>jd_queue := []\<rparr>))
       = Inl (ValueError ''No role profile found with ID role-1'')"
    by code_simp
  have i: "as_RoleListingError (ValueError ''No role profile found with ID role-1'') = None"
    by simp
  have j: "get_role_profile
        (jd_process_queue_under withdrawn_meanwhile sample_services jd_uploaded) ''role-1''
       = None"
    by code_simp
  have k: "error_log (jd_process_queue_under withdrawn_meanwhile sample_services jd_uploaded)
       = [WorkerError ''role-1'' ''No role profile found with ID role-1'']"
    by code_simp
  show ?thesis using a b c d e f g h i j k by blast
qed


end
